theory Spec2Isabelle
  imports Complex_Main
begin


section \<open>Tensors, errors and device operations\<close>

text \<open>
  The decoder works on tensors: a shape, an element type and a flat row-major buffer
  (what \<^verbatim>\<open>bufferCast\<close> hands to a kernel). \<^verbatim>\<open>SizeType\<close> and \<^verbatim>\<open>TokenIdType\<close> are
  32-bit integers in the source; the values compared by the checks below are read as
  mathematical integers. Floating-point payloads are read as reals: the properties
  proved here compare and select values, they do not depend on rounding.
\<close>

type_synonym SizeType = int
type_synonym TokenIdType = int

datatype DataType = kFLOAT | kHALF | kINT8 | kINT32 | kBOOL | kUINT8 | kINT64

record 'a ITensor =
  shape :: "int list"
  dataType :: DataType
  buf :: "'a list"

text \<open>
  \<^verbatim>\<open>Dims::d\<close> is a fixed array; entries past the rank are zero for shapes built by
  \<^verbatim>\<open>makeShape\<close>.
\<close>

definition dAt :: "int list \<Rightarrow> nat \<Rightarrow> int" where
  "dAt sh i = (if i < length sh then sh ! i else 0)"

text \<open>\<^verbatim>\<open>ITensor::getSize\<close>: the number of elements, the volume of the shape.\<close>

definition getSize :: "'a ITensor \<Rightarrow> nat" where
  "getSize t = nat (prod_list (shape t))"

text \<open>
  Every \<^verbatim>\<open>TLLM_CHECK\<close>, \<^verbatim>\<open>TLLM_CHECK_WITH_INFO\<close> and \<^verbatim>\<open>TLLM_THROW\<close> of the source is
  one constructor, carrying the numbers its message prints. \<open>OutOfRange\<close> is the
  exception of \<^verbatim>\<open>std::vector::at\<close>, \<open>LayerFailure\<close> an exception from the decoding
  layer. \<open>NullDereference\<close> and \<open>OutOfBounds\<close> stand for the undefined behaviour of
  dereferencing an absent tensor and of indexing past a buffer.
\<close>

datatype error =
    GatherTreeOnlyForBeamSearch
  | DecoderBatchSizeMismatch int int
  | DecoderBeamWidthMismatch int int
  | DecoderSeqLengthTooLarge int int
  | BeamWidthNotSupported int
  | BatchSizeTooLarge int int
  | DraftTokensBatchSizeMismatch int int
  | ContextLengthBatchSizeMismatch int int
  | NumDraftTokensBatchSizeMismatch int int
  | SequenceLengthBatchSizeMismatch int int
  | DraftLogitsVocabSizeMismatch
  | IncorrectLogitsDtype
  | LogitsDtypeMismatch
  | StopWordsLensMissing
  | LayerFailure
  | ModeNotAuto
  | PenaltyParamsNotSet
  | ArgumentSizeMismatch
  | PenaltyOutOfLimits
  | LogitsVecSizeMismatch
  | BadOptionalAccess
  | OutOfCache
  | LogicError
  | OutOfRange
  | DivisionByZero
  | NullDereference
  | OutOfBounds

text \<open>
  The work a host function puts on the device stream, in program order. A function
  returns this trace together with its outcome; a thrown exception is \<open>Inl\<close>.
\<close>

datatype device_op =
    LaunchInitializeOutput
  | LaunchInsertUnfinishedPath
  | LaunchFinalize
  | LaunchAcceptDraftTokensByIds
  | LaunchAcceptDraftTokensByLogits
  | LayerForward
  | StreamSynchronize
  | LaunchBatchApplyPenalty

type_synonym 'a result = "device_op list \<times> (error + 'a)"

text \<open>
  Modelled from the spec: the header of \<^verbatim>\<open>FinishedState\<close> is not among the sources.
  Section 4.3.5 gives the states of a slot and names the three terminal ones.
\<close>

datatype FinishedState =
    IDLE | CONTEXT | GENERATION | FINISHED_EOS | FINISHED_MAX_LEN | FINISHED_STOP_WORDS

fun isFinished :: "FinishedState \<Rightarrow> bool" where
  "isFinished FINISHED_EOS = True"
| "isFinished FINISHED_MAX_LEN = True"
| "isFinished FINISHED_STOP_WORDS = True"
| "isFinished _ = False"

section \<open>Decoding input and output\<close>

record BeamHypothesesBuffers =
  isDone :: "bool ITensor option"
  cumLogProbsCBA :: "real ITensor option"
  logProbsCBA :: "real ITensor option"
  minNormedScores :: "real ITensor option"
  normedScores :: "real ITensor option"
  numBeams :: "int ITensor option"
  outputIdsTgt :: "int ITensor option"
  sequenceLengthsTgt :: "int ITensor option"

record MedusaOutputs =
  medusaNextDraftTokens :: "int ITensor"
  medusaAcceptedTokensLen :: "int ITensor"
  medusaAcceptedLengthsCumSum :: "int ITensor"
  medusaPathsOffsets :: "int ITensor"

record DecodingOutput =
  ids :: "int ITensor"
  newTokens :: "int ITensor"
  cumLogProbs :: "real ITensor option"
  parentIds :: "int ITensor option"
  cacheIndirection :: "int ITensor option"
  finished :: "FinishedState ITensor option"
  finishedSum :: "int ITensor option"
  lengths :: "int ITensor option"
  logProbs :: "real ITensor option"
  beamHypotheses :: BeamHypothesesBuffers
  medusaOutputs :: "MedusaOutputs option"

record MedusaInputs =
  medusaPaths :: "int ITensor"
  medusaTreeIds :: "int ITensor"
  medusaLogits :: "real ITensor option list list"
  medusaCurTokensPerStep :: "int ITensor"
  medusaTargetTokensPerStep :: "int ITensor"

record DecodingInput =
  step :: int
  maxLength :: int
  maxAttentionWindow :: int
  sinkTokenLength :: int
  maxBatchSize :: nat
  endIds :: "int ITensor"
  logits :: "real ITensor option"
  logitsVec :: "real ITensor list option"
  inCacheIndirection :: "int ITensor option"
  sequenceLimitLength :: "int ITensor option"
  embeddingBias :: "real ITensor option"
  inLengths :: "int ITensor option"
  badWordsPtrs :: "int ITensor option"
  badWordsLens :: "int ITensor option"
  maxBadWordsLen :: int
  stopWordsPtrs :: "int ITensor option"
  stopWordsLens :: "int ITensor option"
  maxStopWordsLen :: int
  inFinished :: "FinishedState ITensor option"
  batchSlots :: "int ITensor option"
  medusaInputs :: "MedusaInputs option"

section \<open>Beam-search finalisation: gatherTree\<close>

text \<open>
  The kernel-side view of the beam-search buffers, with the fields that
  \<^verbatim>\<open>gatherTree\<close> assigns. Buffers are the flat arrays of the tensors they alias.
\<close>

record BeamHypotheses =
  seq_len :: "int list"
  parent_ids_src :: "int list"
  output_ids_src :: "int list"
  log_probs :: "real list"
  max_seq_len :: int
  length_penalties :: "real list option"
  output_ids_cba :: "int list"
  seq_len_cba :: "int list"
  cum_log_probs_cba :: "real list"
  normed_scores_cba :: "real list"
  log_probs_cba :: "real list"
  min_normed_scores :: "real list"
  num_beams :: "int list"
  is_done :: "bool list"
  input_lengths :: "int list"
  batch_size :: int
  beam_width :: int
  cum_log_probs :: "real list"
  bh_finished :: "FinishedState list"
  final_output_ids :: "int list"

text \<open>Writing a run of values into a flat buffer at an offset.\<close>

definition writeRow :: "'a list \<Rightarrow> nat \<Rightarrow> 'a list \<Rightarrow> 'a list" where
  "writeRow xs off ys = fold (\<lambda>(i, y) acc. acc[off + i := y]) (enumerate 0 ys) xs"

text \<open>
  Modelled from the spec: the kernel \<^verbatim>\<open>invokeInitializeOutput\<close> is not among the
  sources. It receives the final buffer, the end ids, the number of rows
  \<open>batchSize * beamWidth\<close> and the row length, and leaves every row filled with the
  row's end id, so that positions past an emitted hypothesis hold the end id.
\<close>

definition invokeInitializeOutput :: "int list \<Rightarrow> int list \<Rightarrow> nat \<Rightarrow> nat \<Rightarrow> int list" where
  "invokeInitializeOutput finalOutputIds endIdsBuf batchBeam maxSeqLen =
     writeRow finalOutputIds 0
       (concat (map (\<lambda>bb. replicate maxSeqLen (endIdsBuf ! bb)) [0..<batchBeam]))"

text \<open>
  Modelled from the spec: the kernel \<^verbatim>\<open>invokeInsertUnfinishedPath\<close> is not among the
  sources. Section 4.3.3: a hypothesis is reconstructed "by walking parent pointers
  from its end back to the prompt", and gatherTree must "insert any still-live beams
  into the CBA". A beam is live when its finished state is not terminal. The inserted
  entry goes behind the \<open>num_beams\<close> entries the slot already has; its score is the
  length-normalised cumulative log probability, with the default length penalty 1
  that \<^verbatim>\<open>gatherTree\<close> selects by passing no length penalties.
\<close>

fun walkParents :: "int list \<Rightarrow> int list \<Rightarrow> nat \<Rightarrow> nat \<Rightarrow> nat \<Rightarrow> nat \<Rightarrow> int list" where
  "walkParents outIds parIds L base b 0 = []"
| "walkParents outIds parIds L base b (Suc p) =
     walkParents outIds parIds L base (nat (parIds ! ((base + b) * L + p))) p
       @ [outIds ! ((base + b) * L + p)]"

definition insertBeam :: "BeamHypotheses \<Rightarrow> nat \<Rightarrow> nat \<Rightarrow> BeamHypotheses" where
  "insertBeam bh slot beam =
     (let nBM = nat (beam_width bh);
          L = nat (max_seq_len bh);
          src = slot * nBM + beam;
          dst = slot * nBM * 2 + nat (num_beams bh ! slot);
          len = nat (seq_len bh ! src);
          path = walkParents (output_ids_src bh) (parent_ids_src bh) L (slot * nBM) beam len;
          lp = (case length_penalties bh of None \<Rightarrow> 1 | Some ps \<Rightarrow> ps ! slot)
      in bh\<lparr>output_ids_cba := writeRow (output_ids_cba bh) (dst * L) path,
            seq_len_cba := (seq_len_cba bh)[dst := int len],
            cum_log_probs_cba := (cum_log_probs_cba bh)[dst := cum_log_probs bh ! src],
            normed_scores_cba :=
              (normed_scores_cba bh)[dst := cum_log_probs bh ! src / (real len * lp)],
            num_beams := (num_beams bh)[slot := num_beams bh ! slot + 1]\<rparr>)"

definition liveBeams :: "BeamHypotheses \<Rightarrow> (nat \<times> nat) list" where
  "liveBeams bh =
     filter (\<lambda>(s, b). \<not> isFinished (bh_finished bh ! (s * nat (beam_width bh) + b)))
       (List.product [0..<nat (batch_size bh)] [0..<nat (beam_width bh)])"

definition invokeInsertUnfinishedPath :: "BeamHypotheses \<Rightarrow> BeamHypotheses" where
  "invokeInsertUnfinishedPath bh = fold (\<lambda>(s, b) h. insertBeam h s b) (liveBeams bh) bh"

text \<open>
  Modelled from the spec: the kernel \<^verbatim>\<open>invokeFinalize\<close> is not among the sources.
  Section 4.3.3: "emit the top-beamWidth CBA entries by normedScores into
  finalOutputIds[BS, B, L]. Ties broken by lower beam index." The sort is stable, so
  equal scores keep the order of their indices.
\<close>

definition rankedCBA :: "BeamHypotheses \<Rightarrow> nat \<Rightarrow> nat list" where
  "rankedCBA bh slot =
     take (nat (beam_width bh))
       (sort_key (\<lambda>k. - (normed_scores_cba bh ! (slot * nat (beam_width bh) * 2 + k)))
          [0..<nat (num_beams bh ! slot)])"

definition emitHypothesis :: "BeamHypotheses \<Rightarrow> nat \<Rightarrow> nat \<Rightarrow> nat \<Rightarrow> int list \<Rightarrow> int list" where
  "emitHypothesis bh slot r k fin =
     (let nBM = nat (beam_width bh);
          L = nat (max_seq_len bh);
          src = slot * nBM * 2 + k
      in writeRow fin ((slot * nBM + r) * L)
           (take (nat (seq_len_cba bh ! src)) (take L (drop (src * L) (output_ids_cba bh)))))"

definition invokeFinalize :: "BeamHypotheses \<Rightarrow> BeamHypotheses" where
  "invokeFinalize bh =
     bh\<lparr>final_output_ids :=
          fold (\<lambda>s fin. fold (\<lambda>(r, k) f. emitHypothesis bh s r k f)
                         (enumerate 0 (rankedCBA bh s)) fin)
            [0..<nat (batch_size bh)] (final_output_ids bh)\<rparr>"

text \<open>The four checks at the head of \<^verbatim>\<open>GptDecoder::gatherTree\<close>, in source order.\<close>

definition gatherTreeChecks :: "int list \<Rightarrow> int list \<Rightarrow> error + unit" where
  "gatherTreeChecks finalOutputIdsShape decodingOutputIdsShape =
     (let batchSize = dAt finalOutputIdsShape 0;
          beamWidth = dAt finalOutputIdsShape 1;
          maxSeqLength = dAt finalOutputIdsShape 2
      in if \<not> beamWidth > 1 then Inl GatherTreeOnlyForBeamSearch
         else if \<not> dAt decodingOutputIdsShape 0 = batchSize
           then Inl (DecoderBatchSizeMismatch (dAt decodingOutputIdsShape 0) batchSize)
         else if \<not> dAt decodingOutputIdsShape 1 = beamWidth
           then Inl (DecoderBeamWidthMismatch (dAt decodingOutputIdsShape 1) beamWidth)
         else if \<not> dAt decodingOutputIdsShape 2 \<le> maxSeqLength
           then Inl (DecoderSeqLengthTooLarge (dAt decodingOutputIdsShape 2) maxSeqLength)
         else Inr ())"

text \<open>
  The tensors that \<^verbatim>\<open>gatherTree\<close> dereferences without a test, collected so that an
  absent one is an error of the model. The kernels write through the pointers of
  \<open>bh\<close>, which alias the buffers of \<open>decodingOutput\<close>: the candidate-beam-array
  buffers written by \<^verbatim>\<open>invokeInsertUnfinishedPath\<close> are stored back into it.
\<close>

definition gatherTreeBuffers :: "real ITensor \<Rightarrow> int ITensor \<Rightarrow> DecodingOutput \<Rightarrow> DecodingInput
    \<Rightarrow> BeamHypotheses option" where
  "gatherTreeBuffers mLogProbsTiled finalOutputIds decodingOutput decodingInput =
     (let hyp = beamHypotheses decodingOutput in
      case (lengths decodingOutput, parentIds decodingOutput, cumLogProbs decodingOutput,
            finished decodingOutput, inLengths decodingInput) of
        (Some lens, Some pids, Some clp, Some fin, Some ilens) \<Rightarrow>
          (case (outputIdsTgt hyp, sequenceLengthsTgt hyp, cumLogProbsCBA hyp, normedScores hyp,
                 logProbsCBA hyp, minNormedScores hyp, numBeams hyp, isDone hyp) of
             (Some oit, Some slt, Some clpc, Some ns, Some lpc, Some mns, Some nb, Some dn) \<Rightarrow>
               Some \<lparr>seq_len = buf lens,
                     parent_ids_src = buf pids,
                     output_ids_src = buf (ids decodingOutput),
                     log_probs = buf mLogProbsTiled,
                     max_seq_len = dAt (shape finalOutputIds) 2,
                     length_penalties = None,
                     output_ids_cba = buf oit,
                     seq_len_cba = buf slt,
                     cum_log_probs_cba = buf clpc,
                     normed_scores_cba = buf ns,
                     log_probs_cba = buf lpc,
                     min_normed_scores = buf mns,
                     num_beams = buf nb,
                     is_done = buf dn,
                     input_lengths = buf ilens,
                     batch_size = dAt (shape finalOutputIds) 0,
                     beam_width = dAt (shape finalOutputIds) 1,
                     cum_log_probs = buf clp,
                     bh_finished = buf fin,
                     final_output_ids = buf finalOutputIds\<rparr>
           | _ \<Rightarrow> None)
      | _ \<Rightarrow> None)"

definition setBuf :: "'a ITensor option \<Rightarrow> 'a list \<Rightarrow> 'a ITensor option" where
  "setBuf t xs = map_option (\<lambda>u. u\<lparr>buf := xs\<rparr>) t"

definition storeBack :: "DecodingOutput \<Rightarrow> BeamHypotheses \<Rightarrow> DecodingOutput" where
  "storeBack decodingOutput bh =
     (let hyp = beamHypotheses decodingOutput in
      decodingOutput\<lparr>beamHypotheses :=
        hyp\<lparr>outputIdsTgt := setBuf (outputIdsTgt hyp) (output_ids_cba bh),
            sequenceLengthsTgt := setBuf (sequenceLengthsTgt hyp) (seq_len_cba bh),
            cumLogProbsCBA := setBuf (cumLogProbsCBA hyp) (cum_log_probs_cba bh),
            normedScores := setBuf (normedScores hyp) (normed_scores_cba bh),
            numBeams := setBuf (numBeams hyp) (num_beams bh)\<rparr>\<rparr>)"

definition gatherTree :: "real ITensor \<Rightarrow> int ITensor \<Rightarrow> DecodingOutput \<Rightarrow> DecodingInput
    \<Rightarrow> (int ITensor \<times> DecodingOutput) result" where
  "gatherTree mLogProbsTiled finalOutputIds decodingOutput decodingInput =
     (case gatherTreeChecks (shape finalOutputIds) (shape (ids decodingOutput)) of
        Inl e \<Rightarrow> ([], Inl e)
      | Inr _ \<Rightarrow>
          (let batchSize = dAt (shape finalOutputIds) 0;
               beamWidth = dAt (shape finalOutputIds) 1;
               maxSeqLength = dAt (shape finalOutputIds) 2;
               final1 = finalOutputIds\<lparr>buf := invokeInitializeOutput (buf finalOutputIds)
                          (buf (endIds decodingInput)) (nat (batchSize * beamWidth))
                          (nat maxSeqLength)\<rparr>
           in case gatherTreeBuffers mLogProbsTiled final1 decodingOutput decodingInput of
                None \<Rightarrow> ([LaunchInitializeOutput], Inl NullDereference)
              | Some bh \<Rightarrow>
                  (let bh1 = invokeInsertUnfinishedPath bh;
                       bh2 = invokeFinalize bh1
                   in ([LaunchInitializeOutput, LaunchInsertUnfinishedPath, LaunchFinalize],
                       Inr (final1\<lparr>buf := final_output_ids bh2\<rparr>,
                            storeBack decodingOutput bh2)))))"

text \<open>
  Calling \<^verbatim>\<open>gatherTree\<close> a second time on what the first call left behind, and the
  final output ids of a call.
\<close>

definition gatherTreeTwice :: "real ITensor \<Rightarrow> int ITensor \<Rightarrow> DecodingOutput \<Rightarrow> DecodingInput
    \<Rightarrow> (int ITensor \<times> DecodingOutput) result" where
  "gatherTreeTwice m f out inp =
     (case snd (gatherTree m f out inp) of
        Inl e \<Rightarrow> (fst (gatherTree m f out inp), Inl e)
      | Inr (f1, out1) \<Rightarrow> gatherTree m f1 out1 inp)"

definition finalIds :: "(int ITensor \<times> DecodingOutput) result \<Rightarrow> int list option" where
  "finalIds r = (case snd r of Inl e \<Rightarrow> None | Inr (f, out) \<Rightarrow> Some (buf f))"

text \<open>
  No beam is live: every entry of the finished mask that \<^verbatim>\<open>gatherTree\<close> visits is in
  a terminal state.
\<close>

definition noLiveBeams :: "int ITensor \<Rightarrow> DecodingOutput \<Rightarrow> bool" where
  "noLiveBeams finalOutputIds decodingOutput =
     (case finished decodingOutput of
        None \<Rightarrow> False
      | Some fin \<Rightarrow>
          list_all (\<lambda>(s, b). isFinished (buf fin ! (s * nat (dAt (shape finalOutputIds) 1) + b)))
            (List.product [0..<nat (dAt (shape finalOutputIds) 0)]
                          [0..<nat (dAt (shape finalOutputIds) 1)]))"

text \<open>
  A decoder with one slot and two beams of two tokens each, once with both beams still
  generating and an empty candidate-beam array, once with both beams finished and
  stored in the array.
\<close>

definition tensor :: "int list \<Rightarrow> DataType \<Rightarrow> 'a list \<Rightarrow> 'a ITensor" where
  "tensor sh ty xs = \<lparr>shape = sh, dataType = ty, buf = xs\<rparr>"

definition liveHypotheses :: BeamHypothesesBuffers where
  "liveHypotheses =
     \<lparr>isDone = Some (tensor [1] kBOOL [False]),
      cumLogProbsCBA = Some (tensor [1, 4] kFLOAT [0, 0, 0, 0]),
      logProbsCBA = Some (tensor [1, 4, 2] kFLOAT [0, 0, 0, 0, 0, 0, 0, 0]),
      minNormedScores = Some (tensor [1] kFLOAT [0]),
      normedScores = Some (tensor [1, 4] kFLOAT [0, 0, 0, 0]),
      numBeams = Some (tensor [1] kINT32 [0]),
      outputIdsTgt = Some (tensor [1, 4, 2] kINT32 [0, 0, 0, 0, 0, 0, 0, 0]),
      sequenceLengthsTgt = Some (tensor [1, 4] kINT32 [0, 0, 0, 0])\<rparr>"

definition liveOutput :: DecodingOutput where
  "liveOutput =
     \<lparr>ids = tensor [1, 2, 2] kINT32 [5, 6, 8, 9],
      newTokens = tensor [1, 1, 2] kINT32 [6, 9],
      cumLogProbs = Some (tensor [1, 2] kFLOAT [- 1, - 4]),
      parentIds = Some (tensor [1, 2, 2] kINT32 [0, 0, 1, 1]),
      cacheIndirection = None,
      finished = Some (tensor [1, 2] kUINT8 [GENERATION, GENERATION]),
      finishedSum = None,
      lengths = Some (tensor [1, 2] kINT32 [2, 2]),
      logProbs = None,
      beamHypotheses = liveHypotheses,
      medusaOutputs = None\<rparr>"

definition doneOutput :: DecodingOutput where
  "doneOutput =
     liveOutput\<lparr>finished := Some (tensor [1, 2] kUINT8 [FINISHED_EOS, FINISHED_MAX_LEN]),
       beamHypotheses := liveHypotheses
         \<lparr>normedScores := Some (tensor [1, 4] kFLOAT [- 2, - 1, 0, 0]),
          numBeams := Some (tensor [1] kINT32 [2]),
          outputIdsTgt := Some (tensor [1, 4, 2] kINT32 [5, 6, 8, 9, 0, 0, 0, 0]),
          sequenceLengthsTgt := Some (tensor [1, 4] kINT32 [2, 2, 0, 0])\<rparr>\<rparr>"

definition beamInput :: DecodingInput where
  "beamInput =
     \<lparr>step = 2, maxLength = 2, maxAttentionWindow = 2, sinkTokenLength = 0, maxBatchSize = 1,
      endIds = tensor [1, 2] kINT32 [7, 7],
      logits = None, logitsVec = None, inCacheIndirection = None, sequenceLimitLength = None,
      embeddingBias = None, inLengths = Some (tensor [1, 2] kINT32 [1, 1]),
      badWordsPtrs = None, badWordsLens = None, maxBadWordsLen = 0,
      stopWordsPtrs = None, stopWordsLens = None, maxStopWordsLen = 0,
      inFinished = None, batchSlots = None, medusaInputs = None\<rparr>"

definition finalBuffer :: "int ITensor" where
  "finalBuffer = tensor [1, 2, 2] kINT32 [0, 0, 0, 0]"

definition logProbsTiled :: "real ITensor" where
  "logProbsTiled = tensor [2, 1, 2] kFLOAT [0, 0, 0, 0]"


section \<open>Speculative decoding: accepting draft tokens\<close>

text \<open>
  Modelled from the spec: the kernel \<^verbatim>\<open>invokeAcceptDraftTokensByIds\<close> is not among the
  sources. Section 4.3.4: "compare drafted tokens against target-model tokens
  prefix-wise; accept the longest matching prefix and emit one extra sampled token from
  the logits at the first mismatch position. Update sequenceLengths by the accepted
  count + 1." The draft tokens of a slot are the first \<open>numDraftTokens\<close> entries of its
  row of \<open>draftIds\<close>; the target-model tokens are those of its row of \<open>targetIds\<close> behind
  the context. The kernel also writes a finished mask and a finished sum, for which the
  spec gives no rule; they are left out.
\<close>

fun acceptedPrefix :: "int list \<Rightarrow> int list \<Rightarrow> nat" where
  "acceptedPrefix (d # ds) (t # ts) = (if d = t then Suc (acceptedPrefix ds ts) else 0)"
| "acceptedPrefix ds ts = 0"

definition draftRow :: "int list \<Rightarrow> int list \<Rightarrow> nat \<Rightarrow> nat \<Rightarrow> int list" where
  "draftRow draftIds numsDraftTokens maxDraftTokens slot =
     take (nat (numsDraftTokens ! slot)) (take maxDraftTokens (drop (slot * maxDraftTokens) draftIds))"

definition targetRow :: "int list \<Rightarrow> int list \<Rightarrow> nat \<Rightarrow> nat \<Rightarrow> int list" where
  "targetRow targetIds contextLengths maxSeqLen slot =
     drop (nat (contextLengths ! slot)) (take maxSeqLen (drop (slot * maxSeqLen) targetIds))"

text \<open>
  What the kernel does for one slot of the batch: it compares the draft with the target
  tokens from the front, accepts the draft tokens before the first position at which
  they differ or one of them ends, emits the target token at that position (none when
  the target tokens end there), and adds the number of accepted tokens plus one to the
  length of the sequence.
\<close>

record SlotAcceptance =
  accepted :: "int list"
  emitted :: "int option"
  newLength :: int

definition acceptSlot :: "int list \<Rightarrow> int list \<Rightarrow> int \<Rightarrow> SlotAcceptance" where
  "acceptSlot draft target len =
     (let a = acceptedPrefix draft target
      in \<lparr>accepted = take a draft,
          emitted = (if a < length target then Some (target ! a) else None),
          newLength = len + int a + 1\<rparr>)"

text \<open>
  The kernel works on every slot named by the first \<open>batchSize\<close> entries of
  \<open>batchSlots\<close>, once, and leaves the other slots alone. Its result lists, by slot, what
  was accepted and emitted for the slot, if the slot is in the batch.
\<close>

definition invokeAcceptDraftTokensByIds :: "int list \<Rightarrow> int list \<Rightarrow> int list \<Rightarrow> int list
    \<Rightarrow> int list \<Rightarrow> int list \<Rightarrow> nat \<Rightarrow> nat \<Rightarrow> nat \<Rightarrow> SlotAcceptance option list" where
  "invokeAcceptDraftTokensByIds draftIds targetIds contextLengths numsDraftTokens sequenceLengths
       batchSlotsBuf batchSize maxSeqLen maxDraftTokens =
     map (\<lambda>(slot, len).
            if slot \<in> set (map nat (take batchSize batchSlotsBuf))
            then Some (acceptSlot (draftRow draftIds numsDraftTokens maxDraftTokens slot)
                         (targetRow targetIds contextLengths maxSeqLen slot) len)
            else None)
         (enumerate 0 sequenceLengths)"

text \<open>
  The state the kernel leaves: the tokens accepted and emitted for each slot of the
  batch, and \<open>sequenceLengths\<close>, in which the slots of the batch have their new length.
\<close>

record DraftAcceptance =
  acceptedSlots :: "SlotAcceptance option list"
  sequenceLengthsAfter :: "int ITensor"

definition updatedLengths :: "int list \<Rightarrow> SlotAcceptance option list \<Rightarrow> int list" where
  "updatedLengths sequenceLengths slots =
     map (\<lambda>(len, s). case s of None \<Rightarrow> len | Some r \<Rightarrow> newLength r) (zip sequenceLengths slots)"

text \<open>
  \<^verbatim>\<open>IGptDecoder::acceptDraftTokensByIds\<close>: six checks in source order, then the kernel
  on the buffers and sizes that the source passes.
\<close>

definition acceptDraftTokensByIds :: "int ITensor \<Rightarrow> int ITensor \<Rightarrow> int ITensor \<Rightarrow> int ITensor
    \<Rightarrow> int ITensor \<Rightarrow> FinishedState ITensor \<Rightarrow> int ITensor \<Rightarrow> DraftAcceptance result" where
  "acceptDraftTokensByIds targetTokenIds draftTokenIds contextLengths numDraftTokens
       sequenceLengths finishedVec batchSlotsT =
     (let maxBatchSize = dAt (shape finishedVec) 1;
          batchSize = dAt (shape batchSlotsT) 0;
          beamWidth = dAt (shape targetTokenIds) 1;
          maxSeqLength = dAt (shape targetTokenIds) 2;
          maxDraftTokens = dAt (shape draftTokenIds) 1
      in if \<not> beamWidth = 1 then ([], Inl (BeamWidthNotSupported beamWidth))
         else if \<not> batchSize \<le> maxBatchSize
           then ([], Inl (BatchSizeTooLarge batchSize maxBatchSize))
         else if \<not> dAt (shape draftTokenIds) 0 = maxBatchSize
           then ([], Inl (DraftTokensBatchSizeMismatch (dAt (shape draftTokenIds) 0) maxBatchSize))
         else if \<not> dAt (shape contextLengths) 0 = maxBatchSize
           then ([], Inl (ContextLengthBatchSizeMismatch (dAt (shape contextLengths) 0) maxBatchSize))
         else if \<not> dAt (shape numDraftTokens) 0 = maxBatchSize
           then ([], Inl (NumDraftTokensBatchSizeMismatch (dAt (shape numDraftTokens) 0) maxBatchSize))
         else if \<not> dAt (shape sequenceLengths) 0 = maxBatchSize
           then ([], Inl (SequenceLengthBatchSizeMismatch (dAt (shape sequenceLengths) 0) maxBatchSize))
         else
           (let slots = invokeAcceptDraftTokensByIds (buf draftTokenIds) (buf targetTokenIds)
                          (buf contextLengths) (buf numDraftTokens) (buf sequenceLengths)
                          (buf batchSlotsT) (nat batchSize) (nat maxSeqLength)
                          (nat maxDraftTokens)
            in ([LaunchAcceptDraftTokensByIds],
                Inr \<lparr>acceptedSlots = slots,
                     sequenceLengthsAfter =
                       sequenceLengths\<lparr>buf := updatedLengths (buf sequenceLengths) slots\<rparr>\<rparr>)))"

text \<open>
  \<^verbatim>\<open>IGptDecoder::acceptDraftTokensByLogits\<close>. The beam width is the constant 1 of the
  source, not a dimension of an argument. The two kernels (float and half) work on
  probabilities and a random state; they are parameters acting on the device state
  \<open>st\<close>, given the sizes the source passes: batch size, maximal batch size, beam
  width, vocabulary size and tokens per step.
\<close>

definition acceptDraftTokensByLogits :: "(int list \<Rightarrow> 'st \<Rightarrow> 'st) \<Rightarrow> (int list \<Rightarrow> 'st \<Rightarrow> 'st)
    \<Rightarrow> real ITensor \<Rightarrow> int ITensor \<Rightarrow> int \<Rightarrow> 'st \<Rightarrow> 'st result" where
  "acceptDraftTokensByLogits kernelFloat kernelHalf draftLogits batchSlotsT vocabSize st =
     (let maxBatchSize = dAt (shape draftLogits) 0;
          maxTokensPerStep = dAt (shape draftLogits) 1;
          batchSize = dAt (shape batchSlotsT) 0;
          beamWidth = (1 :: int)
      in if \<not> beamWidth = 1 then ([], Inl (BeamWidthNotSupported beamWidth))
         else if \<not> dAt (shape draftLogits) 2 = vocabSize
           then ([], Inl DraftLogitsVocabSizeMismatch)
         else if dataType draftLogits = kFLOAT
           then ([LaunchAcceptDraftTokensByLogits],
                 Inr (kernelFloat [batchSize, maxBatchSize, beamWidth, vocabSize, maxTokensPerStep] st))
         else if dataType draftLogits = kHALF
           then ([LaunchAcceptDraftTokensByLogits],
                 Inr (kernelHalf [batchSize, maxBatchSize, beamWidth, vocabSize, maxTokensPerStep] st))
         else ([], Inl IncorrectLogitsDtype))"

text \<open>
  Scenario S5 of the spec in a batch of one request that sits in slot 1 of two: a
  context of two tokens, draft \<open>[3, 4, 5]\<close>, target tokens \<open>[3, 4, 9]\<close>.
\<close>

definition s5Target :: "int ITensor" where
  "s5Target = \<lparr>shape = [2, 1, 6], dataType = kINT32, buf = [0, 0, 0, 0, 0, 0, 1, 2, 3, 4, 9, 0]\<rparr>"

definition s5Draft :: "int ITensor" where
  "s5Draft = \<lparr>shape = [2, 3], dataType = kINT32, buf = [0, 0, 0, 3, 4, 5]\<rparr>"

definition s5Context :: "int ITensor" where
  "s5Context = \<lparr>shape = [2], dataType = kINT32, buf = [0, 2]\<rparr>"

definition s5NumDraft :: "int ITensor" where
  "s5NumDraft = \<lparr>shape = [2], dataType = kINT32, buf = [0, 3]\<rparr>"

definition s5SeqLens :: "int ITensor" where
  "s5SeqLens = \<lparr>shape = [2], dataType = kINT32, buf = [0, 2]\<rparr>"

definition s5Finished :: "FinishedState ITensor" where
  "s5Finished = \<lparr>shape = [4, 2], dataType = kUINT8, buf = replicate 8 GENERATION\<rparr>"

definition s5Slots :: "int ITensor" where
  "s5Slots = \<lparr>shape = [1], dataType = kINT32, buf = [1]\<rparr>"

definition beamTwoTarget :: "int ITensor" where
  "beamTwoTarget = \<lparr>shape = [2, 2, 3], dataType = kINT32, buf = replicate 12 0\<rparr>"


section \<open>The decoding step: forward and forwardAsync\<close>

text \<open>
  The parameter structures of the dynamic decode layer, with the fields that
  \<^verbatim>\<open>prepareInputs\<close> and \<^verbatim>\<open>prepareOutputs\<close> fill. Their tensors alias the tensors of
  the decoding input and output.
\<close>

record ForwardParams =
  fp_step :: int
  fp_ite :: int
  fp_max_length :: int
  fp_max_attention_window :: int
  fp_sink_token_length :: int
  fp_local_batch_size :: nat
  fp_end_ids :: "int ITensor"
  fp_logits :: "real ITensor option"
  fp_logits_vec :: "real ITensor list option"
  fp_src_cache_indirection :: "int ITensor option"
  fp_sequence_limit_length :: "int ITensor option"
  fp_embedding_bias :: "real ITensor option"
  fp_input_lengths :: "int ITensor option"
  fp_bad_words_ptr :: "int ITensor option"
  fp_bad_words_lengths :: "int ITensor option"
  fp_max_bad_words_len :: int
  fp_stop_words_ptr :: "int ITensor option"
  fp_stop_words_lengths :: "int ITensor option"
  fp_max_stop_words_len :: int
  fp_finished :: "FinishedState ITensor option"
  fp_batch_slots :: "int ITensor option"
  fp_medusaInputs :: "MedusaInputs option"

record OutputParams =
  op_output_ids :: "int ITensor"
  op_newTokens :: "int ITensor"
  op_cum_log_probs :: "real ITensor option"
  op_parent_ids :: "int ITensor option"
  op_tgt_cache_indirection :: "int ITensor option"
  op_finished :: "FinishedState ITensor option"
  op_finished_sum :: "int ITensor option"
  op_sequence_length :: "int ITensor option"
  op_output_log_probs :: "real ITensor option"
  op_output_log_probs_tiled :: "real ITensor option"
  op_beamHypotheses :: BeamHypothesesBuffers
  op_bh_input_lengths :: "int ITensor option"
  op_medusaOutputs :: "MedusaOutputs option"

text \<open>
  \<^verbatim>\<open>prepareMedusaInputs\<close>: the logits of the Medusa heads are laid out by slot in a
  vector of \<open>maxBatchSize\<close> rows. \<^verbatim>\<open>medusaLogits.at(slot)\<close> throws for a slot outside
  the given vector; a head that is absent stays a default tensor.
\<close>

fun placeMedusaLogits :: "real ITensor option list list \<Rightarrow> int list \<Rightarrow> nat \<Rightarrow> nat list
    \<Rightarrow> real ITensor option list list \<Rightarrow> error + real ITensor option list list" where
  "placeMedusaLogits src slots maxBatch [] acc = Inr acc"
| "placeMedusaLogits src slots maxBatch (bi # bis) acc =
     (if \<not> bi < length slots then Inl OutOfBounds
      else if slots ! bi < 0 \<or> \<not> nat (slots ! bi) < length src then Inl OutOfRange
      else if \<not> nat (slots ! bi) < maxBatch then Inl OutOfBounds
      else placeMedusaLogits src slots maxBatch bis
             (acc[nat (slots ! bi) := src ! nat (slots ! bi)]))"

definition prepareMedusaInputs :: "DecodingInput \<Rightarrow> MedusaInputs \<Rightarrow> nat \<Rightarrow> error + MedusaInputs" where
  "prepareMedusaInputs inputs mi maxBatch =
     (case batchSlots inputs of
        None \<Rightarrow> Inl NullDereference
      | Some slots \<Rightarrow>
          if medusaLogits mi = [] then Inr mi
          else (case placeMedusaLogits (medusaLogits mi) (buf slots) maxBatch
                       [0..<length (medusaLogits mi)] (replicate maxBatch []) of
                  Inl e \<Rightarrow> Inl e
                | Inr ml \<Rightarrow> Inr (mi\<lparr>medusaLogits := ml\<rparr>)))"

text \<open>
  \<^verbatim>\<open>prepareInputs\<close>. \<open>T\<close> is the element type of the decoder instance
  (\<^verbatim>\<open>TRTDataType<T>::value\<close>). The check under \<^verbatim>\<open>badWordsPtrs\<close> tests the pointer that the
  enclosing condition has just tested, so it cannot fail, and the lengths are
  dereferenced without a test.
\<close>

definition prepareLogits :: "DataType \<Rightarrow> DecodingInput \<Rightarrow> ForwardParams \<Rightarrow> error + ForwardParams" where
  "prepareLogits T inp forwardParams =
     (case logitsVec inp of
        Some lv \<Rightarrow>
          if list_all (\<lambda>l. dataType l = T) lv then Inr (forwardParams\<lparr>fp_logits_vec := Some lv\<rparr>)
          else Inl LogitsDtypeMismatch
      | None \<Rightarrow>
          (case logits inp of
             None \<Rightarrow> Inl NullDereference
           | Some l \<Rightarrow>
               if dataType l = T then Inr (forwardParams\<lparr>fp_logits := Some l\<rparr>)
               else Inl LogitsDtypeMismatch))"

definition prepareBadWords :: "DecodingInput \<Rightarrow> ForwardParams \<Rightarrow> error + ForwardParams" where
  "prepareBadWords inp forwardParams =
     (case badWordsPtrs inp of
        None \<Rightarrow> Inr forwardParams
      | Some bp \<Rightarrow>
          (case badWordsLens inp of
             None \<Rightarrow> Inl NullDereference
           | Some bl \<Rightarrow>
               Inr (forwardParams\<lparr>fp_bad_words_ptr := Some bp, fp_bad_words_lengths := Some bl,
                      fp_max_bad_words_len := maxBadWordsLen inp\<rparr>)))"

definition prepareStopWords :: "DecodingInput \<Rightarrow> ForwardParams \<Rightarrow> error + ForwardParams" where
  "prepareStopWords inp forwardParams =
     (case stopWordsPtrs inp of
        None \<Rightarrow> Inr forwardParams
      | Some sp \<Rightarrow>
          (case stopWordsLens inp of
             None \<Rightarrow> Inl StopWordsLensMissing
           | Some sl \<Rightarrow>
               Inr (forwardParams\<lparr>fp_stop_words_ptr := Some sp, fp_stop_words_lengths := Some sl,
                      fp_max_stop_words_len := maxStopWordsLen inp\<rparr>)))"

definition prepareMedusa :: "DecodingInput \<Rightarrow> nat \<Rightarrow> ForwardParams \<Rightarrow> error + ForwardParams" where
  "prepareMedusa inp maxBatch forwardParams =
     (case medusaInputs inp of
        None \<Rightarrow> Inr forwardParams
      | Some mi \<Rightarrow>
          (case prepareMedusaInputs inp mi maxBatch of
             Inl e \<Rightarrow> Inl e
           | Inr m \<Rightarrow> Inr (forwardParams\<lparr>fp_medusaInputs := Some m\<rparr>)))"

definition prepareInputs :: "DataType \<Rightarrow> DecodingInput \<Rightarrow> nat \<Rightarrow> error + ForwardParams" where
  "prepareInputs T inp maxBatch =
     (let forwardParams =
            \<lparr>fp_step = step inp, fp_ite = 0, fp_max_length = maxLength inp,
             fp_max_attention_window = maxAttentionWindow inp,
             fp_sink_token_length = sinkTokenLength inp,
             fp_local_batch_size = maxBatchSize inp, fp_end_ids = endIds inp,
             fp_logits = None, fp_logits_vec = None, fp_src_cache_indirection = None,
             fp_sequence_limit_length = None, fp_embedding_bias = None,
             fp_input_lengths = None, fp_bad_words_ptr = None, fp_bad_words_lengths = None,
             fp_max_bad_words_len = 0, fp_stop_words_ptr = None,
             fp_stop_words_lengths = None, fp_max_stop_words_len = 0, fp_finished = None,
             fp_batch_slots = None, fp_medusaInputs = None\<rparr>
      in case prepareLogits T inp forwardParams of
           Inl e \<Rightarrow> Inl e
         | Inr p1 \<Rightarrow>
             (case prepareBadWords inp
                     (p1\<lparr>fp_src_cache_indirection := inCacheIndirection inp,
                         fp_sequence_limit_length := sequenceLimitLength inp,
                         fp_embedding_bias := embeddingBias inp,
                         fp_input_lengths := inLengths inp\<rparr>) of
                Inl e \<Rightarrow> Inl e
              | Inr p2 \<Rightarrow>
                  (case prepareStopWords inp p2 of
                     Inl e \<Rightarrow> Inl e
                   | Inr p3 \<Rightarrow>
                       prepareMedusa inp maxBatch
                         (p3\<lparr>fp_finished := inFinished inp, fp_batch_slots := batchSlots inp\<rparr>))))"

text \<open>\<^verbatim>\<open>prepareOutputs\<close>: every tensor of the output that is present is handed on.\<close>

definition prepareOutputs :: "DecodingOutput \<Rightarrow> int ITensor option \<Rightarrow> real ITensor \<Rightarrow> OutputParams" where
  "prepareOutputs output inputLengths logProbsTiledT =
     \<lparr>op_output_ids = ids output,
      op_newTokens = newTokens output,
      op_cum_log_probs = cumLogProbs output,
      op_parent_ids = parentIds output,
      op_tgt_cache_indirection = cacheIndirection output,
      op_finished = finished output,
      op_finished_sum = finishedSum output,
      op_sequence_length = lengths output,
      op_output_log_probs = logProbs output,
      op_output_log_probs_tiled =
        (case logProbs output of None \<Rightarrow> None | Some lp \<Rightarrow> Some logProbsTiledT),
      op_beamHypotheses = beamHypotheses output,
      op_bh_input_lengths = inputLengths,
      op_medusaOutputs = medusaOutputs output\<rparr>"

text \<open>
  The layer writes through the pointers it is given. After the call the tensors of the
  decoding output that were handed on hold what the layer left in them; a tensor that
  was absent stays absent.
\<close>

definition kept :: "'a option \<Rightarrow> 'a option \<Rightarrow> 'a option" where
  "kept old new = (case old of None \<Rightarrow> None | Some x \<Rightarrow> new)"

definition writeBack :: "DecodingOutput \<Rightarrow> OutputParams \<Rightarrow> DecodingOutput" where
  "writeBack output p =
     output\<lparr>ids := op_output_ids p,
            newTokens := op_newTokens p,
            cumLogProbs := kept (cumLogProbs output) (op_cum_log_probs p),
            parentIds := kept (parentIds output) (op_parent_ids p),
            cacheIndirection := kept (cacheIndirection output) (op_tgt_cache_indirection p),
            finished := kept (finished output) (op_finished p),
            finishedSum := kept (finishedSum output) (op_finished_sum p),
            lengths := kept (lengths output) (op_sequence_length p),
            logProbs := kept (logProbs output) (op_output_log_probs p),
            beamHypotheses := op_beamHypotheses p,
            medusaOutputs := kept (medusaOutputs output) (op_medusaOutputs p)\<rparr>"

text \<open>
  The host side of the finished sum. \<^verbatim>\<open>SizeType\<close> addition wraps at 32 bits, and
  \<^verbatim>\<open>static_cast<std::size_t>\<close> reads the sum modulo \<open>2 ^ 64\<close>.
\<close>

definition wrap32 :: "int \<Rightarrow> int" where
  "wrap32 x = (x + 2 ^ 31) mod 2 ^ 32 - 2 ^ 31"

definition sumFinished :: "int list \<Rightarrow> nat \<Rightarrow> int" where
  "sumFinished finishedSumHost n = fold (\<lambda>bi acc. wrap32 (acc + finishedSumHost ! bi)) [0..<n] 0"

definition zeroFinishedSum :: "int list \<Rightarrow> nat \<Rightarrow> int list" where
  "zeroFinishedSum finishedSumHost n = fold (\<lambda>bi acc. acc[bi := 0]) [0..<n] finishedSumHost"

definition allFinished :: "nat \<Rightarrow> int list \<Rightarrow> nat \<Rightarrow> bool" where
  "allFinished numToFinish finishedSumHost n =
     (int numToFinish = sumFinished finishedSumHost n mod 2 ^ 64)"

text \<open>
  \<^verbatim>\<open>bufferCast\<close> gives the pointer to the data of a tensor. A tensor without elements
  has no data: its pointer is null (the penalty layer relies on the same fact when it
  tests \<^verbatim>\<open>mLogitsPtrsHost->data()\<close>). \<^verbatim>\<open>BufferManager::pinned\<close> allocates a host tensor
  of the given number of 32-bit integers.
\<close>

definition bufferCast :: "'a ITensor \<Rightarrow> 'a list option" where
  "bufferCast t = (if buf t = [] then None else Some (buf t))"

definition pinned :: "nat \<Rightarrow> int ITensor" where
  "pinned n = \<lparr>shape = [int n], dataType = kINT32, buf = replicate n 0\<rparr>"

text \<open>
  The tensor behind \<^verbatim>\<open>finishedSumHost\<close>, when both the sequence limit lengths of the
  input and the finished mask of the output are given: the finished sum of the output
  when there is one, else a pinned tensor of \<open>maxBatchSize\<close> entries. The pointer
  \<^verbatim>\<open>finishedSumHost\<close> is the data of that tensor. It stays null when one of the two is
  absent, and it is null as well when the tensor has no elements, as the pinned tensor
  of an empty batch.
\<close>

definition finishedSumBuffer :: "DecodingOutput \<Rightarrow> DecodingInput \<Rightarrow> int ITensor option" where
  "finishedSumBuffer output inp =
     (if sequenceLimitLength inp \<noteq> None \<and> finished output \<noteq> None
      then (case finishedSum output of
              Some fs \<Rightarrow> Some fs
            | None \<Rightarrow> Some (pinned (maxBatchSize inp)))
      else None)"

definition finishedSumHost :: "DecodingOutput \<Rightarrow> DecodingInput \<Rightarrow> int list option" where
  "finishedSumHost output inp =
     (case finishedSumBuffer output inp of None \<Rightarrow> None | Some fs \<Rightarrow> bufferCast fs)"

text \<open>
  The first block of \<^verbatim>\<open>forward\<close>: the tensor behind \<^verbatim>\<open>finishedSumHost\<close> is handed to
  the layer as its finished sum, and its first \<open>maxBatchSize\<close> entries are set to zero
  through the pointer. With an empty batch the loop does not run; otherwise a null
  pointer or a tensor of fewer entries is written out of bounds.
\<close>

definition prepareFinishedSum :: "DecodingOutput \<Rightarrow> DecodingInput \<Rightarrow> OutputParams
    \<Rightarrow> error + OutputParams" where
  "prepareFinishedSum output inp outputParams =
     (case finishedSumBuffer output inp of
        None \<Rightarrow> Inr outputParams
      | Some fs \<Rightarrow>
          if maxBatchSize inp = 0 then Inr (outputParams\<lparr>op_finished_sum := Some fs\<rparr>)
          else if bufferCast fs = None then Inl NullDereference
          else if length (buf fs) < maxBatchSize inp then Inl OutOfBounds
          else Inr (outputParams\<lparr>op_finished_sum :=
                      Some (fs\<lparr>buf := zeroFinishedSum (buf fs) (maxBatchSize inp)\<rparr>)\<rparr>))"

text \<open>
  \<^verbatim>\<open>GptDecoder<T>::forward\<close>. The dynamic decode layer is not among the sources; it is
  the parameter \<open>layer\<close>, which returns the output parameters as it leaves them or
  throws. After the layer the source tests the pointer \<^verbatim>\<open>finishedSumHost\<close>: when it is
  null the result is false; otherwise the stream is synchronised and the finished sum,
  as the layer left it, is added up and compared with the size of the finished mask.
\<close>

definition forward :: "(ForwardParams \<Rightarrow> OutputParams \<Rightarrow> error + OutputParams) \<Rightarrow> DataType \<Rightarrow> nat
    \<Rightarrow> real ITensor \<Rightarrow> DecodingOutput \<Rightarrow> DecodingInput \<Rightarrow> (bool \<times> DecodingOutput) result" where
  "forward layer T mMaxBatchSize mLogProbsTiled output inp =
     (case prepareInputs T inp mMaxBatchSize of
        Inl e \<Rightarrow> ([], Inl e)
      | Inr forwardParams \<Rightarrow>
          (case prepareFinishedSum output inp
                  (prepareOutputs output (inLengths inp) mLogProbsTiled) of
             Inl e \<Rightarrow> ([], Inl e)
           | Inr outputParams \<Rightarrow>
               (case layer forwardParams outputParams of
                  Inl e \<Rightarrow> ([LayerForward], Inl e)
                | Inr outputParams' \<Rightarrow>
                    (case finishedSumHost output inp of
                       None \<Rightarrow> ([LayerForward], Inr (False, writeBack output outputParams'))
                     | Some host \<Rightarrow>
                         (case (finished output, op_finished_sum outputParams') of
                            (Some fin, Some fs) \<Rightarrow>
                              if length (buf fs) < maxBatchSize inp
                              then ([LayerForward, StreamSynchronize], Inl OutOfBounds)
                              else ([LayerForward, StreamSynchronize],
                                    Inr (allFinished (getSize fin) (buf fs) (maxBatchSize inp),
                                         writeBack output outputParams'))
                          | _ \<Rightarrow> ([LayerForward, StreamSynchronize], Inl NullDereference))))))"

text \<open>\<^verbatim>\<open>GptDecoder<T>::forwardAsync\<close>: the same step without the finished sum.\<close>

definition forwardAsync :: "(ForwardParams \<Rightarrow> OutputParams \<Rightarrow> error + OutputParams) \<Rightarrow> DataType
    \<Rightarrow> nat \<Rightarrow> real ITensor \<Rightarrow> DecodingOutput \<Rightarrow> DecodingInput \<Rightarrow> DecodingOutput result" where
  "forwardAsync layer T mMaxBatchSize mLogProbsTiled output inp =
     (case prepareInputs T inp mMaxBatchSize of
        Inl e \<Rightarrow> ([], Inl e)
      | Inr forwardParams \<Rightarrow>
          (case layer forwardParams (prepareOutputs output (inLengths inp) mLogProbsTiled) of
             Inl e \<Rightarrow> ([LayerForward], Inl e)
           | Inr outputParams' \<Rightarrow> ([LayerForward], Inr (writeBack output outputParams'))))"


text \<open>What a call of \<^verbatim>\<open>forward\<close> returned, and whether it left every slot terminal.\<close>

definition returned :: "(bool \<times> DecodingOutput) result \<Rightarrow> bool option" where
  "returned r = (case snd r of Inl e \<Rightarrow> None | Inr (b, output) \<Rightarrow> Some b)"

definition everySlotTerminal :: "(bool \<times> DecodingOutput) result \<Rightarrow> bool" where
  "everySlotTerminal r =
     (case snd r of
        Inl e \<Rightarrow> False
      | Inr (b, output) \<Rightarrow>
          (case finished output of None \<Rightarrow> False | Some fin \<Rightarrow> list_all isFinished (buf fin)))"

text \<open>
  The number of finished entries of a finished mask, and whether the mask has as many
  finished entries as it has entries according to its shape.
\<close>

definition numFinished :: "FinishedState list \<Rightarrow> nat" where
  "numFinished fin = length (filter isFinished fin)"

definition finishedEqualsSize :: "(bool \<times> DecodingOutput) result \<Rightarrow> bool" where
  "finishedEqualsSize r =
     (case snd r of
        Inl e \<Rightarrow> False
      | Inr (b, output) \<Rightarrow>
          (case finished output of
             None \<Rightarrow> False
           | Some fin \<Rightarrow> numFinished (buf fin) = getSize fin))"

text \<open>
  Modelled from the spec: the dynamic decode layer, which writes the finished mask and
  the finished sum, is not among the sources. Section 3 states what it keeps:
  "finishedSum[slot] equals the count of beams in finished[slot] in state FINISHED_*".
  The finished mask holds \<open>beamWidth\<close> entries for each of the \<open>maxBatch\<close> slots.
\<close>

definition countsFinishedBeams :: "nat \<Rightarrow> nat \<Rightarrow> FinishedState list \<Rightarrow> int list \<Rightarrow> bool" where
  "countsFinishedBeams maxBatch beamWidth fin fs \<longleftrightarrow>
     length fin = maxBatch * beamWidth
   \<and> list_all (\<lambda>slot. fs ! slot
                        = int (numFinished (take beamWidth (drop (slot * beamWidth) fin))))
              [0..<maxBatch]"

text \<open>
  A step of two slots with beam width 1 in which the layer ends every beam at its
  length limit: each finished state becomes \<open>FINISHED_MAX_LEN\<close>, each finished sum 1.
\<close>

definition finishingLayer :: "ForwardParams \<Rightarrow> OutputParams \<Rightarrow> error + OutputParams" where
  "finishingLayer p q =
     Inr (q\<lparr>op_finished :=
              map_option (\<lambda>t. t\<lparr>buf := map (\<lambda>x. FINISHED_MAX_LEN) (buf t)\<rparr>) (op_finished q),
            op_finished_sum :=
              map_option (\<lambda>t. t\<lparr>buf := map (\<lambda>x. 1) (buf t)\<rparr>) (op_finished_sum q)\<rparr>)"

definition noHypotheses :: BeamHypothesesBuffers where
  "noHypotheses =
     \<lparr>isDone = None, cumLogProbsCBA = None, logProbsCBA = None, minNormedScores = None,
      normedScores = None, numBeams = None, outputIdsTgt = None, sequenceLengthsTgt = None\<rparr>"

definition stepOutput :: DecodingOutput where
  "stepOutput =
     \<lparr>ids = tensor [2, 1, 4] kINT32 [1, 2, 3, 0, 1, 2, 3, 0],
      newTokens = tensor [1, 2, 1] kINT32 [0, 0],
      cumLogProbs = None, parentIds = None, cacheIndirection = None,
      finished = Some (tensor [2, 1] kUINT8 [GENERATION, GENERATION]),
      finishedSum = None,
      lengths = Some (tensor [2, 1] kINT32 [3, 3]),
      logProbs = None, beamHypotheses = noHypotheses, medusaOutputs = None\<rparr>"

definition stepInput :: DecodingInput where
  "stepInput =
     \<lparr>step = 3, maxLength = 4, maxAttentionWindow = 4, sinkTokenLength = 0, maxBatchSize = 2,
      endIds = tensor [2] kINT32 [7, 7],
      logits = Some (tensor [2, 1, 2] kFLOAT [0, 1, 0, 1]),
      logitsVec = None, inCacheIndirection = None,
      sequenceLimitLength = Some (tensor [2] kINT32 [4, 4]),
      embeddingBias = None, inLengths = Some (tensor [2] kINT32 [3, 3]),
      badWordsPtrs = None, badWordsLens = None, maxBadWordsLen = 0,
      stopWordsPtrs = None, stopWordsLens = None, maxStopWordsLen = 0,
      inFinished = None, batchSlots = None, medusaInputs = None\<rparr>"

definition stepInputNoLimit :: DecodingInput where
  "stepInputNoLimit = stepInput\<lparr>sequenceLimitLength := None\<rparr>"


text \<open>
  A step on an empty batch: every tensor is given and has no elements, and
  \<open>maxBatchSize\<close> is 0, so the pinned tensor of the finished sum has no data.
\<close>

definition emptyOutput :: DecodingOutput where
  "emptyOutput =
     \<lparr>ids = tensor [0, 1, 4] kINT32 [],
      newTokens = tensor [1, 0, 1] kINT32 [],
      cumLogProbs = None, parentIds = None, cacheIndirection = None,
      finished = Some (tensor [0, 1] kUINT8 []),
      finishedSum = None,
      lengths = Some (tensor [0, 1] kINT32 []),
      logProbs = None, beamHypotheses = noHypotheses, medusaOutputs = None\<rparr>"

definition emptyInput :: DecodingInput where
  "emptyInput =
     \<lparr>step = 3, maxLength = 4, maxAttentionWindow = 4, sinkTokenLength = 0, maxBatchSize = 0,
      endIds = tensor [0] kINT32 [],
      logits = Some (tensor [0, 1, 2] kFLOAT []),
      logitsVec = None, inCacheIndirection = None,
      sequenceLimitLength = Some (tensor [0] kINT32 []),
      embeddingBias = None, inLengths = Some (tensor [0] kINT32 []),
      badWordsPtrs = None, badWordsLens = None, maxBadWordsLen = 0,
      stopWordsPtrs = None, stopWordsLens = None, maxStopWordsLen = 0,
      inFinished = None, batchSlots = None, medusaInputs = None\<rparr>"

section \<open>The penalty layer\<close>

text \<open>
  The decoding mode is used through its predicates only, the decoder domain through its
  sizes. Device memory for logits is a store of buffers; a tensor handle names a
  buffer, an offset into it and a shape, and a raw pointer is a buffer with an offset.
\<close>

record DecodingMode =
  isAuto :: bool
  isBeamSearch :: bool
  isUseTemperature :: bool
  isUseRepetitionPenalty :: bool
  isUsePresencePenalty :: bool
  isUseFrequencyPenalty :: bool
  isUseMinLength :: bool
  isUseOccurrencePenalty :: bool

record DecoderDomain =
  getBatchSize :: nat
  getBeamWidth :: nat
  getVocabSize :: nat
  getVocabSizePadded :: nat
  getMaxDecodingTokens :: nat

record TensorRef =
  ref_buffer :: nat
  ref_offset :: nat
  ref_shape :: "int list"

type_synonym pointer = "(nat \<times> nat) option"
type_synonym device_memory = "nat \<Rightarrow> real list"

text \<open>
  The default values of \<^verbatim>\<open>DefaultDecodingParams\<close> and the two modes that
  \<^verbatim>\<open>setup\<close> selects for an automatic mode are declared outside the sources; they are
  parameters.
\<close>

record DefaultDecodingParams =
  getTemperature :: real
  getRepetitionPenalty :: real
  getPresencePenalty :: real
  getFrequencyPenalty :: real
  getMinLength :: int

record PenaltyParams =
  temperature :: "real list option"
  repetitionPenalty :: "real list option"
  presencePenalty :: "real list option"
  frequencyPenalty :: "real list option"
  minLength :: "int list option"

record PenaltyLayer =
  mDecodingMode :: DecodingMode
  mDecoderDomain :: DecoderDomain
  mConfiguredBeamWidth :: int
  mCyclicStep :: nat
  mRuntimeMaxSeqLen :: nat
  mUseTemperature :: bool
  mUseRepetitionPenalty :: bool
  mUsePresencePenalty :: bool
  mUseFrequencyPenalty :: bool
  mUseMinLength :: bool
  mTemperature :: "real list"
  mRepetitionPenalty :: "real list"
  mPresencePenalty :: "real list"
  mFrequencyPenalty :: "real list"
  mMinLength :: "int list"
  mTemperatureDevice :: "real list option"
  mRepetitionPenaltyDevice :: "real list option"
  mPresencePenaltyDevice :: "real list option"
  mFrequencyPenaltyDevice :: "real list option"
  mMinLengthDevice :: "int list option"
  mRuntimeLogitsDevice :: nat
  mPenaltyWorkspaceDevice :: "int list option"
  mPenaltyWorkspacePrevDevice :: "int list option"
  mLogitsPtrsHost :: "pointer list list"

text \<open>\<^verbatim>\<open>PenaltyLayer::allocateWorkspace\<close>.\<close>

definition allocateWorkspace :: "PenaltyLayer \<Rightarrow> PenaltyLayer" where
  "allocateWorkspace l =
     (if isUseOccurrencePenalty (mDecodingMode l) then
        (let workspaceSize = getBatchSize (mDecoderDomain l) * getMaxDecodingTokens (mDecoderDomain l)
                               * nat (mConfiguredBeamWidth l) * getVocabSize (mDecoderDomain l);
             l1 = l\<lparr>mPenaltyWorkspaceDevice := Some (replicate workspaceSize 0)\<rparr>
         in if isBeamSearch (mDecodingMode l)
            then l1\<lparr>mPenaltyWorkspacePrevDevice := Some (replicate workspaceSize 0)\<rparr>
            else l1)
      else l)"

text \<open>
  Modelled from the spec: the helper \<^verbatim>\<open>FillBuffers\<close> of \<^verbatim>\<open>layerUtils.h\<close> is not among
  the sources. Section 4.3 says that \<^verbatim>\<open>setup\<close> "installs per-slot parameters, sized to
  the domain's max batch", and the design notes that "absent parameters are represented
  by a sentinel default". For every request of the batch the value is the default when
  no parameter is given, the single given value when there is one, else the value at
  the request's index; it must lie within the limits of the penalty and is stored in
  the host buffer at the request's slot. The result is the host buffer as written so
  far, with the error that stopped the loop if there is one.
\<close>

fun fillLoop :: "nat \<Rightarrow> ('a \<Rightarrow> bool) \<Rightarrow> 'a list option \<Rightarrow> 'a \<Rightarrow> int list \<Rightarrow> nat list \<Rightarrow> 'a list
    \<Rightarrow> error option \<times> 'a list" where
  "fillLoop n limits optParam defaultValue slots [] host = (None, host)"
| "fillLoop n limits optParam defaultValue slots (bi # bis) host =
     (case optParam of
        Some v \<Rightarrow>
          if length v \<noteq> 1 \<and> length v \<noteq> n then (Some ArgumentSizeMismatch, host)
          else if \<not> limits (if length v = 1 then hd v else v ! bi)
            then (Some PenaltyOutOfLimits, host)
          else if \<not> bi < length slots \<or> slots ! bi < 0 \<or> \<not> nat (slots ! bi) < length host
            then (Some OutOfBounds, host)
          else fillLoop n limits optParam defaultValue slots bis
                 (host[nat (slots ! bi) := (if length v = 1 then hd v else v ! bi)])
      | None \<Rightarrow>
          if \<not> limits defaultValue then (Some PenaltyOutOfLimits, host)
          else if \<not> bi < length slots \<or> slots ! bi < 0 \<or> \<not> nat (slots ! bi) < length host
            then (Some OutOfBounds, host)
          else fillLoop n limits optParam defaultValue slots bis
                 (host[nat (slots ! bi) := defaultValue]))"

definition fillBuffers :: "nat \<Rightarrow> ('a \<Rightarrow> bool) \<Rightarrow> 'a list option \<Rightarrow> 'a \<Rightarrow> 'a list \<Rightarrow> 'a list option
    \<Rightarrow> int list \<Rightarrow> error option \<times> 'a list \<times> 'a list option" where
  "fillBuffers batchSize limits optParam defaultValue hostBuffer deviceBuffer slots =
     (case fillLoop batchSize limits optParam defaultValue slots [0..<batchSize] hostBuffer of
        (Some e, host) \<Rightarrow> (Some e, host, deviceBuffer)
      | (None, host) \<Rightarrow>
          (case deviceBuffer of
             None \<Rightarrow> (Some NullDereference, host, None)
           | Some dev \<Rightarrow> (None, host, Some host)))"

definition getDefaultBatchSlots :: "nat \<Rightarrow> int list" where
  "getDefaultBatchSlots batchSize = map int [0..<batchSize]"

text \<open>
  The limits of each penalty (\<^verbatim>\<open>getLimitsPenalty\<close>) are declared outside the sources;
  they are a parameter.
\<close>

record PenaltyLimits =
  limitTemperature :: "real \<Rightarrow> bool"
  limitRepetition :: "real \<Rightarrow> bool"
  limitPresence :: "real \<Rightarrow> bool"
  limitFrequency :: "real \<Rightarrow> bool"
  limitMinLength :: "int \<Rightarrow> bool"

text \<open>
  \<^verbatim>\<open>PenaltyLayer<T>::setup\<close> (named \<open>penaltySetup\<close> here), in steps: the beam width of an automatic mode, the
  use flags, and the buffers of each enabled class. An exception leaves the layer as
  the statements before it have changed it, so the layer is returned in every case.
\<close>

definition configureBeamWidth :: "DecodingMode \<Rightarrow> DecodingMode \<Rightarrow> int \<Rightarrow> PenaltyLayer
    \<Rightarrow> error option \<times> PenaltyLayer" where
  "configureBeamWidth modeTopKTopP modeBeamSearch beamWidth l =
     (if mConfiguredBeamWidth l = - 1 then
        (if \<not> isAuto (mDecodingMode l) then (Some ModeNotAuto, l)
         else (None, allocateWorkspace
                       (l\<lparr>mConfiguredBeamWidth := beamWidth,
                          mDecodingMode := (if beamWidth = 1 then modeTopKTopP else modeBeamSearch)\<rparr>)))
      else (None, l))"

definition setUseFlags :: "PenaltyParams \<Rightarrow> PenaltyLayer \<Rightarrow> PenaltyLayer" where
  "setUseFlags penaltyParams l =
     (let useTemperature = (isUseTemperature (mDecodingMode l) \<and> temperature penaltyParams \<noteq> None);
          useRepetitionPenalty =
            (isUseRepetitionPenalty (mDecodingMode l) \<and> repetitionPenalty penaltyParams \<noteq> None);
          usePresencePenalty =
            (isUsePresencePenalty (mDecodingMode l) \<and> presencePenalty penaltyParams \<noteq> None);
          useFrequencyPenalty =
            (isUseFrequencyPenalty (mDecodingMode l) \<and> frequencyPenalty penaltyParams \<noteq> None);
          useMinLength = (isUseMinLength (mDecodingMode l) \<and> minLength penaltyParams \<noteq> None)
      in l\<lparr>mUseTemperature := (mUseTemperature l \<or> useTemperature),
           mUseRepetitionPenalty := (mUseRepetitionPenalty l \<or> useRepetitionPenalty),
           mUsePresencePenalty := (mUsePresencePenalty l \<or> usePresencePenalty),
           mUseFrequencyPenalty := (mUseFrequencyPenalty l \<or> useFrequencyPenalty),
           mUseMinLength := (mUseMinLength l \<or> useMinLength)\<rparr>)"

definition fillTemperature :: "PenaltyLimits \<Rightarrow> DefaultDecodingParams \<Rightarrow> nat \<Rightarrow> int list
    \<Rightarrow> PenaltyParams \<Rightarrow> PenaltyLayer \<Rightarrow> error option \<times> PenaltyLayer" where
  "fillTemperature lims dflt batchSize slots penaltyParams l =
     (if mUseTemperature l then
        (case fillBuffers batchSize (limitTemperature lims) (temperature penaltyParams)
                (getTemperature dflt) (mTemperature l) (mTemperatureDevice l) slots of
           (e, host, dev) \<Rightarrow> (e, l\<lparr>mTemperature := host, mTemperatureDevice := dev\<rparr>))
      else (None, l))"

definition fillRepetitionPenalty :: "PenaltyLimits \<Rightarrow> DefaultDecodingParams \<Rightarrow> nat \<Rightarrow> int list
    \<Rightarrow> PenaltyParams \<Rightarrow> PenaltyLayer \<Rightarrow> error option \<times> PenaltyLayer" where
  "fillRepetitionPenalty lims dflt batchSize slots penaltyParams l =
     (if mUseRepetitionPenalty l then
        (case fillBuffers batchSize (limitRepetition lims) (repetitionPenalty penaltyParams)
                (getRepetitionPenalty dflt) (mRepetitionPenalty l) (mRepetitionPenaltyDevice l)
                slots of
           (e, host, dev) \<Rightarrow> (e, l\<lparr>mRepetitionPenalty := host, mRepetitionPenaltyDevice := dev\<rparr>))
      else (None, l))"

definition fillPresencePenalty :: "PenaltyLimits \<Rightarrow> DefaultDecodingParams \<Rightarrow> nat \<Rightarrow> int list
    \<Rightarrow> PenaltyParams \<Rightarrow> PenaltyLayer \<Rightarrow> error option \<times> PenaltyLayer" where
  "fillPresencePenalty lims dflt batchSize slots penaltyParams l =
     (if mUsePresencePenalty l then
        (case fillBuffers batchSize (limitPresence lims) (presencePenalty penaltyParams)
                (getPresencePenalty dflt) (mPresencePenalty l) (mPresencePenaltyDevice l) slots of
           (e, host, dev) \<Rightarrow> (e, l\<lparr>mPresencePenalty := host, mPresencePenaltyDevice := dev\<rparr>))
      else (None, l))"

definition fillFrequencyPenalty :: "PenaltyLimits \<Rightarrow> DefaultDecodingParams \<Rightarrow> nat \<Rightarrow> int list
    \<Rightarrow> PenaltyParams \<Rightarrow> PenaltyLayer \<Rightarrow> error option \<times> PenaltyLayer" where
  "fillFrequencyPenalty lims dflt batchSize slots penaltyParams l =
     (if mUseFrequencyPenalty l then
        (case fillBuffers batchSize (limitFrequency lims) (frequencyPenalty penaltyParams)
                (getFrequencyPenalty dflt) (mFrequencyPenalty l) (mFrequencyPenaltyDevice l) slots of
           (e, host, dev) \<Rightarrow> (e, l\<lparr>mFrequencyPenalty := host, mFrequencyPenaltyDevice := dev\<rparr>))
      else (None, l))"

definition fillMinLength :: "PenaltyLimits \<Rightarrow> DefaultDecodingParams \<Rightarrow> nat \<Rightarrow> int list
    \<Rightarrow> PenaltyParams \<Rightarrow> PenaltyLayer \<Rightarrow> error option \<times> PenaltyLayer" where
  "fillMinLength lims dflt batchSize slots penaltyParams l =
     (if mUseMinLength l then
        (case fillBuffers batchSize (limitMinLength lims) (minLength penaltyParams)
                (getMinLength dflt) (mMinLength l) (mMinLengthDevice l) slots of
           (e, host, dev) \<Rightarrow> (e, l\<lparr>mMinLength := host, mMinLengthDevice := dev\<rparr>))
      else (None, l))"

text \<open>Running the steps in order until one throws.\<close>

fun steps :: "('s \<Rightarrow> error option \<times> 's) list \<Rightarrow> 's \<Rightarrow> error option \<times> 's" where
  "steps [] s = (None, s)"
| "steps (f # fs) s = (case f s of (Some e, s') \<Rightarrow> (Some e, s') | (None, s') \<Rightarrow> steps fs s')"

definition penaltySetup :: "PenaltyLimits \<Rightarrow> DefaultDecodingParams \<Rightarrow> DecodingMode \<Rightarrow> DecodingMode
    \<Rightarrow> nat \<Rightarrow> int \<Rightarrow> int list option \<Rightarrow> PenaltyParams option \<Rightarrow> PenaltyLayer
    \<Rightarrow> error option \<times> PenaltyLayer" where
  "penaltySetup lims dflt modeTopKTopP modeBeamSearch batchSize beamWidth slots penaltyParams l =
     (let defaultBatchSlots = (case slots of Some b \<Rightarrow> b | None \<Rightarrow> getDefaultBatchSlots batchSize)
      in steps
           [configureBeamWidth modeTopKTopP modeBeamSearch beamWidth,
            (\<lambda>l1. case penaltyParams of
                     None \<Rightarrow> (Some PenaltyParamsNotSet, l1)
                   | Some pp \<Rightarrow>
                       steps [(\<lambda>l2. (None, setUseFlags pp l2)),
                              fillTemperature lims dflt batchSize defaultBatchSlots pp,
                              fillRepetitionPenalty lims dflt batchSize defaultBatchSlots pp,
                              fillPresencePenalty lims dflt batchSize defaultBatchSlots pp,
                              fillFrequencyPenalty lims dflt batchSize defaultBatchSlots pp,
                              fillMinLength lims dflt batchSize defaultBatchSlots pp] l1)] l)"


record BaseDecodingOutputs =
  bo_outputIds :: "int ITensor"
  bo_outputIdsPtr :: "int list"
  bo_parentIdsPtr :: "int list"
  bo_sequenceLength :: "int list option"

record DecodingInputs =
  di_logits :: "TensorRef option"
  di_logitsVec :: "TensorRef option list option"
  di_batchSlots :: "int list option"
  di_inputLengths :: "int list option"
  di_embeddingBias :: "real list option"
  di_endIds :: "int list"
  di_curTokensPerStep :: "int list option"

text \<open>What \<^verbatim>\<open>forwardAsync\<close> hands to the kernel \<^verbatim>\<open>invokeBatchApplyPenalty\<close>.\<close>

record InvokeBatchApplyPenaltyParams =
  inputLogits :: "pointer list"
  outputLogits :: nat
  biases :: "real list option"
  penaltyWorkspace :: "int list option"
  penaltyWorkspacePrev :: "int list option"
  temperatures :: "real list option"
  repetitionPenalties :: "real list option"
  presencePenalties :: "real list option"
  frequencyPenalties :: "real list option"
  pp_batchSize :: nat
  pp_beamWidth :: nat
  pp_maxSeqLen :: nat
  pp_vocabSize :: nat
  pp_vocabSizePadded :: nat
  outputIdsPtr :: "int list"
  parentIdsPtr :: "int list"
  pp_inputLengths :: "int list option"
  pp_sequenceLengths :: "int list"
  minLengths :: "int list option"
  pp_endIds :: "int list"
  pp_batchSlots :: "int list option"
  maxTokensPerStep :: nat
  tokensPerStep :: "int list option"

text \<open>
  The outcome of a call of \<^verbatim>\<open>forwardAsync\<close>: the exception if one was thrown, the
  layer, the inputs structure and the device memory as the call left them, and the
  parameters of the kernel launch if there was one.
\<close>

record penalty_step =
  ps_error :: "error option"
  ps_layer :: PenaltyLayer
  ps_inputs :: DecodingInputs
  ps_memory :: device_memory
  ps_launched :: "InvokeBatchApplyPenaltyParams option"

text \<open>
  Modelled from the spec: the helper \<^verbatim>\<open>allOfBatchSlots\<close> of \<^verbatim>\<open>layerUtils.h\<close> is not
  among the sources. It is the scan of the slots of the step that section 4.3.1 speaks
  of ("per-step scanning"): whether the host value at every slot of the batch equals
  the given value.
\<close>

definition allOfBatchSlots :: "int list \<Rightarrow> 'a list \<Rightarrow> nat \<Rightarrow> 'a \<Rightarrow> bool" where
  "allOfBatchSlots batchSlotsHost hostData n v =
     list_all (\<lambda>b. hostData ! nat b = v) (take n batchSlotsHost)"

text \<open>The macro \<^verbatim>\<open>GET_PENALTIES\<close>.\<close>

definition getPenalties :: "bool \<Rightarrow> int list \<Rightarrow> 'a list \<Rightarrow> nat \<Rightarrow> 'a \<Rightarrow> 'a list option
    \<Rightarrow> 'a list option" where
  "getPenalties mUse batchSlotsHost hostData n dflt deviceBuffer =
     (if mUse \<and> \<not> allOfBatchSlots batchSlotsHost hostData n dflt then deviceBuffer else None)"

text \<open>
  The loop that collects one logits pointer per request: from the logits vector when
  there is one (its size is checked in every iteration), else from the slice of the
  logits tensor at the request's index. The pointers collected before an exception
  have been written.
\<close>

definition slicePointer :: "TensorRef \<Rightarrow> nat \<Rightarrow> pointer" where
  "slicePointer t bi =
     Some (ref_buffer t, ref_offset t + bi * nat (prod_list (tl (ref_shape t))))"

definition logitsPointers :: "nat \<Rightarrow> DecodingInputs \<Rightarrow> error option \<times> pointer list" where
  "logitsPointers n params =
     (case di_logitsVec params of
        Some lv \<Rightarrow>
          if n = 0 then (None, [])
          else if length lv \<noteq> n then (Some LogitsVecSizeMismatch, [])
          else (None, map (map_option (\<lambda>t. (ref_buffer t, ref_offset t))) lv)
      | None \<Rightarrow>
          (case di_logits params of
             None \<Rightarrow> if n = 0 then (None, []) else (Some BadOptionalAccess, [])
           | Some t \<Rightarrow>
               (if nat (dAt (ref_shape t) 0) < n then Some OutOfRange else None,
                map (slicePointer t) [0..<min n (nat (dAt (ref_shape t) 0))])))"

definition failed :: "error \<Rightarrow> PenaltyLayer \<Rightarrow> DecodingInputs \<Rightarrow> device_memory \<Rightarrow> penalty_step" where
  "failed e l params mem =
     \<lparr>ps_error = Some e, ps_layer = l, ps_inputs = params, ps_memory = mem, ps_launched = None\<rparr>"

text \<open>
  The first part of \<^verbatim>\<open>PenaltyLayer<T>::forwardAsync\<close>: the rolling table of logits
  pointers is allocated on the first call, the cyclic step is reduced, and the row of
  the step receives the pointers.
\<close>

definition preparePointerTable :: "nat \<Rightarrow> PenaltyLayer \<Rightarrow> error + PenaltyLayer" where
  "preparePointerTable maxSeqLen l =
     (let l1 = (if concat (mLogitsPtrsHost l) = []
                then l\<lparr>mLogitsPtrsHost :=
                         replicate maxSeqLen (replicate (getBatchSize (mDecoderDomain l)) None),
                       mRuntimeMaxSeqLen := maxSeqLen\<rparr>
                else l)
      in if mRuntimeMaxSeqLen l1 = 0 then Inl DivisionByZero
         else Inr (l1\<lparr>mCyclicStep := mCyclicStep l1 mod mRuntimeMaxSeqLen l1\<rparr>))"

definition storePointers :: "pointer list \<Rightarrow> PenaltyLayer \<Rightarrow> PenaltyLayer" where
  "storePointers ptrs l =
     l\<lparr>mLogitsPtrsHost :=
         (mLogitsPtrsHost l)[mCyclicStep l := writeRow (mLogitsPtrsHost l ! mCyclicStep l) 0 ptrs]\<rparr>"

definition penaltyKernelParams :: "DefaultDecodingParams \<Rightarrow> DecoderDomain \<Rightarrow> nat \<Rightarrow> pointer list
    \<Rightarrow> BaseDecodingOutputs \<Rightarrow> int list \<Rightarrow> DecodingInputs \<Rightarrow> PenaltyLayer
    \<Rightarrow> InvokeBatchApplyPenaltyParams" where
  "penaltyKernelParams dflt localDecoderDomain maxSeqLen ptrs outputs seqLens params l =
     (let batchSlotsHost = (case di_batchSlots params of
                              Some b \<Rightarrow> b
                            | None \<Rightarrow> getDefaultBatchSlots (getBatchSize localDecoderDomain));
          n = getBatchSize localDecoderDomain
      in \<lparr>inputLogits = ptrs,
          outputLogits = mRuntimeLogitsDevice l,
          biases = di_embeddingBias params,
          penaltyWorkspace = mPenaltyWorkspaceDevice l,
          penaltyWorkspacePrev = mPenaltyWorkspacePrevDevice l,
          temperatures = getPenalties (mUseTemperature l) batchSlotsHost (mTemperature l) n
                           (getTemperature dflt) (mTemperatureDevice l),
          repetitionPenalties = getPenalties (mUseRepetitionPenalty l) batchSlotsHost
                                  (mRepetitionPenalty l) n (getRepetitionPenalty dflt)
                                  (mRepetitionPenaltyDevice l),
          presencePenalties = getPenalties (mUsePresencePenalty l) batchSlotsHost
                                (mPresencePenalty l) n (getPresencePenalty dflt)
                                (mPresencePenaltyDevice l),
          frequencyPenalties = getPenalties (mUseFrequencyPenalty l) batchSlotsHost
                                 (mFrequencyPenalty l) n (getFrequencyPenalty dflt)
                                 (mFrequencyPenaltyDevice l),
          pp_batchSize = getBatchSize localDecoderDomain,
          pp_beamWidth = getBeamWidth localDecoderDomain,
          pp_maxSeqLen = maxSeqLen,
          pp_vocabSize = getVocabSize (mDecoderDomain l),
          pp_vocabSizePadded = getVocabSizePadded (mDecoderDomain l),
          outputIdsPtr = bo_outputIdsPtr outputs,
          parentIdsPtr = bo_parentIdsPtr outputs,
          pp_inputLengths = di_inputLengths params,
          pp_sequenceLengths = seqLens,
          minLengths = getPenalties (mUseMinLength l) batchSlotsHost (mMinLength l) n
                         (getMinLength dflt) (mMinLengthDevice l),
          pp_endIds = di_endIds params,
          pp_batchSlots = di_batchSlots params,
          maxTokensPerStep = getMaxDecodingTokens (mDecoderDomain l),
          tokensPerStep = di_curTokensPerStep params\<rparr>)"

text \<open>
  \<^verbatim>\<open>PenaltyLayer<T>::forwardAsync\<close> (named \<open>penaltyForwardAsync\<close> here). The kernel is
  not among the sources; it is the parameter \<open>penaltyKernel\<close>. It reads the input logits
  through pointers to constant data and writes through its two pointers to mutable
  data, so from the launch parameters and the device memory it yields the new contents
  of the output logits buffer and of the penalty workspace. The local decoder domain
  comes from the helper \<open>getLocalDecoderDomain\<close>, a parameter as well.
\<close>

definition penaltyForwardAsync ::
    "(InvokeBatchApplyPenaltyParams \<Rightarrow> device_memory \<Rightarrow> real list \<times> int list option)
     \<Rightarrow> (DecodingInputs \<Rightarrow> DecoderDomain \<Rightarrow> DecoderDomain) \<Rightarrow> DefaultDecodingParams
     \<Rightarrow> BaseDecodingOutputs \<Rightarrow> DecodingInputs \<Rightarrow> device_memory \<Rightarrow> PenaltyLayer \<Rightarrow> penalty_step" where
  "penaltyForwardAsync penaltyKernel getLocalDecoderDomain dflt outputs params mem l =
     (let localDecoderDomain = getLocalDecoderDomain params (mDecoderDomain l) in
      if shape (bo_outputIds outputs) = [] then failed OutOfRange l params mem
      else
        (let maxSeqLen = nat (last (shape (bo_outputIds outputs))) in
         case preparePointerTable maxSeqLen l of
           Inl e \<Rightarrow> failed e l params mem
         | Inr l1 \<Rightarrow>
             if getBatchSize (mDecoderDomain l1) < getBatchSize localDecoderDomain
             then failed OutOfBounds l1 params mem
             else
               (case logitsPointers (getBatchSize localDecoderDomain) params of
                  (Some e, ptrs) \<Rightarrow> failed e (storePointers ptrs l1) params mem
                | (None, ptrs) \<Rightarrow>
                    (case bo_sequenceLength outputs of
                       None \<Rightarrow> failed BadOptionalAccess (storePointers ptrs l1) params mem
                     | Some seqLens \<Rightarrow>
                         (let l2 = storePointers ptrs l1;
                              penaltyParams = penaltyKernelParams dflt localDecoderDomain maxSeqLen
                                                ptrs outputs seqLens params l2;
                              written = penaltyKernel penaltyParams mem;
                              l3 = l2\<lparr>mPenaltyWorkspaceDevice := snd written,
                                      mCyclicStep := mCyclicStep l2 + 1\<rparr>;
                              logitsShape = [int (getBatchSize localDecoderDomain),
                                             int (getMaxDecodingTokens (mDecoderDomain l)),
                                             int (getBeamWidth localDecoderDomain),
                                             int (getVocabSizePadded (mDecoderDomain l))]
                          in \<lparr>ps_error = None,
                              ps_layer =
                                (if isBeamSearch (mDecodingMode l3)
                                 then l3\<lparr>mPenaltyWorkspaceDevice := mPenaltyWorkspacePrevDevice l3,
                                         mPenaltyWorkspacePrevDevice := mPenaltyWorkspaceDevice l3\<rparr>
                                 else l3),
                              ps_inputs =
                                params\<lparr>di_logits :=
                                  Some \<lparr>ref_buffer = mRuntimeLogitsDevice l, ref_offset = 0,
                                        ref_shape = logitsShape\<rparr>\<rparr>,
                              ps_memory = mem(mRuntimeLogitsDevice l := fst written),
                              ps_launched = Some penaltyParams\<rparr>)))))"

text \<open>
  A sequence of calls on one layer, each on the layer and the device memory that the
  call before it left, whether or not that call threw.
\<close>

datatype layer_call =
    CallSetup nat int "int list option" "PenaltyParams option"
  | CallForwardAsync BaseDecodingOutputs DecodingInputs

fun runCalls ::
    "(InvokeBatchApplyPenaltyParams \<Rightarrow> device_memory \<Rightarrow> real list \<times> int list option)
     \<Rightarrow> (DecodingInputs \<Rightarrow> DecoderDomain \<Rightarrow> DecoderDomain) \<Rightarrow> PenaltyLimits
     \<Rightarrow> DefaultDecodingParams \<Rightarrow> DecodingMode \<Rightarrow> DecodingMode \<Rightarrow> layer_call list
     \<Rightarrow> PenaltyLayer \<times> device_memory \<Rightarrow> PenaltyLayer \<times> device_memory" where
  "runCalls penaltyKernel gl lims dflt m1 m2 [] s = s"
| "runCalls penaltyKernel gl lims dflt m1 m2 (CallSetup batchSize beamWidth slots pp # cs) s =
     runCalls penaltyKernel gl lims dflt m1 m2 cs
       (snd (penaltySetup lims dflt m1 m2 batchSize beamWidth slots pp (fst s)), snd s)"
| "runCalls penaltyKernel gl lims dflt m1 m2 (CallForwardAsync outputs params # cs) s =
     runCalls penaltyKernel gl lims dflt m1 m2 cs
       (ps_layer (penaltyForwardAsync penaltyKernel gl dflt outputs params (snd s) (fst s)),
        ps_memory (penaltyForwardAsync penaltyKernel gl dflt outputs params (snd s) (fst s)))"


text \<open>
  The use flags of \<open>l\<close> are still set in \<open>l'\<close>.
\<close>

definition flagsFrom :: "PenaltyLayer \<Rightarrow> PenaltyLayer \<Rightarrow> bool" where
  "flagsFrom l l' =
     ((mUseTemperature l \<longrightarrow> mUseTemperature l')
    \<and> (mUseRepetitionPenalty l \<longrightarrow> mUseRepetitionPenalty l')
    \<and> (mUsePresencePenalty l \<longrightarrow> mUsePresencePenalty l')
    \<and> (mUseFrequencyPenalty l \<longrightarrow> mUseFrequencyPenalty l')
    \<and> (mUseMinLength l \<longrightarrow> mUseMinLength l'))"

text \<open>The use flags and the decoding mode of \<open>l\<close> are those of \<open>l'\<close>.\<close>

definition keeps :: "PenaltyLayer \<Rightarrow> PenaltyLayer \<Rightarrow> bool" where
  "keeps l l' =
     (mUseTemperature l' = mUseTemperature l
    \<and> mUseRepetitionPenalty l' = mUseRepetitionPenalty l
    \<and> mUsePresencePenalty l' = mUsePresencePenalty l
    \<and> mUseFrequencyPenalty l' = mUseFrequencyPenalty l
    \<and> mUseMinLength l' = mUseMinLength l
    \<and> mDecodingMode l' = mDecodingMode l)"

text \<open>The batch slots that a step scans: those of the inputs, else the default ones.\<close>

definition stepBatchSlots :: "(DecodingInputs \<Rightarrow> DecoderDomain \<Rightarrow> DecoderDomain) \<Rightarrow> DecodingInputs
    \<Rightarrow> PenaltyLayer \<Rightarrow> int list" where
  "stepBatchSlots gl params l =
     (case di_batchSlots params of
        Some b \<Rightarrow> b
      | None \<Rightarrow> getDefaultBatchSlots (getBatchSize (gl params (mDecoderDomain l))))"

text \<open>
  A layer for two slots with beam width 1 and a vocabulary of two tokens, in a mode
  that uses every penalty. Buffer 0 of the device memory is the layer's own logits
  buffer, buffer 1 holds the logits of the caller. The example kernel divides the
  logits of each request by the temperature of its slot when temperatures are handed
  to it, and copies them otherwise, into the front of the output buffer.
\<close>

definition penaltyMode :: DecodingMode where
  "penaltyMode =
     \<lparr>isAuto = False, isBeamSearch = False, isUseTemperature = True,
      isUseRepetitionPenalty = True, isUsePresencePenalty = True,
      isUseFrequencyPenalty = True, isUseMinLength = True, isUseOccurrencePenalty = True\<rparr>"

definition penaltyDefaults :: DefaultDecodingParams where
  "penaltyDefaults =
     \<lparr>getTemperature = 1, getRepetitionPenalty = 1, getPresencePenalty = 0,
      getFrequencyPenalty = 0, getMinLength = 1\<rparr>"

definition penaltyLimits :: PenaltyLimits where
  "penaltyLimits =
     \<lparr>limitTemperature = (\<lambda>x. 0 < x), limitRepetition = (\<lambda>x. 0 < x),
      limitPresence = (\<lambda>x. True), limitFrequency = (\<lambda>x. True),
      limitMinLength = (\<lambda>x. 0 \<le> x)\<rparr>"

definition freshLayer :: PenaltyLayer where
  "freshLayer =
     \<lparr>mDecodingMode = penaltyMode,
      mDecoderDomain = \<lparr>getBatchSize = 2, getBeamWidth = 1, getVocabSize = 2,
                         getVocabSizePadded = 2, getMaxDecodingTokens = 1\<rparr>,
      mConfiguredBeamWidth = 1, mCyclicStep = 0, mRuntimeMaxSeqLen = 0,
      mUseTemperature = False, mUseRepetitionPenalty = False, mUsePresencePenalty = False,
      mUseFrequencyPenalty = False, mUseMinLength = False,
      mTemperature = [0, 0], mRepetitionPenalty = [0, 0], mPresencePenalty = [0, 0],
      mFrequencyPenalty = [0, 0], mMinLength = [0, 0],
      mTemperatureDevice = Some [0, 0], mRepetitionPenaltyDevice = Some [0, 0],
      mPresencePenaltyDevice = Some [0, 0], mFrequencyPenaltyDevice = Some [0, 0],
      mMinLengthDevice = Some [0, 0],
      mRuntimeLogitsDevice = 0,
      mPenaltyWorkspaceDevice = Some [0, 0, 0, 0], mPenaltyWorkspacePrevDevice = None,
      mLogitsPtrsHost = []\<rparr>"

definition callerMemory :: device_memory where
  "callerMemory = (\<lambda>b. if b = 0 then [0, 0, 0, 0] else if b = 1 then [1, 2, 3, 4] else [])"

definition exampleKernel :: "InvokeBatchApplyPenaltyParams \<Rightarrow> device_memory
    \<Rightarrow> real list \<times> int list option" where
  "exampleKernel p mem =
     (writeRow (mem (outputLogits p)) 0
        (concat (map (\<lambda>(bi, ptr).
                 case ptr of
                   None \<Rightarrow> replicate (pp_vocabSizePadded p) 0
                 | Some (b, off) \<Rightarrow>
                     map (\<lambda>x. case temperatures p of
                                 None \<Rightarrow> x
                               | Some ts \<Rightarrow>
                                   x / ts ! (case pp_batchSlots p of
                                               None \<Rightarrow> bi
                                             | Some slots \<Rightarrow> nat (slots ! bi)))
                       (take (pp_vocabSizePadded p) (drop off (mem b))))
               (enumerate 0 (inputLogits p)))),
      penaltyWorkspace p)"

definition localDomain :: "DecodingInputs \<Rightarrow> DecoderDomain \<Rightarrow> DecoderDomain" where
  "localDomain params d =
     d\<lparr>getBatchSize := (case di_batchSlots params of
                          Some slots \<Rightarrow> length slots
                        | None \<Rightarrow> getBatchSize d)\<rparr>"

definition withTemperature :: "real \<Rightarrow> PenaltyParams" where
  "withTemperature t =
     \<lparr>temperature = Some [t], repetitionPenalty = None, presencePenalty = None,
      frequencyPenalty = None, minLength = None\<rparr>"

definition penaltyOutputs :: BaseDecodingOutputs where
  "penaltyOutputs =
     \<lparr>bo_outputIds = \<lparr>shape = [2, 1, 4], dataType = kINT32, buf = [1, 2, 0, 0, 1, 2, 0, 0]\<rparr>,
      bo_outputIdsPtr = [], bo_parentIdsPtr = [], bo_sequenceLength = Some [2, 2]\<rparr>"

definition slotOneInputs :: DecodingInputs where
  "slotOneInputs =
     \<lparr>di_logits = Some \<lparr>ref_buffer = 1, ref_offset = 0, ref_shape = [1, 1, 1, 2]\<rparr>,
      di_logitsVec = None, di_batchSlots = Some [1], di_inputLengths = None,
      di_embeddingBias = None, di_endIds = [7, 7], di_curTokensPerStep = None\<rparr>"

definition slotZeroInputs :: DecodingInputs where
  "slotZeroInputs = slotOneInputs\<lparr>di_batchSlots := Some [0]\<rparr>"

definition outputsWithoutLengths :: BaseDecodingOutputs where
  "outputsWithoutLengths = penaltyOutputs\<lparr>bo_sequenceLength := None\<rparr>"

text \<open>
  Two requests are set up one after the other: slot 0 with temperature \<open>1/2\<close>, slot 1
  with the default temperature 1.
\<close>

definition twoSetups :: "layer_call list" where
  "twoSetups =
     [CallSetup 1 1 (Some [0]) (Some (withTemperature (1 / 2))),
      CallSetup 1 1 (Some [1]) (Some (withTemperature 1))]"

definition afterTwoSetups :: PenaltyLayer where
  "afterTwoSetups =
     fst (runCalls exampleKernel localDomain penaltyLimits penaltyDefaults penaltyMode penaltyMode
            twoSetups (freshLayer, callerMemory))"


section \<open>The block manager of the paged KV cache\<close>

text \<open>
  \<^verbatim>\<open>GenerationRequest\<close>, as the header defines it. Block ids are indices into the table
  of all blocks.
\<close>

record GenerationRequest =
  mSeqSlotIdx :: nat
  mNumTokens :: int
  mBeamWidth :: nat
  mCacheBlockIds :: "nat list list"
  mNumPrepopulatedTokens :: "int list"

definition newGenerationRequest :: "nat \<Rightarrow> int \<Rightarrow> nat \<Rightarrow> GenerationRequest" where
  "newGenerationRequest seqSlotIdx numTokens beamWidth =
     \<lparr>mSeqSlotIdx = seqSlotIdx, mNumTokens = numTokens, mBeamWidth = beamWidth,
      mCacheBlockIds = replicate beamWidth [], mNumPrepopulatedTokens = []\<rparr>"

definition addCacheBlock :: "nat \<Rightarrow> nat \<Rightarrow> GenerationRequest \<Rightarrow> error + GenerationRequest" where
  "addCacheBlock beamIdx blockIdx r =
     (if beamIdx < length (mCacheBlockIds r)
      then Inr (r\<lparr>mCacheBlockIds :=
                   (mCacheBlockIds r)[beamIdx := mCacheBlockIds r ! beamIdx @ [blockIdx]]\<rparr>)
      else Inl OutOfRange)"

definition clearCacheBlocks :: "GenerationRequest \<Rightarrow> GenerationRequest" where
  "clearCacheBlocks r = r\<lparr>mCacheBlockIds := map (\<lambda>beamBlockIds. []) (mCacheBlockIds r)\<rparr>"

text \<open>
  Modelled from the spec: the implementation of \<^verbatim>\<open>KVCacheBlock\<close> is not among the
  sources. Section 3 lists its attributes; those that the operations below use are the
  index, the offset in its pool with the flag for the secondary pool, and the reference
  count. A block whose index is below the size of the primary pool lives in the primary
  pool, the others in the secondary pool.
\<close>

record KVCacheBlock =
  mBlockIdx :: nat
  mMemoryPoolBlockOffset :: nat
  mSecondaryPoolFlag :: bool
  mRefCount :: int

definition newKVCacheBlock :: "nat \<Rightarrow> nat \<Rightarrow> KVCacheBlock" where
  "newKVCacheBlock blockIdx blocksInPrimaryPool =
     \<lparr>mBlockIdx = blockIdx,
      mMemoryPoolBlockOffset =
        (if blockIdx < blocksInPrimaryPool then blockIdx else blockIdx - blocksInPrimaryPool),
      mSecondaryPoolFlag = (\<not> blockIdx < blocksInPrimaryPool),
      mRefCount = 0\<rparr>"

definition isPrimary :: "KVCacheBlock \<Rightarrow> bool" where
  "isPrimary b = (\<not> mSecondaryPoolFlag b)"

definition hasRefs :: "KVCacheBlock \<Rightarrow> bool" where
  "hasRefs b = (0 < mRefCount b)"

text \<open>
  The state of \<^verbatim>\<open>BlockManager\<close> that the operations below use: the two free queues,
  the blocks of each sequence slot and the table of all blocks, as the header declares
  them. Shared pointers to blocks are indices into the table.
\<close>

record BlockManager =
  mFreePrimaryBlocks :: "nat list"
  mFreeSecondaryBlocks :: "nat list"
  mAllocatedBlocksPerSeq :: "nat list list"
  mAllBlocksByIdx :: "KVCacheBlock list"
  mTokensPerBlock :: nat

text \<open>The getters, as the header defines them.\<close>

definition getNumFreeBlocks :: "BlockManager \<Rightarrow> nat" where
  "getNumFreeBlocks m = length (mFreePrimaryBlocks m)"

definition getMaxNumBlocks :: "BlockManager \<Rightarrow> nat" where
  "getMaxNumBlocks m = length (mAllBlocksByIdx m)"

definition getNumAllocatedBlocks :: "BlockManager \<Rightarrow> int" where
  "getNumAllocatedBlocks m = int (getMaxNumBlocks m) - int (getNumFreeBlocks m)"

definition hasFreeBlocks :: "BlockManager \<Rightarrow> nat \<Rightarrow> bool" where
  "hasFreeBlocks m numRequired = (numRequired \<le> getNumFreeBlocks m)"

text \<open>
  Modelled from the spec: the constructor and the operations of \<^verbatim>\<open>BlockManager\<close> are
  declared in the header and implemented outside the sources. Section 3: the blocks are
  "created once at startup", the state has a primary and a secondary free queue and
  the table of all blocks. A fresh manager has every block of either pool in the free
  queue of its pool, and an empty block list for each of the sequence slots.
\<close>

definition newBlockManager :: "nat \<Rightarrow> nat \<Rightarrow> nat \<Rightarrow> nat \<Rightarrow> BlockManager" where
  "newBlockManager tokensPerBlock blocksInPrimaryPool blocksInSecondaryPool maxNumSequences =
     \<lparr>mFreePrimaryBlocks = [0..<blocksInPrimaryPool],
      mFreeSecondaryBlocks = [blocksInPrimaryPool..<blocksInPrimaryPool + blocksInSecondaryPool],
      mAllocatedBlocksPerSeq = replicate maxNumSequences [],
      mAllBlocksByIdx = map (\<lambda>i. newKVCacheBlock i blocksInPrimaryPool)
                          [0..<blocksInPrimaryPool + blocksInSecondaryPool],
      mTokensPerBlock = tokensPerBlock\<rparr>"

text \<open>
  Modelled from the spec, section 4.1, eviction policy of \<^verbatim>\<open>getFreeBlock\<close>: "1. If
  primary free queue non-empty, dequeue the front block. [...] 3. If still nothing,
  onboard a secondary block (copy to primary pool) and evict a primary block to
  secondary if capacity overflow; never fail while secondary capacity remains. 4. If
  both tiers full: fail with OUT_OF_CACHE." Without reuse no block is kept in the
  prefix tree, so the front block of the primary queue is a leaf and the search of
  step 2 has nothing to find. In step 3 the block at the front of the secondary queue
  is handed out. The spec does not say which primary block gives its place to it when
  every primary block is in use; the copy between the pools is not modelled, and a
  block keeps the pool it was created in.
\<close>

definition getFreeBlock :: "BlockManager \<Rightarrow> error + nat \<times> BlockManager" where
  "getFreeBlock m =
     (case mFreePrimaryBlocks m of
        b # rest \<Rightarrow> Inr (b, m\<lparr>mFreePrimaryBlocks := rest\<rparr>)
      | [] \<Rightarrow>
          (case mFreeSecondaryBlocks m of
             b # rest \<Rightarrow> Inr (b, m\<lparr>mFreeSecondaryBlocks := rest\<rparr>)
           | [] \<Rightarrow> Inl OutOfCache))"

text \<open>
  \<^verbatim>\<open>addBlockToBeam\<close> ("Add single block to beam of sequence and
  mAllocatedBlocksPerSeq"): the block gains a reference, the beam of the sequence and
  the slot of the sequence gain the block.
\<close>

definition addBlockToBeam :: "nat \<Rightarrow> nat \<Rightarrow> GenerationRequest \<Rightarrow> BlockManager
    \<Rightarrow> error option \<times> GenerationRequest \<times> BlockManager" where
  "addBlockToBeam block beamIdx r m =
     (if \<not> block < length (mAllBlocksByIdx m) then (Some OutOfRange, r, m)
      else if \<not> mSeqSlotIdx r < length (mAllocatedBlocksPerSeq m) then (Some OutOfRange, r, m)
      else (case addCacheBlock beamIdx block r of
              Inl e \<Rightarrow> (Some e, r, m)
            | Inr r' \<Rightarrow>
                (None, r',
                 m\<lparr>mAllBlocksByIdx :=
                     (mAllBlocksByIdx m)[block :=
                        (mAllBlocksByIdx m ! block)
                          \<lparr>mRefCount := mRefCount (mAllBlocksByIdx m ! block) + 1\<rparr>],
                   mAllocatedBlocksPerSeq :=
                     (mAllocatedBlocksPerSeq m)[mSeqSlotIdx r :=
                        mAllocatedBlocksPerSeq m ! mSeqSlotIdx r @ [block]]\<rparr>)))"

text \<open>
  Modelled from the spec: \<^verbatim>\<open>allocateBlock(seq, shareAmongBeams)\<close>, "append one block to
  each beam (or one shared block across beams if shareAmongBeams). If no free block
  exists, evict via getFreeBlock." Every block comes from \<^verbatim>\<open>getFreeBlock\<close>; when that
  fails, the call fails, and the beams served before keep their block.
\<close>

fun shareBlock :: "nat \<Rightarrow> nat list \<Rightarrow> GenerationRequest \<Rightarrow> BlockManager
    \<Rightarrow> error option \<times> GenerationRequest \<times> BlockManager" where
  "shareBlock block [] r m = (None, r, m)"
| "shareBlock block (beamIdx # beams) r m =
     (case addBlockToBeam block beamIdx r m of
        (Some e, r', m') \<Rightarrow> (Some e, r', m')
      | (None, r', m') \<Rightarrow> shareBlock block beams r' m')"

fun blockPerBeam :: "nat list \<Rightarrow> GenerationRequest \<Rightarrow> BlockManager
    \<Rightarrow> error option \<times> GenerationRequest \<times> BlockManager" where
  "blockPerBeam [] r m = (None, r, m)"
| "blockPerBeam (beamIdx # beams) r m =
     (case getFreeBlock m of
        Inl e \<Rightarrow> (Some e, r, m)
      | Inr (block, m1) \<Rightarrow>
          (case addBlockToBeam block beamIdx r m1 of
             (Some e, r', m') \<Rightarrow> (Some e, r', m')
           | (None, r', m') \<Rightarrow> blockPerBeam beams r' m'))"

definition allocateBlock :: "bool \<Rightarrow> GenerationRequest \<Rightarrow> BlockManager
    \<Rightarrow> error option \<times> GenerationRequest \<times> BlockManager" where
  "allocateBlock shareAmongBeams r m =
     (let beamWidth = mBeamWidth r
      in if shareAmongBeams then
           (case getFreeBlock m of
              Inl e \<Rightarrow> (Some e, r, m)
            | Inr (block, m1) \<Rightarrow> shareBlock block [0..<beamWidth] r m1)
         else blockPerBeam [0..<beamWidth] r m)"

text \<open>
  Modelled from the spec: \<^verbatim>\<open>addSequence(seq, numBlocks, unsharedBlockIdx)\<close>, the
  "non-reuse path; allocates numBlocks fresh blocks for beam 0 plus an
  unsharedBlockIdx marker block per non-0 beam (beam-fork point)": every block is
  shared among the beams but the one at \<open>unsharedBlockIdx\<close>, of which each beam gets its
  own.
\<close>

fun addBlocks :: "int \<Rightarrow> nat list \<Rightarrow> GenerationRequest \<Rightarrow> BlockManager
    \<Rightarrow> error option \<times> GenerationRequest \<times> BlockManager" where
  "addBlocks unsharedBlockIdx [] r m = (None, r, m)"
| "addBlocks unsharedBlockIdx (bi # bis) r m =
     (case allocateBlock (int bi \<noteq> unsharedBlockIdx) r m of
        (Some e, r', m') \<Rightarrow> (Some e, r', m')
      | (None, r', m') \<Rightarrow> addBlocks unsharedBlockIdx bis r' m')"

definition addSequence :: "nat \<Rightarrow> int \<Rightarrow> GenerationRequest \<Rightarrow> BlockManager
    \<Rightarrow> error option \<times> GenerationRequest \<times> BlockManager" where
  "addSequence numBlocks unsharedBlockIdx r m = addBlocks unsharedBlockIdx [0..<numBlocks] r m"

text \<open>
  Modelled from the spec: \<^verbatim>\<open>releaseBlock(block, toFront)\<close>, "decrement refcount; on
  reaching zero enqueue in free list (front = evict-first; back = keep-longer)", in
  the free queue of the block's pool. Decrementing a count that is not positive is the
  logic error of section 7.
\<close>

definition enqueueFree :: "nat \<Rightarrow> bool \<Rightarrow> BlockManager \<Rightarrow> BlockManager" where
  "enqueueFree block toFront m =
     (if isPrimary (mAllBlocksByIdx m ! block)
      then m\<lparr>mFreePrimaryBlocks :=
               (if toFront then block # mFreePrimaryBlocks m else mFreePrimaryBlocks m @ [block])\<rparr>
      else m\<lparr>mFreeSecondaryBlocks :=
               (if toFront then block # mFreeSecondaryBlocks m
                else mFreeSecondaryBlocks m @ [block])\<rparr>)"

definition releaseBlock :: "nat \<Rightarrow> bool \<Rightarrow> BlockManager \<Rightarrow> error option \<times> BlockManager" where
  "releaseBlock block toFront m =
     (if \<not> block < length (mAllBlocksByIdx m) then (Some OutOfRange, m)
      else if \<not> hasRefs (mAllBlocksByIdx m ! block) then (Some LogicError, m)
      else
        (let m1 = m\<lparr>mAllBlocksByIdx :=
                      (mAllBlocksByIdx m)[block :=
                         (mAllBlocksByIdx m ! block)
                           \<lparr>mRefCount := mRefCount (mAllBlocksByIdx m ! block) - 1\<rparr>]\<rparr>
         in if hasRefs (mAllBlocksByIdx m1 ! block) then (None, m1)
            else (None, enqueueFree block toFront m1)))"

text \<open>
  Modelled from the spec: \<^verbatim>\<open>releaseBlocks(seq)\<close> without a request, "release all
  blocks": every block of the slot of the sequence is released, then the slot and the
  sequence have no blocks.
\<close>

fun releaseAll :: "nat list \<Rightarrow> BlockManager \<Rightarrow> error option \<times> BlockManager" where
  "releaseAll [] m = (None, m)"
| "releaseAll (block # blocks) m =
     (case releaseBlock block False m of
        (Some e, m') \<Rightarrow> (Some e, m')
      | (None, m') \<Rightarrow> releaseAll blocks m')"

definition releaseBlocks :: "GenerationRequest \<Rightarrow> BlockManager
    \<Rightarrow> error option \<times> GenerationRequest \<times> BlockManager" where
  "releaseBlocks r m =
     (if \<not> mSeqSlotIdx r < length (mAllocatedBlocksPerSeq m) then (Some OutOfRange, r, m)
      else (case releaseAll (mAllocatedBlocksPerSeq m ! mSeqSlotIdx r) m of
              (Some e, m') \<Rightarrow> (Some e, r, m')
            | (None, m') \<Rightarrow>
                (None, clearCacheBlocks r,
                 m'\<lparr>mAllocatedBlocksPerSeq :=
                      (mAllocatedBlocksPerSeq m')[mSeqSlotIdx r := []]\<rparr>)))"

text \<open>
  A sequence of calls on one manager. Each call names the sequence it is about; a
  sequence has a slot of the manager, at least one beam, and a block list per beam.
\<close>

datatype block_call =
    AddSequence GenerationRequest nat int
  | AllocateBlock GenerationRequest bool
  | ReleaseBlocks GenerationRequest

fun sequenceOf :: "block_call \<Rightarrow> GenerationRequest" where
  "sequenceOf (AddSequence r numBlocks unsharedBlockIdx) = r"
| "sequenceOf (AllocateBlock r shareAmongBeams) = r"
| "sequenceOf (ReleaseBlocks r) = r"

definition validSequence :: "nat \<Rightarrow> GenerationRequest \<Rightarrow> bool" where
  "validSequence maxNumSequences r =
     (mSeqSlotIdx r < maxNumSequences \<and> 0 < mBeamWidth r
      \<and> length (mCacheBlockIds r) = mBeamWidth r)"

fun runBlockCall :: "block_call \<Rightarrow> BlockManager \<Rightarrow> BlockManager" where
  "runBlockCall (AddSequence r numBlocks unsharedBlockIdx) m =
     snd (snd (addSequence numBlocks unsharedBlockIdx r m))"
| "runBlockCall (AllocateBlock r shareAmongBeams) m = snd (snd (allocateBlock shareAmongBeams r m))"
| "runBlockCall (ReleaseBlocks r) m = snd (snd (releaseBlocks r m))"

definition runBlockCalls :: "block_call list \<Rightarrow> BlockManager \<Rightarrow> BlockManager" where
  "runBlockCalls calls m = fold runBlockCall calls m"

text \<open>Every sequence has been removed: no slot holds a block.\<close>

definition noSequenceLeft :: "BlockManager \<Rightarrow> bool" where
  "noSequenceLeft m = list_all (\<lambda>blocks. blocks = []) (mAllocatedBlocksPerSeq m)"

text \<open>
  A manager with one primary and one secondary block and one slot; a sequence of one
  beam is added with one block and released.
\<close>

definition addAndRelease :: "block_call list" where
  "addAndRelease =
     [AddSequence (newGenerationRequest 0 3 1) 1 (- 1),
      ReleaseBlocks (newGenerationRequest 0 3 1)]"

text \<open>
  The invariant of the manager, for pools of \<open>P\<close> and \<open>S\<close> blocks and \<open>N\<close> slots. The
  function \<open>c\<close> counts the references to each block and \<open>H\<close> holds the blocks that have
  been taken from a free queue and are not referenced yet. A block is in the free
  queue of its pool or in \<open>H\<close> exactly if nothing refers to it, and a block is primary
  exactly if its index is below \<open>P\<close>.
\<close>

definition blockInvC :: "nat \<Rightarrow> nat \<Rightarrow> nat \<Rightarrow> nat set \<Rightarrow> (nat \<Rightarrow> nat) \<Rightarrow> BlockManager \<Rightarrow> bool" where
  "blockInvC P S N H c m \<longleftrightarrow>
     length (mAllBlocksByIdx m) = P + S
   \<and> length (mAllocatedBlocksPerSeq m) = N
   \<and> distinct (mFreePrimaryBlocks m)
   \<and> distinct (mFreeSecondaryBlocks m)
   \<and> (set (mFreePrimaryBlocks m) \<union> set (mFreeSecondaryBlocks m)) \<inter> H = {}
   \<and> set (mFreePrimaryBlocks m) \<union> {i \<in> H. i < P} = {i. i < P \<and> c i = 0}
   \<and> set (mFreeSecondaryBlocks m) \<union> {i \<in> H. P \<le> i} = {i. P \<le> i \<and> i < P + S \<and> c i = 0}
   \<and> (\<forall>i < P + S. mRefCount (mAllBlocksByIdx m ! i) = int (c i))
   \<and> (\<forall>i < P + S. isPrimary (mAllBlocksByIdx m ! i) \<longleftrightarrow> i < P)
   \<and> (\<forall>i. 0 < c i \<longrightarrow> i < P + S)"

definition references :: "BlockManager \<Rightarrow> nat \<Rightarrow> nat" where
  "references m i = count_list (concat (mAllocatedBlocksPerSeq m)) i"

definition blockInv :: "nat \<Rightarrow> nat \<Rightarrow> nat \<Rightarrow> nat set \<Rightarrow> BlockManager \<Rightarrow> bool" where
  "blockInv P S N H m = blockInvC P S N H (references m) m"

text \<open>The manager reads the slot, the beam width and the number of beams of a sequence.\<close>

definition sameSequence :: "GenerationRequest \<Rightarrow> GenerationRequest \<Rightarrow> bool" where
  "sameSequence r r' =
     (mSeqSlotIdx r' = mSeqSlotIdx r \<and> mBeamWidth r' = mBeamWidth r
      \<and> length (mCacheBlockIds r') = length (mCacheBlockIds r))"

text \<open>
  A manager of one primary and two secondary blocks and two slots: the first sequence
  takes the primary block, the second a secondary block, and both are released.
\<close>

definition intoSecondary :: "block_call list" where
  "intoSecondary =
     [AddSequence (newGenerationRequest 0 3 1) 1 (- 1),
      AddSequence (newGenerationRequest 1 5 1) 1 (- 1),
      ReleaseBlocks (newGenerationRequest 0 3 1),
      ReleaseBlocks (newGenerationRequest 1 5 1)]"

section \<open>Properties of gatherTree\<close>

lemma length_writeRow [simp]: "length (writeRow xs off ys) = length xs"
proof -
  have "length (fold (\<lambda>(i, y) acc. acc[off + i := y]) ps xs) = length xs" for ps :: "(nat \<times> 'a) list"
    by (induction ps arbitrary: xs) (auto split: prod.splits)
  then show ?thesis by (simp add: writeRow_def)
qed

lemma fold_update_enumerate:
  "n + length ys \<le> length xs \<Longrightarrow>
   fold (\<lambda>(i, y) acc. acc[i := y]) (enumerate n ys) xs = take n xs @ ys @ drop (n + length ys) xs"
proof (induction ys arbitrary: n xs)
  case Nil
  then show ?case by simp
next
  case (Cons y ys)
  have "fold (\<lambda>(i, y) acc. acc[i := y]) (enumerate n (y # ys)) xs
      = fold (\<lambda>(i, y) acc. acc[i := y]) (enumerate (Suc n) ys) (xs[n := y])" by simp
  also have "\<dots> = take (Suc n) (xs[n := y]) @ ys @ drop (Suc n + length ys) (xs[n := y])"
    using Cons.prems by (intro Cons.IH) simp
  also have "\<dots> = take n xs @ (y # ys) @ drop (n + length (y # ys)) xs"
    using Cons.prems by (simp add: take_Suc_conv_app_nth)
  finally show ?case .
qed

lemma writeRow_whole: "length xs = length ys \<Longrightarrow> writeRow xs 0 ys = ys"
  using fold_update_enumerate [of 0 ys xs] by (simp add: writeRow_def)


lemma length_fill: "length (concat (map (\<lambda>bb. replicate L (f bb)) [0..<n])) = n * L"
  by (induction n) simp_all

lemma invokeInitializeOutput_whole:
  "length fin = n * L \<Longrightarrow>
   invokeInitializeOutput fin e n L = concat (map (\<lambda>bb. replicate L (e ! bb)) [0..<n])"
  by (simp add: invokeInitializeOutput_def writeRow_whole length_fill)

lemma length_invokeInitializeOutput [simp]:
  "length (invokeInitializeOutput fin e n L) = length fin"
  by (simp add: invokeInitializeOutput_def)

lemma length_emitHypothesis [simp]: "length (emitHypothesis bh s r k fin) = length fin"
  by (simp add: emitHypothesis_def Let_def)

lemma length_emit_fold:
  "length (fold (\<lambda>(r, k) f. emitHypothesis bh s r k f) ps fin) = length fin"
  by (induction ps arbitrary: fin) (auto split: prod.splits)

lemma length_finalize_fold:
  "length (fold (\<lambda>s fin. fold (\<lambda>(r, k) f. emitHypothesis bh s r k f) (g s) fin) ss fin) = length fin"
  by (induction ss arbitrary: fin) (simp_all add: length_emit_fold)

lemma invokeFinalize_fields:
  "invokeFinalize bh = bh\<lparr>final_output_ids := final_output_ids (invokeFinalize bh)\<rparr>"
  "length (final_output_ids (invokeFinalize bh)) = length (final_output_ids bh)"
  by (simp_all add: invokeFinalize_def length_finalize_fold)

lemma liveBeams_Nil:
  assumes "gatherTreeBuffers m f out inp = Some bh" and "noLiveBeams f out"
  shows "liveBeams bh = []"
proof -
  obtain fin where fin: "finished out = Some fin" "bh_finished bh = buf fin"
    "batch_size bh = dAt (shape f) 0" "beam_width bh = dAt (shape f) 1"
    using assms(1) by (auto simp: gatherTreeBuffers_def Let_def split: option.splits)
  show ?thesis
    using assms(2) fin
    by (auto simp: liveBeams_def noLiveBeams_def filter_empty_conv list_all_iff)
qed

lemma storeBack_same:
  assumes "gatherTreeBuffers m f out inp = Some bh"
  shows "storeBack out (bh\<lparr>final_output_ids := x\<rparr>) = out"
  using assms
  by (auto simp: gatherTreeBuffers_def storeBack_def setBuf_def Let_def split: option.splits)

lemma gatherTree_second_call:
  assumes ok: "gatherTree m f out inp = (tr, Inr (f1, out1))"
    and nl: "noLiveBeams f out"
    and wf: "length (buf f) = nat (dAt (shape f) 0 * dAt (shape f) 1) * nat (dAt (shape f) 2)"
  shows "gatherTree m f1 out1 inp = (tr, Inr (f1, out1))"
proof -
  define n where "n = nat (dAt (shape f) 0 * dAt (shape f) 1)"
  define L where "L = nat (dAt (shape f) 2)"
  define fill where "fill = concat (map (\<lambda>bb. replicate L (buf (endIds inp) ! bb)) [0..<n])"
  define final1 where "final1 = f\<lparr>buf := fill\<rparr>"
  have chk: "gatherTreeChecks (shape f) (shape (ids out)) = Inr ()"
    using ok by (auto simp: gatherTree_def split: sum.splits)
  have init: "invokeInitializeOutput (buf f) (buf (endIds inp)) n L = fill"
    using wf by (simp add: invokeInitializeOutput_whole fill_def n_def L_def)
  have unfold: "gatherTree m f out inp =
      (case gatherTreeBuffers m final1 out inp of
         None \<Rightarrow> ([LaunchInitializeOutput], Inl NullDereference)
       | Some bh \<Rightarrow>
           ([LaunchInitializeOutput, LaunchInsertUnfinishedPath, LaunchFinalize],
            Inr (final1\<lparr>buf := final_output_ids (invokeFinalize (invokeInsertUnfinishedPath bh))\<rparr>,
                 storeBack out (invokeFinalize (invokeInsertUnfinishedPath bh)))))"
    using chk init by (simp add: gatherTree_def Let_def final1_def n_def L_def split: option.splits)
  from ok unfold obtain bh where bh: "gatherTreeBuffers m final1 out inp = Some bh"
    and tr: "tr = [LaunchInitializeOutput, LaunchInsertUnfinishedPath, LaunchFinalize]"
    and f1: "f1 = final1\<lparr>buf := final_output_ids (invokeFinalize (invokeInsertUnfinishedPath bh))\<rparr>"
    and out1: "out1 = storeBack out (invokeFinalize (invokeInsertUnfinishedPath bh))"
    by (auto split: option.splits)
  have "noLiveBeams final1 out"
    using nl by (simp add: noLiveBeams_def final1_def split: option.splits)
  then have "liveBeams bh = []"
    using bh by (rule liveBeams_Nil [rotated])
  then have ins: "invokeInsertUnfinishedPath bh = bh"
    by (simp add: invokeInsertUnfinishedPath_def)
  have "out1 = storeBack out (bh\<lparr>final_output_ids := final_output_ids (invokeFinalize bh)\<rparr>)"
    using out1 ins invokeFinalize_fields(1) [of bh] by simp
  then have out1': "out1 = out"
    using storeBack_same [OF bh] by simp
  have fbh: "final_output_ids bh = fill"
    using bh by (auto simp: gatherTreeBuffers_def final1_def Let_def split: option.splits)
  have sh: "shape f1 = shape f"
    by (simp add: f1 final1_def)
  have "length (buf f1) = length fill"
    using invokeFinalize_fields(2) [of bh] by (simp add: f1 ins fbh)
  also have "\<dots> = n * L"
    by (simp add: fill_def length_fill)
  finally have init1: "invokeInitializeOutput (buf f1) (buf (endIds inp)) n L = fill"
    by (simp add: invokeInitializeOutput_whole fill_def)
  have fin1: "f1\<lparr>buf := fill\<rparr> = final1"
    by (simp add: f1 final1_def)
  have "gatherTree m f1 out inp =
      (case gatherTreeBuffers m final1 out inp of
         None \<Rightarrow> ([LaunchInitializeOutput], Inl NullDereference)
       | Some bh \<Rightarrow>
           ([LaunchInitializeOutput, LaunchInsertUnfinishedPath, LaunchFinalize],
            Inr (final1\<lparr>buf := final_output_ids (invokeFinalize (invokeInsertUnfinishedPath bh))\<rparr>,
                 storeBack out (invokeFinalize (invokeInsertUnfinishedPath bh)))))"
    using chk init1 fin1 by (simp add: gatherTree_def Let_def sh n_def L_def split: option.splits)
  then show ?thesis
    using bh tr f1 out1 out1' by simp
qed



text \<open>
  Claim C10. \<^verbatim>\<open>gatherTree\<close> validates its preconditions before any device work. Unless
  the final beam width is greater than 1, the decoder batch size equals the final batch
  size, the decoder beam width equals the final beam width, and the decoder sequence
  length is at most the final maximum sequence length, the call ends in the error of
  the first failing check with nothing launched. When the four conditions hold, the
  checks pass and the call goes on to the initialisation kernel.
\<close>

theorem gatherTree_validates_preconditions:
  "(\<not> (dAt (shape f) 1 > 1
        \<and> dAt (shape (ids out)) 0 = dAt (shape f) 0
        \<and> dAt (shape (ids out)) 1 = dAt (shape f) 1
        \<and> dAt (shape (ids out)) 2 \<le> dAt (shape f) 2)
      \<longrightarrow> (\<exists>e. gatherTreeChecks (shape f) (shape (ids out)) = Inl e
               \<and> gatherTree m f out inp = ([], Inl e)))
   \<and> (dAt (shape f) 1 > 1
        \<and> dAt (shape (ids out)) 0 = dAt (shape f) 0
        \<and> dAt (shape (ids out)) 1 = dAt (shape f) 1
        \<and> dAt (shape (ids out)) 2 \<le> dAt (shape f) 2
      \<longrightarrow> gatherTreeChecks (shape f) (shape (ids out)) = Inr ()
          \<and> hd (fst (gatherTree m f out inp)) = LaunchInitializeOutput)"
  by (auto simp: gatherTree_def gatherTreeChecks_def Let_def split: option.splits)

theorem gatherTree_validates_preconditions_witness:
  "gatherTree logProbsTiled (tensor [1, 1, 2] kINT32 [0, 0]) liveOutput beamInput
     = ([], Inl GatherTreeOnlyForBeamSearch)
   \<and> gatherTree logProbsTiled (tensor [1, 2, 1] kINT32 [0, 0]) liveOutput beamInput
     = ([], Inl (DecoderSeqLengthTooLarge 2 1))
   \<and> gatherTreeChecks (shape finalBuffer) (shape (ids liveOutput)) = Inr ()
   \<and> hd (fst (gatherTree logProbsTiled finalBuffer liveOutput beamInput)) = LaunchInitializeOutput"
proof -
  have bad1: "\<not> (dAt (shape (tensor [1, 1, 2] kINT32 [0, 0 :: int])) 1 > 1
      \<and> dAt (shape (ids liveOutput)) 0 = dAt (shape (tensor [1, 1, 2] kINT32 [0, 0 :: int])) 0
      \<and> dAt (shape (ids liveOutput)) 1 = dAt (shape (tensor [1, 1, 2] kINT32 [0, 0 :: int])) 1
      \<and> dAt (shape (ids liveOutput)) 2 \<le> dAt (shape (tensor [1, 1, 2] kINT32 [0, 0 :: int])) 2)"
    by (simp add: tensor_def dAt_def liveOutput_def)
  have bad2: "\<not> (dAt (shape (tensor [1, 2, 1] kINT32 [0, 0 :: int])) 1 > 1
      \<and> dAt (shape (ids liveOutput)) 0 = dAt (shape (tensor [1, 2, 1] kINT32 [0, 0 :: int])) 0
      \<and> dAt (shape (ids liveOutput)) 1 = dAt (shape (tensor [1, 2, 1] kINT32 [0, 0 :: int])) 1
      \<and> dAt (shape (ids liveOutput)) 2 \<le> dAt (shape (tensor [1, 2, 1] kINT32 [0, 0 :: int])) 2)"
    by (simp add: tensor_def dAt_def liveOutput_def)
  have good: "dAt (shape finalBuffer) 1 > 1
      \<and> dAt (shape (ids liveOutput)) 0 = dAt (shape finalBuffer) 0
      \<and> dAt (shape (ids liveOutput)) 1 = dAt (shape finalBuffer) 1
      \<and> dAt (shape (ids liveOutput)) 2 \<le> dAt (shape finalBuffer) 2"
    by (simp add: tensor_def dAt_def liveOutput_def finalBuffer_def)
  have e1: "gatherTreeChecks (shape (tensor [1, 1, 2] kINT32 [0, 0 :: int])) (shape (ids liveOutput))
      = Inl GatherTreeOnlyForBeamSearch"
    by (simp add: gatherTreeChecks_def tensor_def dAt_def liveOutput_def)
  have e2: "gatherTreeChecks (shape (tensor [1, 2, 1] kINT32 [0, 0 :: int])) (shape (ids liveOutput))
      = Inl (DecoderSeqLengthTooLarge 2 1)"
    by (simp add: gatherTreeChecks_def tensor_def dAt_def liveOutput_def)
  show ?thesis
    using gatherTree_validates_preconditions
            [of "tensor [1, 1, 2] kINT32 [0, 0]" liveOutput logProbsTiled beamInput] bad1 e1
          gatherTree_validates_preconditions
            [of "tensor [1, 2, 1] kINT32 [0, 0]" liveOutput logProbsTiled beamInput] bad2 e2
          gatherTree_validates_preconditions
            [of finalBuffer liveOutput logProbsTiled beamInput] good
    by auto
qed

text \<open>
  Claim C8, as stated: calling \<^verbatim>\<open>gatherTree\<close> twice with unchanged arguments yields
  the final output ids of a single call. With two live beams and an empty
  candidate-beam array this fails: the first call inserts both beams and emits them,
  the second call inserts them again behind the first two entries, and the two best
  entries are now the two copies of the better beam.
\<close>

theorem gatherTree_twice_counterexample:
  "finalIds (gatherTree logProbsTiled finalBuffer liveOutput beamInput) = Some [5, 6, 8, 9]
   \<and> finalIds (gatherTreeTwice logProbsTiled finalBuffer liveOutput beamInput) = Some [5, 6, 5, 6]"
  by code_simp

text \<open>
  Claim C8, amended: on a decoding state on which \<^verbatim>\<open>gatherTree\<close> succeeds, whose final
  tensor has the size of its shape and in which no beam is still live, the second call
  returns exactly what the first call returned: the same final output ids and the same
  decoding output. The insertion kernel then adds nothing to the candidate-beam array,
  and the initialisation overwrites what the first call left in the final buffer.
\<close>

theorem gatherTree_twice_without_live_beams:
  assumes ok: "gatherTree m f out inp = (tr, Inr r)"
    and nl: "noLiveBeams f out"
    and wf: "length (buf f) = nat (dAt (shape f) 0 * dAt (shape f) 1) * nat (dAt (shape f) 2)"
  shows "gatherTreeTwice m f out inp = gatherTree m f out inp"
proof -
  obtain f1 out1 where r: "r = (f1, out1)"
    by (cases r)
  have "gatherTree m f1 out1 inp = (tr, Inr (f1, out1))"
    using ok nl wf unfolding r by (rule gatherTree_second_call)
  then show ?thesis
    using ok r by (simp add: gatherTreeTwice_def)
qed

theorem gatherTree_twice_without_live_beams_witness:
  "gatherTreeTwice logProbsTiled finalBuffer doneOutput beamInput
     = gatherTree logProbsTiled finalBuffer doneOutput beamInput
   \<and> finalIds (gatherTree logProbsTiled finalBuffer doneOutput beamInput) = Some [8, 9, 5, 6]"
proof -
  have ok: "gatherTree logProbsTiled finalBuffer doneOutput beamInput
      = ([LaunchInitializeOutput, LaunchInsertUnfinishedPath, LaunchFinalize],
         Inr (tensor [1, 2, 2] kINT32 [8, 9, 5, 6], doneOutput))"
    by code_simp
  have nl: "noLiveBeams finalBuffer doneOutput"
    by code_simp
  have wf: "length (buf finalBuffer)
      = nat (dAt (shape finalBuffer) 0 * dAt (shape finalBuffer) 1) * nat (dAt (shape finalBuffer) 2)"
    by code_simp
  show ?thesis
    using gatherTree_twice_without_live_beams [OF ok nl wf] ok by (simp add: finalIds_def tensor_def)
qed


section \<open>Properties of the draft-token acceptance\<close>










text \<open>
  Claim C4. Both acceptance operations require a beam width of 1. In
  \<^verbatim>\<open>acceptDraftTokensByIds\<close> the beam width is dimension 1 of the target token ids:
  when it differs from 1 the call ends in the beam-width error with nothing launched,
  and when it is 1 the call does not end in that error. In
  \<^verbatim>\<open>acceptDraftTokensByLogits\<close> the beam width is the constant 1, no argument carries a
  beam-width dimension, and the call never ends in the beam-width error.
\<close>

theorem acceptDraftTokens_beam_width_one:
  "(dAt (shape targetTokenIds) 1 \<noteq> 1 \<longrightarrow>
      acceptDraftTokensByIds targetTokenIds draftTokenIds contextLengths numDraftTokens
        sequenceLengths finishedVec slots
      = ([], Inl (BeamWidthNotSupported (dAt (shape targetTokenIds) 1))))
   \<and> (dAt (shape targetTokenIds) 1 = 1 \<longrightarrow>
      snd (acceptDraftTokensByIds targetTokenIds draftTokenIds contextLengths numDraftTokens
        sequenceLengths finishedVec slots) \<noteq> Inl (BeamWidthNotSupported b))
   \<and> snd (acceptDraftTokensByLogits kernelFloat kernelHalf draftLogits slots vocabSize st)
        \<noteq> Inl (BeamWidthNotSupported b')"
  by (simp add: acceptDraftTokensByIds_def acceptDraftTokensByLogits_def Let_def)

theorem acceptDraftTokens_beam_width_one_witness:
  "acceptDraftTokensByIds beamTwoTarget s5Draft s5Context s5NumDraft s5SeqLens s5Finished s5Slots
     = ([], Inl (BeamWidthNotSupported 2))
   \<and> snd (acceptDraftTokensByIds s5Target s5Draft s5Context s5NumDraft s5SeqLens s5Finished s5Slots)
     \<noteq> Inl (BeamWidthNotSupported 1)"
proof -
  have two: "dAt (shape beamTwoTarget) 1 = 2"
    by code_simp
  have one: "dAt (shape s5Target) 1 = 1"
    by code_simp
  show ?thesis
    using acceptDraftTokens_beam_width_one
            [of beamTwoTarget s5Draft s5Context s5NumDraft s5SeqLens s5Finished s5Slots 1
                "\<lambda>_ s. s" "\<lambda>_ s. s" "\<lparr>shape = [], dataType = kFLOAT, buf = []\<rparr>" 0 "()" 1]
          acceptDraftTokens_beam_width_one
            [of s5Target s5Draft s5Context s5NumDraft s5SeqLens s5Finished s5Slots 1
                "\<lambda>_ s. s" "\<lambda>_ s. s" "\<lparr>shape = [], dataType = kFLOAT, buf = []\<rparr>" 0 "()" 1]
          two one
    by simp
qed


section \<open>Properties of the decoding step\<close>

lemma sumFinished_Suc: "sumFinished fs (Suc k) = wrap32 (sumFinished fs k + fs ! k)"
  by (simp add: sumFinished_def)

lemma numFinished_append: "numFinished (xs @ ys) = numFinished xs + numFinished ys"
  by (simp add: numFinished_def)

lemma numFinished_le: "numFinished xs \<le> length xs"
  by (simp add: numFinished_def)

lemma wrap32_id: "0 \<le> x \<Longrightarrow> x < 2 ^ 31 \<Longrightarrow> wrap32 x = x"
  by (simp add: wrap32_def)

lemma int_less_nat_pow31: "int x < 2 ^ 31 \<longleftrightarrow> x < 2 ^ 31"
proof -
  have "int x < int (2 ^ 31) \<longleftrightarrow> x < 2 ^ 31"
    by (rule of_nat_less_iff)
  thus ?thesis by simp
qed

text \<open>
  When the finished sum of each slot counts the finished beams of the slot, the sum
  over the slots is the number of finished entries of the mask; below \<open>2 ^ 31\<close> entries
  the 32-bit addition does not wrap.
\<close>

lemma sumFinished_prefix:
  assumes rows: "\<forall>slot < n. fs ! slot = int (numFinished (take bw (drop (slot * bw) fin)))"
    and len: "length fin = n * bw" and small: "n * bw < 2 ^ 31"
  shows "k \<le> n \<Longrightarrow> sumFinished fs k = int (numFinished (take (k * bw) fin))"
proof (induction k)
  case 0
  show ?case by (simp add: sumFinished_def numFinished_def)
next
  case (Suc k)
  have "Suc k * bw = k * bw + bw"
    by simp
  hence split: "take (Suc k * bw) fin = take (k * bw) fin @ take bw (drop (k * bw) fin)"
    by (simp only: take_add)
  have "numFinished (take (Suc k * bw) fin) \<le> n * bw"
    using numFinished_le [of "take (Suc k * bw) fin"] len by simp
  hence "numFinished (take (Suc k * bw) fin) < 2 ^ 31"
    using small by (rule le_less_trans)
  hence bound: "int (numFinished (take (Suc k * bw) fin)) < 2 ^ 31"
    by (simp only: int_less_nat_pow31)
  have "sumFinished fs (Suc k)
      = wrap32 (int (numFinished (take (k * bw) fin))
                + int (numFinished (take bw (drop (k * bw) fin))))"
    using Suc rows by (simp add: sumFinished_Suc)
  also have "\<dots> = wrap32 (int (numFinished (take (Suc k * bw) fin)))"
    unfolding split numFinished_append by simp
  also have "\<dots> = int (numFinished (take (Suc k * bw) fin))"
    using bound by (intro wrap32_id) simp_all
  finally show ?case .
qed

lemma sumFinished_counts:
  assumes "countsFinishedBeams n bw fin fs" and "n * bw < 2 ^ 31"
  shows "sumFinished fs n mod 2 ^ 64 = int (numFinished fin)"
proof -
  have rows: "\<forall>slot < n. fs ! slot = int (numFinished (take bw (drop (slot * bw) fin)))"
    using assms(1) by (simp add: countsFinishedBeams_def list_all_iff)
  have len: "length fin = n * bw"
    using assms(1) by (simp add: countsFinishedBeams_def)
  have eq: "sumFinished fs n = int (numFinished fin)"
    using sumFinished_prefix [OF rows len assms(2), of n] len by simp
  have "numFinished fin \<le> n * bw"
    using numFinished_le [of fin] len by simp
  hence "numFinished fin < 2 ^ 31"
    using assms(2) by (rule le_less_trans)
  hence "int (numFinished fin) < 2 ^ 31"
    by (simp only: int_less_nat_pow31)
  hence "int (numFinished fin) < 2 ^ 64"
    by simp
  thus ?thesis
    unfolding eq by simp
qed

lemma finishedSumHost_given:
  "finishedSumHost output inp \<noteq> None
   \<longleftrightarrow> sequenceLimitLength inp \<noteq> None \<and> finished output \<noteq> None
       \<and> (case finishedSum output of Some fs \<Rightarrow> buf fs \<noteq> [] | None \<Rightarrow> 0 < maxBatchSize inp)"
  by (auto simp: finishedSumHost_def finishedSumBuffer_def bufferCast_def pinned_def
           split: option.splits if_splits)

lemma forward_returns:
  assumes "forward layer T mb tiled output inp = (tr, Inr (b, output'))"
  shows "\<exists>forwardParams outputParams outputParams'.
           prepareInputs T inp mb = Inr forwardParams
         \<and> prepareFinishedSum output inp (prepareOutputs output (inLengths inp) tiled)
             = Inr outputParams
         \<and> layer forwardParams outputParams = Inr outputParams'
         \<and> output' = writeBack output outputParams'
         \<and> (if finishedSumHost output inp \<noteq> None
            then \<exists>fin fs. finished output = Some fin \<and> op_finished_sum outputParams' = Some fs
                   \<and> b = (int (getSize fin) = sumFinished (buf fs) (maxBatchSize inp) mod 2 ^ 64)
            else b = False)"
  using assms
  by (auto simp: forward_def allFinished_def split: sum.splits if_splits option.splits)

text \<open>
  Claim C1, as stated: \<^verbatim>\<open>forward\<close> returns true if and only if every slot is in a
  terminal state, and with both the sequence limit lengths and the finished mask given
  its result says whether the number of finished entries equals the size of the mask.
  Without the sequence limit lengths the first part fails: a step that ends both beams
  leaves every entry of the finished mask terminal, and \<^verbatim>\<open>forward\<close> returns false. On
  an empty batch the second part fails: both tensors are given, the mask has no entry
  and no finished entry, and \<^verbatim>\<open>forward\<close> returns false, because the pointer to the
  empty finished sum is null.
\<close>

theorem forward_all_terminal_counterexample:
  "returned (forward finishingLayer kFLOAT 2 logProbsTiled stepOutput stepInputNoLimit) = Some False
   \<and> everySlotTerminal (forward finishingLayer kFLOAT 2 logProbsTiled stepOutput stepInputNoLimit)
   \<and> sequenceLimitLength emptyInput \<noteq> None \<and> finished emptyOutput \<noteq> None
   \<and> returned (forward finishingLayer kFLOAT 0 logProbsTiled emptyOutput emptyInput) = Some False
   \<and> finishedEqualsSize (forward finishingLayer kFLOAT 0 logProbsTiled emptyOutput emptyInput)"
  by code_simp

text \<open>
  Claim C1, amended: whenever \<^verbatim>\<open>forward\<close> returns, it has prepared the parameters, run
  the layer on them and stored the layer's results in the output. The pointer
  \<^verbatim>\<open>finishedSumHost\<close> is set exactly if the sequence limit lengths and the finished
  mask are given and the tensor of the finished sum has elements (the finished sum of
  the output, or without one a pinned tensor of \<open>maxBatchSize\<close> entries). If it is set,
  the returned boolean says that the size of the finished mask equals the sum, in
  32-bit arithmetic and read as \<^verbatim>\<open>std::size_t\<close>, of the first \<open>maxBatchSize\<close> entries of
  the finished sum as the layer left it; and when the layer left in each of them the
  number of finished beams of its slot, for a mask of fewer than \<open>2 ^ 31\<close> entries, the
  returned boolean says that the number of finished entries of the mask equals the size
  of the mask. If the pointer is not set, \<^verbatim>\<open>forward\<close> returns false.
\<close>

theorem forward_returns_finished_count:
  assumes "forward layer T mb tiled output inp = (tr, Inr (b, output'))"
  shows "(finishedSumHost output inp \<noteq> None
          \<longleftrightarrow> sequenceLimitLength inp \<noteq> None \<and> finished output \<noteq> None
              \<and> (case finishedSum output of
                    Some fs \<Rightarrow> buf fs \<noteq> []
                  | None \<Rightarrow> 0 < maxBatchSize inp))
       \<and> (\<exists>forwardParams outputParams outputParams'.
             prepareInputs T inp mb = Inr forwardParams
           \<and> prepareFinishedSum output inp (prepareOutputs output (inLengths inp) tiled)
               = Inr outputParams
           \<and> layer forwardParams outputParams = Inr outputParams'
           \<and> output' = writeBack output outputParams'
           \<and> (if finishedSumHost output inp \<noteq> None
              then \<exists>fin fs. finished output = Some fin
                     \<and> op_finished_sum outputParams' = Some fs
                     \<and> b = (int (getSize fin)
                             = sumFinished (buf fs) (maxBatchSize inp) mod 2 ^ 64)
                     \<and> (\<forall>beamWidth fin'.
                           finished output' = Some fin'
                           \<and> countsFinishedBeams (maxBatchSize inp) beamWidth (buf fin') (buf fs)
                           \<and> maxBatchSize inp * beamWidth < 2 ^ 31
                           \<longrightarrow> b = (numFinished (buf fin') = getSize fin))
              else b = False))"
proof -
  obtain forwardParams outputParams outputParams' where
      p: "prepareInputs T inp mb = Inr forwardParams"
         "prepareFinishedSum output inp (prepareOutputs output (inLengths inp) tiled)
            = Inr outputParams"
         "layer forwardParams outputParams = Inr outputParams'"
         "output' = writeBack output outputParams'"
    and r: "if finishedSumHost output inp \<noteq> None
            then \<exists>fin fs. finished output = Some fin \<and> op_finished_sum outputParams' = Some fs
                   \<and> b = (int (getSize fin) = sumFinished (buf fs) (maxBatchSize inp) mod 2 ^ 64)
            else b = False"
    using forward_returns [OF assms] by blast
  have "\<exists>fin fs. finished output = Some fin \<and> op_finished_sum outputParams' = Some fs
          \<and> b = (int (getSize fin) = sumFinished (buf fs) (maxBatchSize inp) mod 2 ^ 64)
          \<and> (\<forall>beamWidth fin'.
                finished output' = Some fin'
                \<and> countsFinishedBeams (maxBatchSize inp) beamWidth (buf fin') (buf fs)
                \<and> maxBatchSize inp * beamWidth < 2 ^ 31
                \<longrightarrow> b = (numFinished (buf fin') = getSize fin))"
    if host: "finishedSumHost output inp \<noteq> None"
  proof -
    obtain fin fs where
        f: "finished output = Some fin" "op_finished_sum outputParams' = Some fs"
           "b = (int (getSize fin) = sumFinished (buf fs) (maxBatchSize inp) mod 2 ^ 64)"
      using r host by auto
    have "b = (numFinished (buf fin') = getSize fin)"
      if "countsFinishedBeams (maxBatchSize inp) beamWidth (buf fin') (buf fs)"
        and "maxBatchSize inp * beamWidth < 2 ^ 31" for beamWidth fin'
      using f(3) sumFinished_counts [OF that] by auto
    thus ?thesis
      using f by blast
  qed
  hence "if finishedSumHost output inp \<noteq> None
         then \<exists>fin fs. finished output = Some fin \<and> op_finished_sum outputParams' = Some fs
                \<and> b = (int (getSize fin) = sumFinished (buf fs) (maxBatchSize inp) mod 2 ^ 64)
                \<and> (\<forall>beamWidth fin'.
                      finished output' = Some fin'
                      \<and> countsFinishedBeams (maxBatchSize inp) beamWidth (buf fin') (buf fs)
                      \<and> maxBatchSize inp * beamWidth < 2 ^ 31
                      \<longrightarrow> b = (numFinished (buf fin') = getSize fin))
         else b = False"
    using r by (simp split: if_splits)
  thus ?thesis
    using p finishedSumHost_given by blast
qed

theorem forward_returns_finished_count_witness:
  "forward finishingLayer kFLOAT 2 logProbsTiled stepOutput stepInput
     = ([LayerForward, StreamSynchronize],
        Inr (True, stepOutput\<lparr>finished :=
                     Some (tensor [2, 1] kUINT8 [FINISHED_MAX_LEN, FINISHED_MAX_LEN])\<rparr>))
   \<and> finishedSumHost stepOutput stepInput \<noteq> None
   \<and> numFinished [FINISHED_MAX_LEN, FINISHED_MAX_LEN]
       = getSize (tensor [2, 1] kUINT8 [GENERATION, GENERATION])"
proof -
  define output' where
    "output' = stepOutput\<lparr>finished :=
                 Some (tensor [2, 1] kUINT8 [FINISHED_MAX_LEN, FINISHED_MAX_LEN])\<rparr>"
  define forwardParams where "forwardParams = projr (prepareInputs kFLOAT stepInput 2)"
  define outputParams where
    "outputParams = projr (prepareFinishedSum stepOutput stepInput
                             (prepareOutputs stepOutput (inLengths stepInput) logProbsTiled))"
  have ok: "forward finishingLayer kFLOAT 2 logProbsTiled stepOutput stepInput
      = ([LayerForward, StreamSynchronize], Inr (True, output'))"
    unfolding output'_def by code_simp
  have p1: "prepareInputs kFLOAT stepInput 2 = Inr forwardParams"
    unfolding forwardParams_def by code_simp
  have p2: "prepareFinishedSum stepOutput stepInput
              (prepareOutputs stepOutput (inLengths stepInput) logProbsTiled) = Inr outputParams"
    unfolding outputParams_def by code_simp
  have sum: "op_finished_sum (projr (finishingLayer forwardParams outputParams))
      = Some (tensor [2] kINT32 [1, 1])"
    unfolding forwardParams_def outputParams_def by code_simp
  have host: "finishedSumHost stepOutput stepInput \<noteq> None"
    by code_simp
  have fin: "finished stepOutput = Some (tensor [2, 1] kUINT8 [GENERATION, GENERATION])"
    by code_simp
  have fin': "finished output'
      = Some (tensor [2, 1] kUINT8 [FINISHED_MAX_LEN, FINISHED_MAX_LEN])"
    unfolding output'_def by simp
  have mb: "maxBatchSize stepInput = 2"
    by code_simp
  have counts: "countsFinishedBeams 2 1 [FINISHED_MAX_LEN, FINISHED_MAX_LEN] [1, 1]"
    by code_simp
  have bufs: "buf (tensor [2, 1] kUINT8 [FINISHED_MAX_LEN, FINISHED_MAX_LEN])
                = [FINISHED_MAX_LEN, FINISHED_MAX_LEN]"
             "buf (tensor [2] kINT32 [1, 1 :: int]) = [1, 1]"
    by (simp_all add: tensor_def)
  obtain fp op op' where
      q: "prepareInputs kFLOAT stepInput 2 = Inr fp"
         "prepareFinishedSum stepOutput stepInput
            (prepareOutputs stepOutput (inLengths stepInput) logProbsTiled) = Inr op"
         "finishingLayer fp op = Inr op'"
    and r: "\<exists>fin fs. finished stepOutput = Some fin \<and> op_finished_sum op' = Some fs
              \<and> (\<forall>beamWidth fin'.
                    finished output' = Some fin'
                    \<and> countsFinishedBeams (maxBatchSize stepInput) beamWidth (buf fin') (buf fs)
                    \<and> maxBatchSize stepInput * beamWidth < 2 ^ 31
                    \<longrightarrow> True = (numFinished (buf fin') = getSize fin))"
    using forward_returns_finished_count [OF ok] host by auto
  have "fp = forwardParams" "op = outputParams"
    using q p1 p2 by simp_all
  hence "op_finished_sum op' = Some (tensor [2] kINT32 [1, 1])"
    using q(3) sum by simp
  hence "numFinished [FINISHED_MAX_LEN, FINISHED_MAX_LEN]
           = getSize (tensor [2, 1] kUINT8 [GENERATION, GENERATION])"
    using r fin fin' mb counts bufs by (auto dest!: spec [of _ 1])
  thus ?thesis
    using ok host unfolding output'_def by simp
qed

text \<open>
  Claim C6, as stated: \<^verbatim>\<open>forward\<close> synchronises exactly when both the sequence limit
  lengths and the finished mask are given. On an empty batch both are given, and
  \<^verbatim>\<open>forward\<close> returns false after the layer without a synchronisation: the pinned
  tensor of the finished sum has no elements, its pointer is null, and nothing is read.
\<close>

theorem forward_empty_batch_counterexample:
  "sequenceLimitLength emptyInput \<noteq> None \<and> finished emptyOutput \<noteq> None
   \<and> forward finishingLayer kFLOAT 0 logProbsTiled emptyOutput emptyInput
       = ([LayerForward], Inr (False, emptyOutput))
   \<and> StreamSynchronize
       \<notin> set (fst (forward finishingLayer kFLOAT 0 logProbsTiled emptyOutput emptyInput))"
  by code_simp

text \<open>
  Claim C6, amended. A call of \<^verbatim>\<open>forward\<close> that returns has synchronised the stream if
  and only if the pointer \<^verbatim>\<open>finishedSumHost\<close> is set, which is when it reads the
  finished sum for its result: both the sequence limit lengths and the finished mask
  are given, and the tensor of the finished sum has elements (the finished sum of the
  output, or without one a pinned tensor of \<open>maxBatchSize\<close> entries). No call of
  \<^verbatim>\<open>forward\<close> synchronises otherwise, and \<^verbatim>\<open>forwardAsync\<close> never synchronises.
\<close>

theorem forward_synchronizes_to_read_finished_sum:
  "(snd (forward layer T mb tiled output inp) = Inr r \<longrightarrow>
      (StreamSynchronize \<in> set (fst (forward layer T mb tiled output inp))
        \<longleftrightarrow> finishedSumHost output inp \<noteq> None))
   \<and> (StreamSynchronize \<in> set (fst (forward layer T mb tiled output inp))
        \<longrightarrow> finishedSumHost output inp \<noteq> None)
   \<and> (finishedSumHost output inp \<noteq> None
        \<longleftrightarrow> sequenceLimitLength inp \<noteq> None \<and> finished output \<noteq> None
            \<and> (case finishedSum output of
                  Some fs \<Rightarrow> buf fs \<noteq> []
                | None \<Rightarrow> 0 < maxBatchSize inp))
   \<and> StreamSynchronize \<notin> set (fst (forwardAsync layer T mb tiled output inp))"
proof -
  have "snd (forward layer T mb tiled output inp) = Inr r \<longrightarrow>
      (StreamSynchronize \<in> set (fst (forward layer T mb tiled output inp))
        \<longleftrightarrow> finishedSumHost output inp \<noteq> None)"
    by (auto simp: forward_def split: sum.splits if_splits option.splits)
  moreover have "StreamSynchronize \<in> set (fst (forward layer T mb tiled output inp))
        \<longrightarrow> finishedSumHost output inp \<noteq> None"
    by (auto simp: forward_def split: sum.splits if_splits option.splits)
  moreover have "StreamSynchronize \<notin> set (fst (forwardAsync layer T mb tiled output inp))"
    by (auto simp: forwardAsync_def split: sum.splits)
  ultimately show ?thesis
    using finishedSumHost_given by blast
qed

theorem forward_synchronizes_to_read_finished_sum_witness:
  "StreamSynchronize \<in> set (fst (forward finishingLayer kFLOAT 2 logProbsTiled stepOutput stepInput))
   \<and> StreamSynchronize
       \<notin> set (fst (forward finishingLayer kFLOAT 2 logProbsTiled stepOutput stepInputNoLimit))
   \<and> StreamSynchronize
       \<notin> set (fst (forward finishingLayer kFLOAT 0 logProbsTiled emptyOutput emptyInput))
   \<and> StreamSynchronize
       \<notin> set (fst (forwardAsync finishingLayer kFLOAT 2 logProbsTiled stepOutput stepInput))"
proof -
  have r1: "snd (forward finishingLayer kFLOAT 2 logProbsTiled stepOutput stepInput)
      = Inr (True, stepOutput\<lparr>finished :=
                     Some (tensor [2, 1] kUINT8 [FINISHED_MAX_LEN, FINISHED_MAX_LEN])\<rparr>)"
    by code_simp
  have r2: "snd (forward finishingLayer kFLOAT 2 logProbsTiled stepOutput stepInputNoLimit)
      = Inr (False, stepOutput\<lparr>finished :=
                      Some (tensor [2, 1] kUINT8 [FINISHED_MAX_LEN, FINISHED_MAX_LEN])\<rparr>)"
    by code_simp
  have r3: "snd (forward finishingLayer kFLOAT 0 logProbsTiled emptyOutput emptyInput)
      = Inr (False, emptyOutput)"
    by code_simp
  have given: "sequenceLimitLength stepInput \<noteq> None \<and> finished stepOutput \<noteq> None
      \<and> (case finishedSum stepOutput of
            Some fs \<Rightarrow> buf fs \<noteq> []
          | None \<Rightarrow> 0 < maxBatchSize stepInput)"
    by code_simp
  have absent: "\<not> (sequenceLimitLength stepInputNoLimit \<noteq> None)"
    by code_simp
  have empty: "\<not> (case finishedSum emptyOutput of
                     Some fs \<Rightarrow> buf fs \<noteq> []
                   | None \<Rightarrow> 0 < maxBatchSize emptyInput)"
    by code_simp
  show ?thesis
    using forward_synchronizes_to_read_finished_sum
            [of finishingLayer kFLOAT 2 logProbsTiled stepOutput stepInput] r1 given
          forward_synchronizes_to_read_finished_sum
            [of finishingLayer kFLOAT 2 logProbsTiled stepOutput stepInputNoLimit] r2 absent
          forward_synchronizes_to_read_finished_sum
            [of finishingLayer kFLOAT 0 logProbsTiled emptyOutput emptyInput] r3 empty
    by blast
qed

section \<open>Properties of the penalty layer\<close>

lemma steps_inv:
  assumes "\<And>f s. f \<in> set fs \<Longrightarrow> P s \<Longrightarrow> P (snd (f s))" and "P s"
  shows "P (snd (steps fs s))"
  using assms
proof (induction fs arbitrary: s)
  case Nil
  then show ?case by simp
next
  case (Cons f fs)
  have "P (snd (f s))" using Cons.prems by simp
  then show ?case
    using Cons by (cases "f s") (auto split: option.splits)
qed

lemma flagsFrom_refl [simp]: "flagsFrom l l"
  by (simp add: flagsFrom_def)

lemma flagsFrom_trans: "flagsFrom a b \<Longrightarrow> flagsFrom b c \<Longrightarrow> flagsFrom a c"
  by (simp add: flagsFrom_def)

lemma flags_allocateWorkspace: "flagsFrom l (allocateWorkspace l)"
  by (simp add: flagsFrom_def allocateWorkspace_def Let_def)

lemma flags_configureBeamWidth: "flagsFrom l (snd (configureBeamWidth m1 m2 bw l))"
  by (simp add: flagsFrom_def configureBeamWidth_def allocateWorkspace_def Let_def)

lemma flags_setUseFlags: "flagsFrom l (setUseFlags pp l)"
  by (simp add: flagsFrom_def setUseFlags_def Let_def)

lemma flags_fill:
  "flagsFrom l (snd (fillTemperature lims dflt n slots pp l))"
  "flagsFrom l (snd (fillRepetitionPenalty lims dflt n slots pp l))"
  "flagsFrom l (snd (fillPresencePenalty lims dflt n slots pp l))"
  "flagsFrom l (snd (fillFrequencyPenalty lims dflt n slots pp l))"
  "flagsFrom l (snd (fillMinLength lims dflt n slots pp l))"
  by (simp_all add: flagsFrom_def fillTemperature_def fillRepetitionPenalty_def
        fillPresencePenalty_def fillFrequencyPenalty_def fillMinLength_def split: prod.splits)

lemma flags_steps:
  assumes "\<And>f s. f \<in> set fs \<Longrightarrow> flagsFrom s (snd (f s))"
  shows "flagsFrom l (snd (steps fs l))"
proof -
  have "flagsFrom l (snd (steps fs s))" if "flagsFrom l s" for s
    using that
    by (rule steps_inv [where P = "flagsFrom l", rotated]) (use assms flagsFrom_trans in blast)
  then show ?thesis by simp
qed

lemma flags_setup_inner:
  "flagsFrom l (snd (steps [(\<lambda>l2. (None, setUseFlags pp l2)),
                            fillTemperature lims dflt n slots pp,
                            fillRepetitionPenalty lims dflt n slots pp,
                            fillPresencePenalty lims dflt n slots pp,
                            fillFrequencyPenalty lims dflt n slots pp,
                            fillMinLength lims dflt n slots pp] l))"
  by (rule flags_steps) (auto simp: flags_setUseFlags flags_fill)

lemma flags_penaltySetup:
  "flagsFrom l (snd (penaltySetup lims dflt m1 m2 n bw slots pp l))"
  unfolding penaltySetup_def Let_def
  by (rule flags_steps)
     (auto simp: flags_configureBeamWidth flags_setup_inner simp del: steps.simps
           split: option.splits)

lemma layer_storePointers: "flagsFrom l (storePointers p l)"
  by (simp add: flagsFrom_def storePointers_def)

lemma flags_preparePointerTable: "preparePointerTable n l = Inr l1 \<Longrightarrow> flagsFrom l l1"
  by (auto simp: flagsFrom_def preparePointerTable_def Let_def split: if_splits)

lemma flags_penaltyForwardAsync:
  "flagsFrom l (ps_layer (penaltyForwardAsync k gl dflt outputs params mem l))"
  by (auto simp: penaltyForwardAsync_def failed_def Let_def flagsFrom_def storePointers_def
           dest!: flags_preparePointerTable
           split: sum.splits prod.splits option.splits)

lemma flags_runCalls:
  "flagsFrom (fst s) (fst (runCalls k gl lims dflt m1 m2 cs s))"
proof (induction cs arbitrary: s)
  case Nil
  then show ?case by simp
next
  case (Cons c cs)
  show ?case
  proof (cases c)
    case (CallSetup n bw slots pp)
    show ?thesis
      using Cons [of "(snd (penaltySetup lims dflt m1 m2 n bw slots pp (fst s)), snd s)"]
        flags_penaltySetup [of "fst s" lims dflt m1 m2 n bw slots pp]
      by (auto simp: CallSetup intro: flagsFrom_trans)
  next
    case (CallForwardAsync outputs params)
    show ?thesis
      using Cons [of "(ps_layer (penaltyForwardAsync k gl dflt outputs params (snd s) (fst s)),
                       ps_memory (penaltyForwardAsync k gl dflt outputs params (snd s) (fst s)))"]
        flags_penaltyForwardAsync [of "fst s" k gl dflt outputs params "snd s"]
      by (auto simp: CallForwardAsync intro: flagsFrom_trans)
  qed
qed



lemma keeps_fill:
  "keeps l (snd (fillTemperature lims dflt n slots pp l))"
  "keeps l (snd (fillRepetitionPenalty lims dflt n slots pp l))"
  "keeps l (snd (fillPresencePenalty lims dflt n slots pp l))"
  "keeps l (snd (fillFrequencyPenalty lims dflt n slots pp l))"
  "keeps l (snd (fillMinLength lims dflt n slots pp l))"
  by (simp_all add: keeps_def fillTemperature_def fillRepetitionPenalty_def
        fillPresencePenalty_def fillFrequencyPenalty_def fillMinLength_def split: prod.splits)

lemma keeps_fills:
  "keeps l (snd (steps [fillTemperature lims dflt n slots pp,
                        fillRepetitionPenalty lims dflt n slots pp,
                        fillPresencePenalty lims dflt n slots pp,
                        fillFrequencyPenalty lims dflt n slots pp,
                        fillMinLength lims dflt n slots pp] l))"
proof (rule steps_inv [where P = "keeps l"])
  fix f s
  assume "f \<in> set [fillTemperature lims dflt n slots pp,
                    fillRepetitionPenalty lims dflt n slots pp,
                    fillPresencePenalty lims dflt n slots pp,
                    fillFrequencyPenalty lims dflt n slots pp,
                    fillMinLength lims dflt n slots pp]" and "keeps l s"
  then show "keeps l (snd (f s))"
    using keeps_fill [of s lims dflt n slots pp] by (auto simp: keeps_def)
next
  show "keeps l l" by (simp add: keeps_def)
qed

lemma penaltySetup_unfold:
  assumes "configureBeamWidth m1 m2 bw l = (None, l1)"
  shows "snd (penaltySetup lims dflt m1 m2 n bw slots (Some pp) l)
         = snd (steps [fillTemperature lims dflt n (case slots of Some b \<Rightarrow> b | None \<Rightarrow> getDefaultBatchSlots n) pp,
                       fillRepetitionPenalty lims dflt n (case slots of Some b \<Rightarrow> b | None \<Rightarrow> getDefaultBatchSlots n) pp,
                       fillPresencePenalty lims dflt n (case slots of Some b \<Rightarrow> b | None \<Rightarrow> getDefaultBatchSlots n) pp,
                       fillFrequencyPenalty lims dflt n (case slots of Some b \<Rightarrow> b | None \<Rightarrow> getDefaultBatchSlots n) pp,
                       fillMinLength lims dflt n (case slots of Some b \<Rightarrow> b | None \<Rightarrow> getDefaultBatchSlots n) pp]
                  (setUseFlags pp l1))"
proof -
  have "penaltySetup lims dflt m1 m2 n bw slots (Some pp) l
      = steps [(\<lambda>l2. (None, setUseFlags pp l2)),
               fillTemperature lims dflt n (case slots of Some b \<Rightarrow> b | None \<Rightarrow> getDefaultBatchSlots n) pp,
               fillRepetitionPenalty lims dflt n (case slots of Some b \<Rightarrow> b | None \<Rightarrow> getDefaultBatchSlots n) pp,
               fillPresencePenalty lims dflt n (case slots of Some b \<Rightarrow> b | None \<Rightarrow> getDefaultBatchSlots n) pp,
               fillFrequencyPenalty lims dflt n (case slots of Some b \<Rightarrow> b | None \<Rightarrow> getDefaultBatchSlots n) pp,
               fillMinLength lims dflt n (case slots of Some b \<Rightarrow> b | None \<Rightarrow> getDefaultBatchSlots n) pp] l1"
    unfolding penaltySetup_def Let_def
    by (subst steps.simps) (simp add: assms split: prod.splits option.splits)
  then show ?thesis
    by (subst (asm) steps.simps) simp
qed

lemma configureBeamWidth_flags:
  assumes "configureBeamWidth m1 m2 bw l = (e, l1)"
  shows "mUseTemperature l1 = mUseTemperature l" "mUseRepetitionPenalty l1 = mUseRepetitionPenalty l"
    "mUsePresencePenalty l1 = mUsePresencePenalty l" "mUseFrequencyPenalty l1 = mUseFrequencyPenalty l"
    "mUseMinLength l1 = mUseMinLength l"
  using assms
  by (auto simp: configureBeamWidth_def allocateWorkspace_def Let_def split: if_splits)

lemma penaltySetup_flags:
  fixes lims dflt n slots pp
  assumes cfg: "configureBeamWidth m1 m2 bw l = (None, l1)"
  defines "l' \<equiv> snd (penaltySetup lims dflt m1 m2 n bw slots (Some pp) l)"
  shows "mUseTemperature l' = (mUseTemperature l \<or> isUseTemperature (mDecodingMode l1) \<and> temperature pp \<noteq> None)"
    and "mUseRepetitionPenalty l' = (mUseRepetitionPenalty l \<or> isUseRepetitionPenalty (mDecodingMode l1) \<and> repetitionPenalty pp \<noteq> None)"
    and "mUsePresencePenalty l' = (mUsePresencePenalty l \<or> isUsePresencePenalty (mDecodingMode l1) \<and> presencePenalty pp \<noteq> None)"
    and "mUseFrequencyPenalty l' = (mUseFrequencyPenalty l \<or> isUseFrequencyPenalty (mDecodingMode l1) \<and> frequencyPenalty pp \<noteq> None)"
    and "mUseMinLength l' = (mUseMinLength l \<or> isUseMinLength (mDecodingMode l1) \<and> minLength pp \<noteq> None)"
proof -
  have k: "keeps (setUseFlags pp l1) l'"
    unfolding l'_def penaltySetup_unfold [OF cfg] by (rule keeps_fills)
  show "mUseTemperature l' = (mUseTemperature l \<or> isUseTemperature (mDecodingMode l1) \<and> temperature pp \<noteq> None)"
    and "mUseRepetitionPenalty l' = (mUseRepetitionPenalty l \<or> isUseRepetitionPenalty (mDecodingMode l1) \<and> repetitionPenalty pp \<noteq> None)"
    and "mUsePresencePenalty l' = (mUsePresencePenalty l \<or> isUsePresencePenalty (mDecodingMode l1) \<and> presencePenalty pp \<noteq> None)"
    and "mUseFrequencyPenalty l' = (mUseFrequencyPenalty l \<or> isUseFrequencyPenalty (mDecodingMode l1) \<and> frequencyPenalty pp \<noteq> None)"
    and "mUseMinLength l' = (mUseMinLength l \<or> isUseMinLength (mDecodingMode l1) \<and> minLength pp \<noteq> None)"
    using k configureBeamWidth_flags [OF cfg]
    by (simp_all add: keeps_def setUseFlags_def Let_def)
qed

lemma preparePointerTable_fields:
  assumes "preparePointerTable n l = Inr l1"
  shows "mUseTemperature l1 = mUseTemperature l" "mUseRepetitionPenalty l1 = mUseRepetitionPenalty l"
    "mUsePresencePenalty l1 = mUsePresencePenalty l" "mUseFrequencyPenalty l1 = mUseFrequencyPenalty l"
    "mUseMinLength l1 = mUseMinLength l"
    "mTemperature l1 = mTemperature l" "mRepetitionPenalty l1 = mRepetitionPenalty l"
    "mPresencePenalty l1 = mPresencePenalty l" "mFrequencyPenalty l1 = mFrequencyPenalty l"
    "mMinLength l1 = mMinLength l"
    "mTemperatureDevice l1 = mTemperatureDevice l" "mRepetitionPenaltyDevice l1 = mRepetitionPenaltyDevice l"
    "mPresencePenaltyDevice l1 = mPresencePenaltyDevice l" "mFrequencyPenaltyDevice l1 = mFrequencyPenaltyDevice l"
    "mMinLengthDevice l1 = mMinLengthDevice l"
    "mRuntimeLogitsDevice l1 = mRuntimeLogitsDevice l" "mDecoderDomain l1 = mDecoderDomain l"
  using assms by (auto simp: preparePointerTable_def Let_def split: if_splits)

lemma launched_params:
  assumes "ps_launched (penaltyForwardAsync k gl dflt outputs params mem l) = Some p"
  shows "\<exists>l1 ptrs seqLens.
           preparePointerTable (nat (last (shape (bo_outputIds outputs)))) l = Inr l1
         \<and> p = penaltyKernelParams dflt (gl params (mDecoderDomain l))
                 (nat (last (shape (bo_outputIds outputs)))) ptrs outputs seqLens params
                 (storePointers ptrs l1)
         \<and> ps_memory (penaltyForwardAsync k gl dflt outputs params mem l)
             = mem(mRuntimeLogitsDevice l := fst (k p mem))
         \<and> ps_error (penaltyForwardAsync k gl dflt outputs params mem l) = None"
  using assms
  by (auto simp: penaltyForwardAsync_def failed_def Let_def
           split: if_splits sum.splits prod.splits option.splits)


lemma launched_when_ok:
  assumes "ps_error (penaltyForwardAsync k gl dflt outputs params mem l) = None"
  shows "\<exists>p. ps_launched (penaltyForwardAsync k gl dflt outputs params mem l) = Some p"
  using assms
  by (auto simp: penaltyForwardAsync_def failed_def Let_def
           split: if_splits sum.splits prod.splits option.splits)

lemma not_launched_when_failed:
  assumes "ps_error (penaltyForwardAsync k gl dflt outputs params mem l) \<noteq> None"
  shows "ps_inputs (penaltyForwardAsync k gl dflt outputs params mem l) = params"
    and "ps_memory (penaltyForwardAsync k gl dflt outputs params mem l) = mem"
  using assms
  by (auto simp: penaltyForwardAsync_def failed_def Let_def
           split: if_splits sum.splits prod.splits option.splits)

lemma inputs_after:
  "ps_inputs (penaltyForwardAsync k gl dflt outputs params mem l)
   = params\<lparr>di_logits := di_logits (ps_inputs (penaltyForwardAsync k gl dflt outputs params mem l))\<rparr>"
  "ps_error (penaltyForwardAsync k gl dflt outputs params mem l) = None \<Longrightarrow>
   map_option ref_buffer (di_logits (ps_inputs (penaltyForwardAsync k gl dflt outputs params mem l)))
   = Some (mRuntimeLogitsDevice l)"
  by (auto simp: penaltyForwardAsync_def failed_def Let_def
           split: if_splits sum.splits prod.splits option.splits)

lemma memory_frame:
  "b \<noteq> mRuntimeLogitsDevice l \<Longrightarrow>
   ps_memory (penaltyForwardAsync k gl dflt outputs params mem l) b = mem b"
  by (auto simp: penaltyForwardAsync_def failed_def Let_def
           split: if_splits sum.splits prod.splits option.splits)


text \<open>
  Claim C5, as stated: a penalty class is enabled the first time a setup call installs
  a non-default value, and once its flag is set the penalty is applied on every later
  step without a scan of the slots. Two requests are set up, slot 0 with temperature
  \<open>1/2\<close> and slot 1 with the default temperature. The temperature flag is set, yet a
  step over slot 1 alone hands no temperatures to the kernel: the step scans its slots
  and finds the default everywhere. And a setup call that gives the default
  temperature to a fresh layer sets the flag, though no non-default value is installed.
\<close>

theorem penalty_applied_every_step_counterexample:
  "mUseTemperature afterTwoSetups
   \<and> map_option temperatures
        (ps_launched (penaltyForwardAsync exampleKernel localDomain penaltyDefaults penaltyOutputs
                        slotOneInputs callerMemory afterTwoSetups)) = Some None
   \<and> \<not> mUseTemperature freshLayer
   \<and> mUseTemperature
        (snd (penaltySetup penaltyLimits penaltyDefaults penaltyMode penaltyMode 1 1 (Some [1])
                (Some (withTemperature 1)) freshLayer))"
  by code_simp

text \<open>
  Claim C5, amended. (1) No sequence of setup and forwardAsync calls clears a use flag
  that is set, whether or not the calls throw. (2) A setup call that passes the
  beam-width configuration and has penalty parameters leaves each flag set exactly if
  it was set before or the call gives a value for the class, default or not, and the
  decoding mode uses the class. (3) A forwardAsync call that launches the kernel hands
  it the device buffer of a class exactly if the flag of the class is set and not all
  slots of the step hold the default value of the class; otherwise it hands it nothing
  for the class.
\<close>

theorem penalty_use_flags:
  fixes lims dflt n slots pp
  shows
  "flagsFrom (fst s) (fst (runCalls k gl lims dflt m1 m2 calls s))
   \<and> (configureBeamWidth m1 m2 bw l = (None, l1) \<longrightarrow>
        mUseTemperature (snd (penaltySetup lims dflt m1 m2 n bw slots (Some pp) l))
          = (mUseTemperature l \<or> isUseTemperature (mDecodingMode l1) \<and> temperature pp \<noteq> None)
      \<and> mUseRepetitionPenalty (snd (penaltySetup lims dflt m1 m2 n bw slots (Some pp) l))
          = (mUseRepetitionPenalty l
             \<or> isUseRepetitionPenalty (mDecodingMode l1) \<and> repetitionPenalty pp \<noteq> None)
      \<and> mUsePresencePenalty (snd (penaltySetup lims dflt m1 m2 n bw slots (Some pp) l))
          = (mUsePresencePenalty l
             \<or> isUsePresencePenalty (mDecodingMode l1) \<and> presencePenalty pp \<noteq> None)
      \<and> mUseFrequencyPenalty (snd (penaltySetup lims dflt m1 m2 n bw slots (Some pp) l))
          = (mUseFrequencyPenalty l
             \<or> isUseFrequencyPenalty (mDecodingMode l1) \<and> frequencyPenalty pp \<noteq> None)
      \<and> mUseMinLength (snd (penaltySetup lims dflt m1 m2 n bw slots (Some pp) l))
          = (mUseMinLength l \<or> isUseMinLength (mDecodingMode l1) \<and> minLength pp \<noteq> None))
   \<and> (ps_error (penaltyForwardAsync k gl dflt outputs params mem l) = None \<longrightarrow>
        map_option temperatures (ps_launched (penaltyForwardAsync k gl dflt outputs params mem l))
          = Some (if mUseTemperature l
                     \<and> \<not> allOfBatchSlots (stepBatchSlots gl params l) (mTemperature l)
                           (getBatchSize (gl params (mDecoderDomain l))) (getTemperature dflt)
                  then mTemperatureDevice l else None)
      \<and> map_option repetitionPenalties
          (ps_launched (penaltyForwardAsync k gl dflt outputs params mem l))
          = Some (if mUseRepetitionPenalty l
                     \<and> \<not> allOfBatchSlots (stepBatchSlots gl params l) (mRepetitionPenalty l)
                           (getBatchSize (gl params (mDecoderDomain l))) (getRepetitionPenalty dflt)
                  then mRepetitionPenaltyDevice l else None)
      \<and> map_option presencePenalties
          (ps_launched (penaltyForwardAsync k gl dflt outputs params mem l))
          = Some (if mUsePresencePenalty l
                     \<and> \<not> allOfBatchSlots (stepBatchSlots gl params l) (mPresencePenalty l)
                           (getBatchSize (gl params (mDecoderDomain l))) (getPresencePenalty dflt)
                  then mPresencePenaltyDevice l else None)
      \<and> map_option frequencyPenalties
          (ps_launched (penaltyForwardAsync k gl dflt outputs params mem l))
          = Some (if mUseFrequencyPenalty l
                     \<and> \<not> allOfBatchSlots (stepBatchSlots gl params l) (mFrequencyPenalty l)
                           (getBatchSize (gl params (mDecoderDomain l))) (getFrequencyPenalty dflt)
                  then mFrequencyPenaltyDevice l else None)
      \<and> map_option minLengths (ps_launched (penaltyForwardAsync k gl dflt outputs params mem l))
          = Some (if mUseMinLength l
                     \<and> \<not> allOfBatchSlots (stepBatchSlots gl params l) (mMinLength l)
                           (getBatchSize (gl params (mDecoderDomain l))) (getMinLength dflt)
                  then mMinLengthDevice l else None))"
proof (intro conjI impI)
  show "flagsFrom (fst s) (fst (runCalls k gl lims dflt m1 m2 calls s))"
    by (rule flags_runCalls)
next
  assume cfg: "configureBeamWidth m1 m2 bw l = (None, l1)"
  note penaltySetup_flags [OF cfg, of lims dflt n slots pp]
  then show "mUseTemperature (snd (penaltySetup lims dflt m1 m2 n bw slots (Some pp) l))
          = (mUseTemperature l \<or> isUseTemperature (mDecodingMode l1) \<and> temperature pp \<noteq> None)"
    and "mUseRepetitionPenalty (snd (penaltySetup lims dflt m1 m2 n bw slots (Some pp) l))
          = (mUseRepetitionPenalty l
             \<or> isUseRepetitionPenalty (mDecodingMode l1) \<and> repetitionPenalty pp \<noteq> None)"
    and "mUsePresencePenalty (snd (penaltySetup lims dflt m1 m2 n bw slots (Some pp) l))
          = (mUsePresencePenalty l
             \<or> isUsePresencePenalty (mDecodingMode l1) \<and> presencePenalty pp \<noteq> None)"
    and "mUseFrequencyPenalty (snd (penaltySetup lims dflt m1 m2 n bw slots (Some pp) l))
          = (mUseFrequencyPenalty l
             \<or> isUseFrequencyPenalty (mDecodingMode l1) \<and> frequencyPenalty pp \<noteq> None)"
    and "mUseMinLength (snd (penaltySetup lims dflt m1 m2 n bw slots (Some pp) l))
          = (mUseMinLength l \<or> isUseMinLength (mDecodingMode l1) \<and> minLength pp \<noteq> None)"
    by blast+
next
  assume ok: "ps_error (penaltyForwardAsync k gl dflt outputs params mem l) = None"
  then obtain p where p: "ps_launched (penaltyForwardAsync k gl dflt outputs params mem l) = Some p"
    using launched_when_ok by blast
  from launched_params [OF p] obtain l1 ptrs seqLens where
    l1: "preparePointerTable (nat (last (shape (bo_outputIds outputs)))) l = Inr l1"
    and pe: "p = penaltyKernelParams dflt (gl params (mDecoderDomain l))
                 (nat (last (shape (bo_outputIds outputs)))) ptrs outputs seqLens params
                 (storePointers ptrs l1)"
    by blast
  note f = preparePointerTable_fields [OF l1]
  show "map_option temperatures (ps_launched (penaltyForwardAsync k gl dflt outputs params mem l))
          = Some (if mUseTemperature l
                     \<and> \<not> allOfBatchSlots (stepBatchSlots gl params l) (mTemperature l)
                           (getBatchSize (gl params (mDecoderDomain l))) (getTemperature dflt)
                  then mTemperatureDevice l else None)"
    by (simp add: p pe penaltyKernelParams_def Let_def getPenalties_def storePointers_def f
          stepBatchSlots_def)
  show "map_option repetitionPenalties
          (ps_launched (penaltyForwardAsync k gl dflt outputs params mem l))
          = Some (if mUseRepetitionPenalty l
                     \<and> \<not> allOfBatchSlots (stepBatchSlots gl params l) (mRepetitionPenalty l)
                           (getBatchSize (gl params (mDecoderDomain l))) (getRepetitionPenalty dflt)
                  then mRepetitionPenaltyDevice l else None)"
    by (simp add: p pe penaltyKernelParams_def Let_def getPenalties_def storePointers_def f
          stepBatchSlots_def)
  show "map_option presencePenalties
          (ps_launched (penaltyForwardAsync k gl dflt outputs params mem l))
          = Some (if mUsePresencePenalty l
                     \<and> \<not> allOfBatchSlots (stepBatchSlots gl params l) (mPresencePenalty l)
                           (getBatchSize (gl params (mDecoderDomain l))) (getPresencePenalty dflt)
                  then mPresencePenaltyDevice l else None)"
    by (simp add: p pe penaltyKernelParams_def Let_def getPenalties_def storePointers_def f
          stepBatchSlots_def)
  show "map_option frequencyPenalties
          (ps_launched (penaltyForwardAsync k gl dflt outputs params mem l))
          = Some (if mUseFrequencyPenalty l
                     \<and> \<not> allOfBatchSlots (stepBatchSlots gl params l) (mFrequencyPenalty l)
                           (getBatchSize (gl params (mDecoderDomain l))) (getFrequencyPenalty dflt)
                  then mFrequencyPenaltyDevice l else None)"
    by (simp add: p pe penaltyKernelParams_def Let_def getPenalties_def storePointers_def f
          stepBatchSlots_def)
  show "map_option minLengths (ps_launched (penaltyForwardAsync k gl dflt outputs params mem l))
          = Some (if mUseMinLength l
                     \<and> \<not> allOfBatchSlots (stepBatchSlots gl params l) (mMinLength l)
                           (getBatchSize (gl params (mDecoderDomain l))) (getMinLength dflt)
                  then mMinLengthDevice l else None)"
    by (simp add: p pe penaltyKernelParams_def Let_def getPenalties_def storePointers_def f
          stepBatchSlots_def)
qed

theorem penalty_use_flags_witness:
  "mUseTemperature
     (fst (runCalls exampleKernel localDomain penaltyLimits penaltyDefaults penaltyMode penaltyMode
             [CallForwardAsync penaltyOutputs slotOneInputs, CallSetup 1 1 (Some [1]) None]
             (afterTwoSetups, callerMemory)))
   \<and> mUseTemperature
        (snd (penaltySetup penaltyLimits penaltyDefaults penaltyMode penaltyMode 1 1 (Some [0])
                (Some (withTemperature (1 / 2))) freshLayer))
   \<and> map_option temperatures
        (ps_launched (penaltyForwardAsync exampleKernel localDomain penaltyDefaults penaltyOutputs
                        slotZeroInputs callerMemory afterTwoSetups)) = Some (Some [1 / 2, 1])"
proof -
  have flag: "mUseTemperature afterTwoSetups"
    by code_simp
  have cfg: "configureBeamWidth penaltyMode penaltyMode 1 freshLayer = (None, freshLayer)"
    by code_simp
  have given: "isUseTemperature (mDecodingMode freshLayer)"
      "temperature (withTemperature (1 / 2)) \<noteq> None"
    by code_simp+
  have ok: "ps_error (penaltyForwardAsync exampleKernel localDomain penaltyDefaults penaltyOutputs
                        slotZeroInputs callerMemory afterTwoSetups) = None"
    by code_simp
  have scan: "\<not> allOfBatchSlots (stepBatchSlots localDomain slotZeroInputs afterTwoSetups)
                   (mTemperature afterTwoSetups)
                   (getBatchSize (localDomain slotZeroInputs (mDecoderDomain afterTwoSetups)))
                   (getTemperature penaltyDefaults)"
    by code_simp
  have dev: "mTemperatureDevice afterTwoSetups = Some [1 / 2, 1]"
    by code_simp
  show ?thesis
    using penalty_use_flags
            [where s = "(afterTwoSetups, callerMemory)" and k = exampleKernel and gl = localDomain
               and lims = penaltyLimits and dflt = penaltyDefaults and ?m1.0 = penaltyMode
               and ?m2.0 = penaltyMode
               and calls = "[CallForwardAsync penaltyOutputs slotOneInputs,
                             CallSetup 1 1 (Some [1]) None]"
               and bw = 1 and l = freshLayer and ?l1.0 = freshLayer and n = 1
               and slots = "Some [0]" and pp = "withTemperature (1 / 2)"]
          penalty_use_flags
            [where s = "(afterTwoSetups, callerMemory)" and k = exampleKernel and gl = localDomain
               and lims = penaltyLimits and dflt = penaltyDefaults and ?m1.0 = penaltyMode
               and ?m2.0 = penaltyMode and calls = "[]"
               and l = afterTwoSetups and outputs = penaltyOutputs and params = slotZeroInputs
               and mem = callerMemory]
          flag cfg given ok scan dev
    by (simp add: flagsFrom_def)
qed

text \<open>
  Claim C9. \<^verbatim>\<open>forwardAsync\<close> of the penalty layer changes no device buffer but the
  layer's own logits buffer: every other buffer, and so every input tensor of the
  caller that lives in another buffer, holds after the call what it held before. When
  the call succeeds, the kernel was given the layer's buffer as its output and the
  memory differs from the old one by what the kernel wrote there. Of the inputs
  structure only the logits handle changes; after a successful call it names the
  layer's buffer, and after an exception neither the structure nor the memory has
  changed.
\<close>

theorem penalty_forward_writes_own_buffer:
  "(b \<noteq> mRuntimeLogitsDevice l \<longrightarrow> ps_memory (penaltyForwardAsync k gl dflt outputs params mem l) b = mem b)
   \<and> ((di_logits params = Some t \<or> (\<exists>lv. di_logitsVec params = Some lv \<and> Some t \<in> set lv))
        \<and> ref_buffer t \<noteq> mRuntimeLogitsDevice l
      \<longrightarrow> ps_memory (penaltyForwardAsync k gl dflt outputs params mem l) (ref_buffer t) = mem (ref_buffer t))
   \<and> (ps_error (penaltyForwardAsync k gl dflt outputs params mem l) = None \<longrightarrow>
        map_option outputLogits (ps_launched (penaltyForwardAsync k gl dflt outputs params mem l)) = Some (mRuntimeLogitsDevice l)
      \<and> (\<exists>p. ps_launched (penaltyForwardAsync k gl dflt outputs params mem l) = Some p
             \<and> ps_memory (penaltyForwardAsync k gl dflt outputs params mem l) = mem(mRuntimeLogitsDevice l := fst (k p mem)))
      \<and> map_option ref_buffer (di_logits (ps_inputs (penaltyForwardAsync k gl dflt outputs params mem l))) = Some (mRuntimeLogitsDevice l))
   \<and> ps_inputs (penaltyForwardAsync k gl dflt outputs params mem l) = params\<lparr>di_logits := di_logits (ps_inputs (penaltyForwardAsync k gl dflt outputs params mem l))\<rparr>
   \<and> (ps_error (penaltyForwardAsync k gl dflt outputs params mem l) \<noteq> None \<longrightarrow> ps_inputs (penaltyForwardAsync k gl dflt outputs params mem l) = params \<and> ps_memory (penaltyForwardAsync k gl dflt outputs params mem l) = mem)"
proof (intro conjI impI)
  show "ps_memory (penaltyForwardAsync k gl dflt outputs params mem l) b = mem b" if "b \<noteq> mRuntimeLogitsDevice l"
    using that by (rule memory_frame)
  show "ps_memory (penaltyForwardAsync k gl dflt outputs params mem l) (ref_buffer t) = mem (ref_buffer t)"
    if "(di_logits params = Some t \<or> (\<exists>lv. di_logitsVec params = Some lv \<and> Some t \<in> set lv))
        \<and> ref_buffer t \<noteq> mRuntimeLogitsDevice l"
    using that by (simp add: memory_frame)
  show "ps_inputs (penaltyForwardAsync k gl dflt outputs params mem l) = params\<lparr>di_logits := di_logits (ps_inputs (penaltyForwardAsync k gl dflt outputs params mem l))\<rparr>"
    by (rule inputs_after(1))
next
  assume ok: "ps_error (penaltyForwardAsync k gl dflt outputs params mem l) = None"
  then obtain p where p: "ps_launched (penaltyForwardAsync k gl dflt outputs params mem l) = Some p"
    using launched_when_ok by blast
  from launched_params [OF p] obtain l1 ptrs seqLens where
    l1: "preparePointerTable (nat (last (shape (bo_outputIds outputs)))) l = Inr l1"
    and pe: "p = penaltyKernelParams dflt (gl params (mDecoderDomain l))
                 (nat (last (shape (bo_outputIds outputs)))) ptrs outputs seqLens params
                 (storePointers ptrs l1)"
    and m: "ps_memory (penaltyForwardAsync k gl dflt outputs params mem l) = mem(mRuntimeLogitsDevice l := fst (k p mem))"
    by blast
  show "map_option outputLogits (ps_launched (penaltyForwardAsync k gl dflt outputs params mem l)) = Some (mRuntimeLogitsDevice l)"
    by (simp add: p pe penaltyKernelParams_def Let_def storePointers_def
          preparePointerTable_fields [OF l1])
  show "\<exists>p. ps_launched (penaltyForwardAsync k gl dflt outputs params mem l) = Some p
           \<and> ps_memory (penaltyForwardAsync k gl dflt outputs params mem l) = mem(mRuntimeLogitsDevice l := fst (k p mem))"
    using p m by blast
  show "map_option ref_buffer (di_logits (ps_inputs (penaltyForwardAsync k gl dflt outputs params mem l))) = Some (mRuntimeLogitsDevice l)"
    using ok by (rule inputs_after(2))
next
  assume "ps_error (penaltyForwardAsync k gl dflt outputs params mem l) \<noteq> None"
  then show "ps_inputs (penaltyForwardAsync k gl dflt outputs params mem l) = params" and "ps_memory (penaltyForwardAsync k gl dflt outputs params mem l) = mem"
    by (rule not_launched_when_failed)+
qed

theorem penalty_forward_writes_own_buffer_witness:
  "ps_memory (penaltyForwardAsync exampleKernel localDomain penaltyDefaults penaltyOutputs slotZeroInputs callerMemory afterTwoSetups) 1 = [1, 2, 3, 4]
   \<and> ps_memory (penaltyForwardAsync exampleKernel localDomain penaltyDefaults penaltyOutputs slotZeroInputs callerMemory afterTwoSetups) 0 = [2, 4, 0, 0]
   \<and> map_option ref_buffer (di_logits (ps_inputs (penaltyForwardAsync exampleKernel localDomain penaltyDefaults penaltyOutputs slotZeroInputs callerMemory afterTwoSetups))) = Some 0
   \<and> ps_inputs (penaltyForwardAsync exampleKernel localDomain penaltyDefaults outputsWithoutLengths
                  slotZeroInputs callerMemory afterTwoSetups) = slotZeroInputs"
proof -
  have other: "1 \<noteq> mRuntimeLogitsDevice afterTwoSetups"
    by code_simp
  have input: "di_logits slotZeroInputs = Some \<lparr>ref_buffer = 1, ref_offset = 0, ref_shape = [1, 1, 1, 2]\<rparr>"
    by code_simp
  have ok: "ps_error (penaltyForwardAsync exampleKernel localDomain penaltyDefaults penaltyOutputs slotZeroInputs callerMemory afterTwoSetups) = None"
    by code_simp
  have bad: "ps_error (penaltyForwardAsync exampleKernel localDomain penaltyDefaults
                         outputsWithoutLengths slotZeroInputs callerMemory afterTwoSetups) \<noteq> None"
    by code_simp
  have own: "mRuntimeLogitsDevice afterTwoSetups = 0"
    by code_simp
  have written: "ps_memory (penaltyForwardAsync exampleKernel localDomain penaltyDefaults penaltyOutputs slotZeroInputs callerMemory afterTwoSetups) 0 = [2, 4, 0, 0]"
    by code_simp
  have before: "callerMemory 1 = [1, 2, 3, 4]"
    by code_simp
  show ?thesis
    using penalty_forward_writes_own_buffer
            [where b = 1 and l = afterTwoSetups and k = exampleKernel and gl = localDomain
               and dflt = penaltyDefaults and outputs = penaltyOutputs and params = slotZeroInputs
               and mem = callerMemory
               and t = "\<lparr>ref_buffer = 1, ref_offset = 0, ref_shape = [1, 1, 1, 2]\<rparr>"]
          penalty_forward_writes_own_buffer
            [where b = 1 and l = afterTwoSetups and k = exampleKernel and gl = localDomain
               and dflt = penaltyDefaults and outputs = outputsWithoutLengths
               and params = slotZeroInputs and mem = callerMemory
               and t = "\<lparr>ref_buffer = 1, ref_offset = 0, ref_shape = [1, 1, 1, 2]\<rparr>"]
          other input ok bad own written before
    by simp
qed


section \<open>Properties of the block manager\<close>

lemma count_concat: "count_list (concat xs) i = sum_list (map (\<lambda>l. count_list l i) xs)"
  by (induction xs) simp_all

lemma count_concat_append:
  assumes "s < length xs"
  shows "count_list (concat (xs[s := xs ! s @ [b]])) i
         = count_list (concat xs) i + (if i = b then 1 else 0)"
proof -
  have a: "concat xs = concat (take s xs) @ xs ! s @ concat (drop (Suc s) xs)"
    using assms by (metis concat.simps(2) concat_append id_take_nth_drop)
  have b: "concat (xs[s := xs ! s @ [b]])
      = concat (take s xs) @ (xs ! s @ [b]) @ concat (drop (Suc s) xs)"
    using assms by (simp add: upd_conv_take_nth_drop)
  show ?thesis
    by (simp add: a b)
qed

lemma count_concat_clear:
  assumes "s < length xs"
  shows "count_list (concat (xs[s := []])) i = count_list (concat xs) i - count_list (xs ! s) i"
proof -
  have a: "concat xs = concat (take s xs) @ xs ! s @ concat (drop (Suc s) xs)"
    using assms by (metis concat.simps(2) concat_append id_take_nth_drop)
  have b: "concat (xs[s := []]) = concat (take s xs) @ concat (drop (Suc s) xs)"
    using assms by (simp add: upd_conv_take_nth_drop)
  show ?thesis
    by (simp add: a b)
qed

lemma count_le_concat:
  assumes "s < length xs"
  shows "count_list (xs ! s) i \<le> count_list (concat xs) i"
proof -
  have a: "concat xs = concat (take s xs) @ xs ! s @ concat (drop (Suc s) xs)"
    using assms by (metis concat.simps(2) concat_append id_take_nth_drop)
  show ?thesis by (simp add: a)
qed

lemma references_fresh: "references (newBlockManager t P S N) i = 0"
  by (simp add: references_def newBlockManager_def count_concat)

lemma blockInv_fresh: "blockInv P S N {} (newBlockManager t P S N)"
  unfolding blockInv_def blockInvC_def
  by (simp add: references_fresh)
     (auto simp: newBlockManager_def newKVCacheBlock_def isPrimary_def)

text \<open>The blocks in a free queue of the manager.\<close>

lemma blockInvC_getFreeBlock:
  assumes "blockInvC P S N {} c m" and "getFreeBlock m = Inr (b, m1)"
  shows "blockInvC P S N {b} c m1" and "b < P + S"
    and "b \<notin> set (mFreePrimaryBlocks m1) \<union> set (mFreeSecondaryBlocks m1)"
    and "mAllocatedBlocksPerSeq m1 = mAllocatedBlocksPerSeq m"
proof -
  have zp: "set (mFreePrimaryBlocks m) = {i. i < P \<and> c i = 0}"
    and zs: "set (mFreeSecondaryBlocks m) = {i. P \<le> i \<and> i < P + S \<and> c i = 0}"
    and dp: "distinct (mFreePrimaryBlocks m)" and ds: "distinct (mFreeSecondaryBlocks m)"
    using assms(1) by (simp_all add: blockInvC_def)
  have disj: "set (mFreePrimaryBlocks m) \<inter> set (mFreeSecondaryBlocks m) = {}"
    unfolding zp zs by auto
  consider rest where "mFreePrimaryBlocks m = b # rest" "m1 = m\<lparr>mFreePrimaryBlocks := rest\<rparr>"
    | rest where "mFreePrimaryBlocks m = []" "mFreeSecondaryBlocks m = b # rest"
        "m1 = m\<lparr>mFreeSecondaryBlocks := rest\<rparr>"
    using assms(2) by (auto simp: getFreeBlock_def split: list.splits)
  then have "blockInvC P S N {b} c m1 \<and> b < P + S
      \<and> b \<notin> set (mFreePrimaryBlocks m1) \<union> set (mFreeSecondaryBlocks m1)
      \<and> mAllocatedBlocksPerSeq m1 = mAllocatedBlocksPerSeq m"
  proof cases
    case 1
    have "b \<in> set (mFreePrimaryBlocks m)"
      using 1(1) by simp
    then have "b \<in> {i. i < P \<and> c i = 0}"
      by (simp only: zp)
    then have bP: "b < P" "c b = 0"
      by simp_all
    have nr: "b \<notin> set rest"
      using dp 1(1) by simp
    have ns: "b \<notin> set (mFreeSecondaryBlocks m)"
      unfolding zs using bP by simp
    have hp: "{i \<in> {b}. i < P} = {b}" and hs: "{i \<in> {b}. P \<le> i} = {}"
      using bP by auto
    have "set rest \<union> {b} = set (mFreePrimaryBlocks m)"
      using 1(1) by simp
    then have e1: "set rest \<union> {i \<in> {b}. i < P} = {i. i < P \<and> c i = 0}"
      by (simp only: hp zp)
    have e2: "set (mFreeSecondaryBlocks m) \<union> {i \<in> {b}. P \<le> i}
        = {i. P \<le> i \<and> i < P + S \<and> c i = 0}"
      by (simp only: hs zs Un_empty_right)
    note e = e1 e2
    have d: "(set rest \<union> set (mFreeSecondaryBlocks m)) \<inter> {b} = {}"
      using nr ns by simp
    have "distinct rest"
      using dp 1(1) by simp
    then have "blockInvC P S N {b} c m1"
      using assms(1) e d unfolding blockInvC_def by (simp add: 1(2))
    then show ?thesis
      using bP nr ns by (simp add: 1(2))
  next
    case 2
    have "b \<in> set (mFreeSecondaryBlocks m)"
      using 2(2) by simp
    then have "b \<in> {i. P \<le> i \<and> i < P + S \<and> c i = 0}"
      by (simp only: zs)
    then have bS: "P \<le> b" "b < P + S" "c b = 0"
      by simp_all
    have nr: "b \<notin> set rest"
      using ds 2(2) by simp
    have np: "b \<notin> set (mFreePrimaryBlocks m)"
      using 2(1) by simp
    have hp: "{i \<in> {b}. i < P} = {}" and hs: "{i \<in> {b}. P \<le> i} = {b}"
      using bS by auto
    have "set rest \<union> {b} = set (mFreeSecondaryBlocks m)"
      using 2(2) by simp
    then have e2: "set rest \<union> {i \<in> {b}. P \<le> i} = {i. P \<le> i \<and> i < P + S \<and> c i = 0}"
      by (simp only: hs zs)
    have e1: "set (mFreePrimaryBlocks m) \<union> {i \<in> {b}. i < P} = {i. i < P \<and> c i = 0}"
      by (simp only: hp zp Un_empty_right)
    note e = e1 e2
    have d: "(set (mFreePrimaryBlocks m) \<union> set rest) \<inter> {b} = {}"
      using nr np by simp
    have "distinct rest"
      using ds 2(2) by simp
    then have "blockInvC P S N {b} c m1"
      using assms(1) e d unfolding blockInvC_def by (simp add: 2(3))
    then show ?thesis
      using bS nr np by (simp add: 2(3))
  qed
  then show "blockInvC P S N {b} c m1" and "b < P + S"
    and "b \<notin> set (mFreePrimaryBlocks m1) \<union> set (mFreeSecondaryBlocks m1)"
    and "mAllocatedBlocksPerSeq m1 = mAllocatedBlocksPerSeq m"
    by simp_all
qed

lemma references_getFreeBlock:
  "getFreeBlock m = Inr (b, m1) \<Longrightarrow> references m1 = references m"
  by (auto simp: getFreeBlock_def references_def split: list.splits)

lemma blockInv_getFreeBlock:
  assumes "blockInv P S N {} m" and "getFreeBlock m = Inr (b, m1)"
  shows "blockInv P S N {b} m1" and "b < P + S"
    and "b \<notin> set (mFreePrimaryBlocks m1) \<union> set (mFreeSecondaryBlocks m1)"
  using blockInvC_getFreeBlock [of P S N "references m" m b m1] assms
    references_getFreeBlock [OF assms(2)]
  by (simp_all add: blockInv_def)

text \<open>A block is handed out as long as one of the queues has one.\<close>

lemma getFreeBlock_fails:
  "getFreeBlock m = Inl e \<longleftrightarrow> e = OutOfCache \<and> mFreePrimaryBlocks m = [] \<and> mFreeSecondaryBlocks m = []"
  by (auto simp: getFreeBlock_def split: list.splits)

lemma blockInv_addBlockToBeam:
  assumes inv: "blockInv P S N H m" and b: "b < P + S"
      "b \<notin> set (mFreePrimaryBlocks m) \<union> set (mFreeSecondaryBlocks m)"
    and r: "mSeqSlotIdx r < N" "beamIdx < length (mCacheBlockIds r)"
  shows "\<exists>r' m'. addBlockToBeam b beamIdx r m = (None, r', m') \<and> blockInv P S N (H - {b}) m'
           \<and> mFreePrimaryBlocks m' = mFreePrimaryBlocks m
           \<and> mFreeSecondaryBlocks m' = mFreeSecondaryBlocks m \<and> sameSequence r r'"
proof -
  let ?c = "references m"
  let ?c' = "?c(b := Suc (?c b))"
  have c: "blockInvC P S N H ?c m"
    using inv by (simp add: blockInv_def)
  then have len: "length (mAllBlocksByIdx m) = P + S" "length (mAllocatedBlocksPerSeq m) = N"
    by (simp_all add: blockInvC_def)
  define r' where "r' = r\<lparr>mCacheBlockIds :=
      (mCacheBlockIds r)[beamIdx := mCacheBlockIds r ! beamIdx @ [b]]\<rparr>"
  define m' where "m' = m\<lparr>mAllBlocksByIdx :=
        (mAllBlocksByIdx m)[b := (mAllBlocksByIdx m ! b)\<lparr>mRefCount := mRefCount (mAllBlocksByIdx m ! b) + 1\<rparr>],
      mAllocatedBlocksPerSeq :=
        (mAllocatedBlocksPerSeq m)[mSeqSlotIdx r := mAllocatedBlocksPerSeq m ! mSeqSlotIdx r @ [b]]\<rparr>"
  have res: "addBlockToBeam b beamIdx r m = (None, r', m')"
    using b r len by (simp add: addBlockToBeam_def addCacheBlock_def r'_def m'_def)
  have refs: "references m' = ?c'"
    using r(1) len(2) by (auto simp: references_def m'_def count_concat_append fun_eq_iff)
  have fh: "(set (mFreePrimaryBlocks m) \<union> set (mFreeSecondaryBlocks m)) \<inter> H = {}"
      "set (mFreePrimaryBlocks m) \<union> {i \<in> H. i < P} = {i. i < P \<and> ?c i = 0}"
      "set (mFreeSecondaryBlocks m) \<union> {i \<in> H. P \<le> i} = {i. P \<le> i \<and> i < P + S \<and> ?c i = 0}"
    using c by (simp_all add: blockInvC_def)
  have up: "set (mFreePrimaryBlocks m) \<union> {i \<in> H - {b}. i < P} = {i. i < P \<and> ?c' i = 0}"
  proof -
    have "set (mFreePrimaryBlocks m) \<union> {i \<in> H - {b}. i < P}
        = (set (mFreePrimaryBlocks m) \<union> {i \<in> H. i < P}) - {b}"
      using b(2) by auto
    also have "\<dots> = {i. i < P \<and> ?c i = 0} - {b}"
      by (simp only: fh(2))
    also have "\<dots> = {i. i < P \<and> ?c' i = 0}"
      by auto
    finally show ?thesis .
  qed
  have us: "set (mFreeSecondaryBlocks m) \<union> {i \<in> H - {b}. P \<le> i}
      = {i. P \<le> i \<and> i < P + S \<and> ?c' i = 0}"
  proof -
    have "set (mFreeSecondaryBlocks m) \<union> {i \<in> H - {b}. P \<le> i}
        = (set (mFreeSecondaryBlocks m) \<union> {i \<in> H. P \<le> i}) - {b}"
      using b(2) by auto
    also have "\<dots> = {i. P \<le> i \<and> i < P + S \<and> ?c i = 0} - {b}"
      by (simp only: fh(3))
    also have "\<dots> = {i. P \<le> i \<and> i < P + S \<and> ?c' i = 0}"
      by auto
    finally show ?thesis .
  qed
  have i: "(set (mFreePrimaryBlocks m) \<union> set (mFreeSecondaryBlocks m)) \<inter> (H - {b}) = {}"
    using fh(1) by auto
  have "blockInvC P S N (H - {b}) ?c' m'"
    unfolding blockInvC_def
  proof (intro conjI allI impI)
    show "length (mAllBlocksByIdx m') = P + S" "length (mAllocatedBlocksPerSeq m') = N"
      using len by (simp_all add: m'_def)
    show "distinct (mFreePrimaryBlocks m')" "distinct (mFreeSecondaryBlocks m')"
      using c by (simp_all add: blockInvC_def m'_def)
    show "(set (mFreePrimaryBlocks m') \<union> set (mFreeSecondaryBlocks m')) \<inter> (H - {b}) = {}"
      using i by (simp add: m'_def)
    show "set (mFreePrimaryBlocks m') \<union> {i \<in> H - {b}. i < P} = {i. i < P \<and> ?c' i = 0}"
      using up by (simp add: m'_def)
    show "set (mFreeSecondaryBlocks m') \<union> {i \<in> H - {b}. P \<le> i}
        = {i. P \<le> i \<and> i < P + S \<and> ?c' i = 0}"
      using us by (simp add: m'_def)
    show "mRefCount (mAllBlocksByIdx m' ! i) = int (?c' i)" if "i < P + S" for i
      using c that len b(1) by (auto simp: blockInvC_def m'_def nth_list_update)
    show "isPrimary (mAllBlocksByIdx m' ! i) = (i < P)" if "i < P + S" for i
      using c that len b(1) by (auto simp: blockInvC_def m'_def nth_list_update isPrimary_def)
    show "i < P + S" if "0 < ?c' i" for i
      using c that b(1) by (auto simp: blockInvC_def split: if_splits)
  qed
  then have "blockInv P S N (H - {b}) m'"
    by (simp add: blockInv_def refs)
  moreover have "mFreePrimaryBlocks m' = mFreePrimaryBlocks m"
      "mFreeSecondaryBlocks m' = mFreeSecondaryBlocks m" "sameSequence r r'"
    by (simp_all add: m'_def r'_def sameSequence_def)
  ultimately show ?thesis
    using res by blast
qed


lemma sameSequence_refl [simp]: "sameSequence r r"
  by (simp add: sameSequence_def)

lemma sameSequence_trans: "sameSequence a b \<Longrightarrow> sameSequence b c \<Longrightarrow> sameSequence a c"
  by (simp add: sameSequence_def)

lemma blockInv_shareBlock:
  assumes "blockInv P S N H m" and "b < P + S"
    and "b \<notin> set (mFreePrimaryBlocks m) \<union> set (mFreeSecondaryBlocks m)"
    and "mSeqSlotIdx r < N" and "\<forall>beamIdx \<in> set beams. beamIdx < length (mCacheBlockIds r)"
  shows "\<exists>r' m'. shareBlock b beams r m = (None, r', m')
           \<and> blockInv P S N (if beams = [] then H else H - {b}) m' \<and> sameSequence r r'"
  using assms
proof (induction beams arbitrary: r m H)
  case Nil
  then show ?case by simp
next
  case (Cons beamIdx beams)
  obtain r1 m1 where a: "addBlockToBeam b beamIdx r m = (None, r1, m1)"
    and i1: "blockInv P S N (H - {b}) m1"
    and f1: "mFreePrimaryBlocks m1 = mFreePrimaryBlocks m"
            "mFreeSecondaryBlocks m1 = mFreeSecondaryBlocks m"
    and s1: "sameSequence r r1"
    using blockInv_addBlockToBeam [OF Cons.prems(1-4), of beamIdx] Cons.prems(5) by auto
  have "\<exists>r' m'. shareBlock b beams r1 m1 = (None, r', m')
           \<and> blockInv P S N (if beams = [] then H - {b} else H - {b} - {b}) m' \<and> sameSequence r1 r'"
    using Cons.prems s1 f1 by (intro Cons.IH [OF i1]) (auto simp: sameSequence_def)
  then obtain r' m' where "shareBlock b beams r1 m1 = (None, r', m')"
    and "blockInv P S N (H - {b}) m'" and "sameSequence r1 r'"
    by (auto split: if_splits)
  then show ?case
    using a s1 by (auto intro: sameSequence_trans)
qed

lemma blockInv_blockPerBeam:
  assumes "blockInv P S N {} m" and "mSeqSlotIdx r < N"
    and "\<forall>beamIdx \<in> set beams. beamIdx < length (mCacheBlockIds r)"
  shows "\<exists>e r' m'. blockPerBeam beams r m = (e, r', m') \<and> blockInv P S N {} m' \<and> sameSequence r r'"
  using assms
proof (induction beams arbitrary: r m)
  case Nil
  then show ?case by simp
next
  case (Cons beamIdx beams)
  show ?case
  proof (cases "getFreeBlock m")
    case (Inl e)
    then show ?thesis using Cons.prems by simp
  next
    case (Inr p)
    obtain b m0 where p: "p = (b, m0)" by (cases p)
    note g = blockInv_getFreeBlock [OF Cons.prems(1) Inr [unfolded p]]
    obtain r1 m1 where a: "addBlockToBeam b beamIdx r m0 = (None, r1, m1)"
      and i1: "blockInv P S N ({b} - {b}) m1" and s1: "sameSequence r r1"
      using blockInv_addBlockToBeam [OF g(1) g(2) g(3) Cons.prems(2), of beamIdx] Cons.prems(3)
      by auto
    have "\<exists>e r' m'. blockPerBeam beams r1 m1 = (e, r', m') \<and> blockInv P S N {} m'
            \<and> sameSequence r1 r'"
      using Cons.prems s1 i1 by (intro Cons.IH) (auto simp: sameSequence_def)
    then show ?thesis
      using Inr p a s1 by (auto intro: sameSequence_trans)
  qed
qed

lemma blockInv_allocateBlock:
  assumes "blockInv P S N {} m" and "validSequence N r"
  shows "\<exists>e r' m'. allocateBlock share r m = (e, r', m') \<and> blockInv P S N {} m'
           \<and> sameSequence r r'"
proof -
  have beams: "\<forall>beamIdx \<in> set [0..<mBeamWidth r]. beamIdx < length (mCacheBlockIds r)"
    and slot: "mSeqSlotIdx r < N" and pos: "[0..<mBeamWidth r] \<noteq> []"
    using assms(2) by (auto simp: validSequence_def)
  show ?thesis
  proof (cases share)
    case False
    then show ?thesis
      using blockInv_blockPerBeam [OF assms(1) slot beams]
      by (simp add: allocateBlock_def Let_def)
  next
    case share: True
    show ?thesis
    proof (cases "getFreeBlock m")
      case (Inl e)
      then show ?thesis using share assms(1) by (simp add: allocateBlock_def Let_def)
    next
      case (Inr p)
      obtain b m0 where p: "p = (b, m0)" by (cases p)
      note g = blockInv_getFreeBlock [OF assms(1) Inr [unfolded p]]
      have "\<exists>r' m'. shareBlock b [0..<mBeamWidth r] r m0 = (None, r', m')
              \<and> blockInv P S N (if [0..<mBeamWidth r] = [] then {b} else {b} - {b}) m'
              \<and> sameSequence r r'"
        using g slot beams by (intro blockInv_shareBlock) auto
      then show ?thesis
        using share Inr p pos by (auto simp: allocateBlock_def Let_def)
    qed
  qed
qed

lemma validSequence_same: "validSequence N r \<Longrightarrow> sameSequence r r' \<Longrightarrow> validSequence N r'"
  by (simp add: validSequence_def sameSequence_def)

lemma blockInv_addBlocks:
  assumes "blockInv P S N {} m" and "validSequence N r"
  shows "\<exists>e r' m'. addBlocks u bis r m = (e, r', m') \<and> blockInv P S N {} m'"
  using assms
proof (induction bis arbitrary: r m)
  case Nil
  then show ?case by simp
next
  case (Cons bi bis)
  obtain e r1 m1 where a: "allocateBlock (int bi \<noteq> u) r m = (e, r1, m1)"
    and i1: "blockInv P S N {} m1" and s1: "sameSequence r r1"
    using blockInv_allocateBlock [OF Cons.prems] by blast
  show ?case
  proof (cases e)
    case None
    then show ?thesis
      using a Cons.IH [OF i1 validSequence_same [OF Cons.prems(2) s1]] by simp
  next
    case (Some x)
    then show ?thesis using a i1 by simp
  qed
qed


lemma blockInvC_releaseBlock:
  assumes inv: "blockInvC P S N {} c m" and pos: "0 < c b"
  shows "\<exists>m'. releaseBlock b False m = (None, m') \<and> blockInvC P S N {} (c(b := c b - 1)) m'
           \<and> mAllocatedBlocksPerSeq m' = mAllocatedBlocksPerSeq m"
proof -
  let ?c' = "c(b := c b - 1)"
  have bPS: "b < P + S" using inv pos by (simp add: blockInvC_def)
  have len: "length (mAllBlocksByIdx m) = P + S" using inv by (simp add: blockInvC_def)
  have rc: "mRefCount (mAllBlocksByIdx m ! b) = int (c b)"
    using inv bPS by (simp add: blockInvC_def)
  have prim: "isPrimary (mAllBlocksByIdx m ! b) \<longleftrightarrow> b < P"
    using inv bPS by (simp add: blockInvC_def)
  define m1 where "m1 = m\<lparr>mAllBlocksByIdx :=
      (mAllBlocksByIdx m)[b := (mAllBlocksByIdx m ! b)\<lparr>mRefCount := mRefCount (mAllBlocksByIdx m ! b) - 1\<rparr>]\<rparr>"
  have rc1: "mRefCount (mAllBlocksByIdx m1 ! i) = int (?c' i)" if "i < P + S" for i
    using inv that len pos by (auto simp: blockInvC_def m1_def nth_list_update rc)
  have prim1: "isPrimary (mAllBlocksByIdx m1 ! i) = (i < P)" if "i < P + S" for i
  proof (cases "i = b")
    case True
    then show ?thesis using prim bPS len by (simp add: m1_def isPrimary_def)
  next
    case False
    then show ?thesis using inv that by (simp add: blockInvC_def m1_def)
  qed
  have free: "set (mFreePrimaryBlocks m) = {i. i < P \<and> c i = 0}"
      "set (mFreeSecondaryBlocks m) = {i. P \<le> i \<and> i < P + S \<and> c i = 0}"
      "distinct (mFreePrimaryBlocks m)" "distinct (mFreeSecondaryBlocks m)"
    using inv by (simp_all add: blockInvC_def)
  have notfree: "b \<notin> set (mFreePrimaryBlocks m)" "b \<notin> set (mFreeSecondaryBlocks m)"
    using free pos by auto
  have bound: "i < P + S" if "0 < ?c' i" for i
    using inv that bPS by (auto simp: blockInvC_def split: if_splits)
  show ?thesis
  proof (cases "c b = 1")
    case False
    then have more: "0 < c b - 1" using pos by simp
    have res: "releaseBlock b False m = (None, m1)"
      using bPS len rc pos more
      by (simp add: releaseBlock_def hasRefs_def Let_def m1_def)
    have z: "{i. i < P \<and> ?c' i = 0} = {i. i < P \<and> c i = 0}"
        "{i. P \<le> i \<and> i < P + S \<and> ?c' i = 0} = {i. P \<le> i \<and> i < P + S \<and> c i = 0}"
      using more pos by auto
    have "blockInvC P S N {} ?c' m1"
      unfolding blockInvC_def
    proof (intro conjI allI impI)
      show "length (mAllBlocksByIdx m1) = P + S" "length (mAllocatedBlocksPerSeq m1) = N"
        "distinct (mFreePrimaryBlocks m1)" "distinct (mFreeSecondaryBlocks m1)"
        "(set (mFreePrimaryBlocks m1) \<union> set (mFreeSecondaryBlocks m1)) \<inter> {} = {}"
        using inv by (simp_all add: blockInvC_def m1_def)
      show "set (mFreePrimaryBlocks m1) \<union> {i \<in> {}. i < P} = {i. i < P \<and> ?c' i = 0}"
        using free z by (simp add: m1_def)
      show "set (mFreeSecondaryBlocks m1) \<union> {i \<in> {}. P \<le> i}
          = {i. P \<le> i \<and> i < P + S \<and> ?c' i = 0}"
        using free z by (simp add: m1_def)
      show "mRefCount (mAllBlocksByIdx m1 ! i) = int (?c' i)" if "i < P + S" for i
        using that by (rule rc1)
      show "isPrimary (mAllBlocksByIdx m1 ! i) = (i < P)" if "i < P + S" for i
        using that by (rule prim1)
      show "i < P + S" if "0 < ?c' i" for i
        using that by (rule bound)
    qed
    then show ?thesis using res by (simp add: m1_def)
  next
    case True
    define m2 where "m2 = enqueueFree b False m1"
    have flag: "isPrimary (mAllBlocksByIdx m1 ! b) \<longleftrightarrow> b < P"
      using prim1 [of b] bPS by simp
    have res: "releaseBlock b False m = (None, m2)"
      using bPS len rc pos True
      by (simp add: releaseBlock_def hasRefs_def Let_def m1_def [symmetric] m2_def)
         (simp add: m1_def)
    have queues: "mFreePrimaryBlocks m2 = (if b < P then mFreePrimaryBlocks m @ [b]
                                            else mFreePrimaryBlocks m)"
        "mFreeSecondaryBlocks m2 = (if b < P then mFreeSecondaryBlocks m
                                     else mFreeSecondaryBlocks m @ [b])"
        "mAllBlocksByIdx m2 = mAllBlocksByIdx m1"
        "mAllocatedBlocksPerSeq m2 = mAllocatedBlocksPerSeq m"
      using flag by (simp_all add: m2_def enqueueFree_def) (simp_all add: m1_def)
    have zp: "{i. i < P \<and> ?c' i = 0}
        = (if b < P then insert b {i. i < P \<and> c i = 0} else {i. i < P \<and> c i = 0})"
      using True by auto
    have zs: "{i. P \<le> i \<and> i < P + S \<and> ?c' i = 0}
        = (if b < P then {i. P \<le> i \<and> i < P + S \<and> c i = 0}
           else insert b {i. P \<le> i \<and> i < P + S \<and> c i = 0})"
      using True bPS by auto
    have "blockInvC P S N {} ?c' m2"
      unfolding blockInvC_def
    proof (intro conjI allI impI)
      show "length (mAllBlocksByIdx m2) = P + S" "length (mAllocatedBlocksPerSeq m2) = N"
        using inv by (simp_all add: blockInvC_def queues m1_def)
      show "(set (mFreePrimaryBlocks m2) \<union> set (mFreeSecondaryBlocks m2)) \<inter> {} = {}"
        by simp
      show "distinct (mFreePrimaryBlocks m2)" "distinct (mFreeSecondaryBlocks m2)"
        using free notfree by (simp_all add: queues)
      show "set (mFreePrimaryBlocks m2) \<union> {i \<in> {}. i < P} = {i. i < P \<and> ?c' i = 0}"
        unfolding zp using free by (simp add: queues)
      show "set (mFreeSecondaryBlocks m2) \<union> {i \<in> {}. P \<le> i}
          = {i. P \<le> i \<and> i < P + S \<and> ?c' i = 0}"
        unfolding zs using free by (simp add: queues)
      show "mRefCount (mAllBlocksByIdx m2 ! i) = int (?c' i)" if "i < P + S" for i
        using rc1 [OF that] by (simp add: queues)
      show "isPrimary (mAllBlocksByIdx m2 ! i) = (i < P)" if "i < P + S" for i
        using prim1 [OF that] by (simp add: queues)
      show "i < P + S" if "0 < ?c' i" for i
        using that by (rule bound)
    qed
    then show ?thesis using res by (simp add: queues)
  qed
qed

lemma blockInvC_releaseAll:
  assumes "blockInvC P S N {} c m" and "\<forall>i. count_list xs i \<le> c i"
  shows "\<exists>m'. releaseAll xs m = (None, m') \<and> blockInvC P S N {} (\<lambda>i. c i - count_list xs i) m'
           \<and> mAllocatedBlocksPerSeq m' = mAllocatedBlocksPerSeq m"
  using assms
proof (induction xs arbitrary: c m)
  case Nil
  then show ?case by simp
next
  case (Cons b xs)
  have pos: "0 < c b"
    using Cons.prems(2) [rule_format, of b] by simp
  obtain m1 where r1: "releaseBlock b False m = (None, m1)"
    and i1: "blockInvC P S N {} (c(b := c b - 1)) m1"
    and a1: "mAllocatedBlocksPerSeq m1 = mAllocatedBlocksPerSeq m"
    using blockInvC_releaseBlock [OF Cons.prems(1) pos] by blast
  have le: "\<forall>i. count_list xs i \<le> (c(b := c b - 1)) i"
  proof
    fix i
    show "count_list xs i \<le> (c(b := c b - 1)) i"
      using Cons.prems(2) [rule_format, of i] by (cases "i = b") auto
  qed
  obtain m' where r2: "releaseAll xs m1 = (None, m')"
    and i2: "blockInvC P S N {} (\<lambda>i. (c(b := c b - 1)) i - count_list xs i) m'"
    and a2: "mAllocatedBlocksPerSeq m' = mAllocatedBlocksPerSeq m1"
    using Cons.IH [OF i1 le] by blast
  have eq: "(\<lambda>i. (c(b := c b - 1)) i - count_list xs i) = (\<lambda>i. c i - count_list (b # xs) i)"
    by (auto simp: fun_eq_iff)
  have "blockInvC P S N {} (\<lambda>i. c i - count_list (b # xs) i) m'"
    using i2 unfolding eq .
  moreover have "releaseAll (b # xs) m = (None, m')"
    using r1 r2 by simp
  ultimately show ?case
    using a1 a2 by (intro exI [of _ m']) simp
qed

lemma blockInv_releaseBlocks:
  assumes "blockInv P S N {} m"
  shows "\<exists>e r' m'. releaseBlocks r m = (e, r', m') \<and> blockInv P S N {} m'"
proof (cases "mSeqSlotIdx r < length (mAllocatedBlocksPerSeq m)")
  case False
  then show ?thesis using assms by (simp add: releaseBlocks_def)
next
  case True
  let ?xs = "mAllocatedBlocksPerSeq m ! mSeqSlotIdx r"
  have c: "blockInvC P S N {} (references m) m"
    using assms by (simp add: blockInv_def)
  have le: "\<forall>i. count_list ?xs i \<le> references m i"
    using True by (simp add: references_def count_le_concat)
  obtain m1 where r1: "releaseAll ?xs m = (None, m1)"
    and i1: "blockInvC P S N {} (\<lambda>i. references m i - count_list ?xs i) m1"
    and a1: "mAllocatedBlocksPerSeq m1 = mAllocatedBlocksPerSeq m"
    using blockInvC_releaseAll [OF c le] by blast
  define m' where "m' = m1\<lparr>mAllocatedBlocksPerSeq := (mAllocatedBlocksPerSeq m1)[mSeqSlotIdx r := []]\<rparr>"
  have refs: "references m' = (\<lambda>i. references m i - count_list ?xs i)"
    using True by (simp add: references_def m'_def a1 count_concat_clear fun_eq_iff)
  have "blockInvC P S N {} (\<lambda>i. references m i - count_list ?xs i) m'"
    using i1 by (simp add: blockInvC_def m'_def)
  then have "blockInv P S N {} m'"
    by (simp add: blockInv_def refs)
  then show ?thesis
    using True r1 by (simp add: releaseBlocks_def m'_def)
qed

lemma blockInv_runBlockCall:
  assumes "blockInv P S N {} m" and "validSequence N (sequenceOf call)"
  shows "blockInv P S N {} (runBlockCall call m)"
proof (cases call)
  case (AddSequence r numBlocks u)
  then have v: "validSequence N r" using assms(2) by simp
  show ?thesis
    using blockInv_addBlocks [OF assms(1) v, of u "[0..<numBlocks]"]
    by (auto simp: AddSequence addSequence_def)
next
  case (AllocateBlock r share)
  then have v: "validSequence N r" using assms(2) by simp
  show ?thesis
    using blockInv_allocateBlock [OF assms(1) v, of share] by (auto simp: AllocateBlock)
next
  case (ReleaseBlocks r)
  then show ?thesis
    using blockInv_releaseBlocks [OF assms(1), of r] by auto
qed

lemma blockInv_runBlockCalls:
  assumes "blockInv P S N {} m" and "list_all (\<lambda>call. validSequence N (sequenceOf call)) calls"
  shows "blockInv P S N {} (runBlockCalls calls m)"
  using assms unfolding runBlockCalls_def
  by (induction calls arbitrary: m) (simp_all add: blockInv_runBlockCall)

lemma blockInv_all_free:
  assumes "blockInv P S N {} m" and "noSequenceLeft m"
  shows "getNumFreeBlocks m = P" and "getMaxNumBlocks m = P + S"
    and "length (mFreeSecondaryBlocks m) = S"
proof -
  have "concat (mAllocatedBlocksPerSeq m) = []"
    using assms(2) by (simp add: noSequenceLeft_def list_all_iff)
  then have none: "references m = (\<lambda>i. 0)"
    by (simp add: references_def fun_eq_iff del: concat_eq_Nil_conv)
  have "set (mFreePrimaryBlocks m) = {..<P}" and d: "distinct (mFreePrimaryBlocks m)"
    using assms(1) none by (auto simp: blockInv_def blockInvC_def)
  then have "card (set (mFreePrimaryBlocks m)) = P"
    by simp
  then show "getNumFreeBlocks m = P"
    using d by (simp add: getNumFreeBlocks_def distinct_card)
  have "set (mFreeSecondaryBlocks m) = {P..<P + S}" and ds: "distinct (mFreeSecondaryBlocks m)"
    using assms(1) none by (auto simp: blockInv_def blockInvC_def)
  then have "card (set (mFreeSecondaryBlocks m)) = S"
    by simp
  then show "length (mFreeSecondaryBlocks m) = S"
    using ds by (simp add: distinct_card)
  show "getMaxNumBlocks m = P + S"
    using assms(1) by (simp add: blockInv_def blockInvC_def getMaxNumBlocks_def)
qed

text \<open>
  Whatever calls are made on a fresh manager, for sequences with a slot of the manager
  and at least one beam, and whether or not calls fail for lack of blocks: once no slot
  holds a block, every block is back in the free queue of its pool. The free blocks
  that \<^verbatim>\<open>getNumFreeBlocks\<close> counts are then the blocks of the primary pool, and
  \<^verbatim>\<open>getMaxNumBlocks\<close> counts the blocks of both pools.
\<close>

lemma free_blocks_after_last_sequence:
  assumes "list_all (\<lambda>call. validSequence N (sequenceOf call)) calls"
    and "noSequenceLeft (runBlockCalls calls (newBlockManager t P S N))"
  shows "getNumFreeBlocks (runBlockCalls calls (newBlockManager t P S N)) = P"
    and "length (mFreeSecondaryBlocks (runBlockCalls calls (newBlockManager t P S N))) = S"
    and "getMaxNumBlocks (runBlockCalls calls (newBlockManager t P S N)) = P + S"
proof -
  have "blockInv P S N {} (runBlockCalls calls (newBlockManager t P S N))"
    using blockInv_fresh assms(1) by (rule blockInv_runBlockCalls)
  from blockInv_all_free [OF this assms(2)]
  show "getNumFreeBlocks (runBlockCalls calls (newBlockManager t P S N)) = P"
    and "length (mFreeSecondaryBlocks (runBlockCalls calls (newBlockManager t P S N))) = S"
    and "getMaxNumBlocks (runBlockCalls calls (newBlockManager t P S N)) = P + S"
    by simp_all
qed

text \<open>
  With the primary queue empty a block of the secondary queue is handed out: of two
  sequences on a manager of one primary and two secondary blocks, the second gets
  block 1. After both are released the queues are as at the start.
\<close>

lemma secondary_block_handed_out:
  "mAllocatedBlocksPerSeq (runBlockCalls (take 2 intoSecondary) (newBlockManager 4 1 2 2))
     = [[0], [1]]
   \<and> mFreeSecondaryBlocks (runBlockCalls (take 2 intoSecondary) (newBlockManager 4 1 2 2)) = [2]
   \<and> mFreePrimaryBlocks (runBlockCalls intoSecondary (newBlockManager 4 1 2 2)) = [0]
   \<and> mFreeSecondaryBlocks (runBlockCalls intoSecondary (newBlockManager 4 1 2 2)) = [2, 1]"
  by code_simp

text \<open>
  Claim C2: after the last sequence is removed, \<^verbatim>\<open>getNumFreeBlocks()\<close> equals
  \<^verbatim>\<open>getMaxNumBlocks()\<close>. The getters of the header do not give that when there is a
  secondary pool: the free blocks counted are those of the primary queue, while the
  table of all blocks has the secondary blocks too. A manager with one block in each
  pool reports one free block and a maximum of two after its only sequence is added and
  released, and \<^verbatim>\<open>getNumAllocatedBlocks()\<close>, which is their difference, reports one
  allocated block although no sequence holds one, as it does on the fresh manager.
\<close>

theorem free_blocks_differ_from_max_blocks:
  "noSequenceLeft (runBlockCalls addAndRelease (newBlockManager 4 1 1 1))
   \<and> getNumFreeBlocks (runBlockCalls addAndRelease (newBlockManager 4 1 1 1)) = 1
   \<and> getMaxNumBlocks (runBlockCalls addAndRelease (newBlockManager 4 1 1 1)) = 2
   \<and> getNumAllocatedBlocks (runBlockCalls addAndRelease (newBlockManager 4 1 1 1)) = 1
   \<and> getNumAllocatedBlocks (newBlockManager 4 1 1 1) = 1"
  by code_simp

end
